theory Spec2Isabelle
  imports Complex_Main "HOL-Library.Word" "HOL-Library.Sublist"
begin

section \<open>The adaptive matcher of adaptmatch.cpp\<close>

text \<open>
  The embedding follows \<^verbatim>\<open>classify/adaptmatch.cpp\<close>. Ratings are C floats and doubles;
  they are modelled as real numbers, so rounding is not part of the model. Class ids and
  blob lengths are C ints and are modelled as unbounded integers; the 16-bit fields of
  \<^verbatim>\<open>ScoredClass\<close> are 16-bit words, written through \<^verbatim>\<open>static_cast<inT16>\<close> and read back
  signed. The array \<^verbatim>\<open>match[MAX_NUM_CLASSES]\<close> with its fill count \<^verbatim>\<open>NumMatches\<close> is the
  list of its first \<^verbatim>\<open>NumMatches\<close> entries; its capacity is the caller's obligation and
  is not modelled.
\<close>

subsection \<open>Data\<close>

type_synonym CLASS_ID = int
type_synonym UNICHAR_ID = int

record ScoredClass =
  unichar_id :: CLASS_ID
  shape_id :: int
  rating :: real
  adapted :: bool
  config :: "16 word"
  fontinfo_id :: "16 word"
  fontinfo_id2 :: "16 word"

record ADAPT_RESULTS =
  BlobLength :: int
  HasNonfragment :: bool
  match :: "ScoredClass list"
  best_match :: ScoredClass

definition NumMatches :: "ADAPT_RESULTS \<Rightarrow> int" where
  "NumMatches results = int (length (match results))"

text \<open>
  The character set is an external collaborator. The record holds the queries the matcher
  makes of it: \<^verbatim>\<open>get_fragment\<close> is true where the C++ returns a non-null fragment,
  \<^verbatim>\<open>unichar_to_id\<close> is \<open>None\<close> where \<^verbatim>\<open>contains_unichar\<close> is false.
\<close>

record UNICHARSET =
  get_fragment :: "UNICHAR_ID \<Rightarrow> bool"
  get_isalpha :: "UNICHAR_ID \<Rightarrow> bool"
  get_isdigit :: "UNICHAR_ID \<Rightarrow> bool"
  get_enabled :: "UNICHAR_ID \<Rightarrow> bool"
  id_to_unichar :: "UNICHAR_ID \<Rightarrow> string"
  unichar_to_id :: "string \<Rightarrow> UNICHAR_ID option"
  get_top_bottom :: "UNICHAR_ID \<Rightarrow> int \<times> int \<times> int \<times> int"
  get_script :: "UNICHAR_ID \<Rightarrow> int"

text \<open>The tunable parameters of the classifier that the matcher reads.\<close>

record Params =
  matcher_bad_match_pad :: real
  matcher_great_threshold :: real
  matcher_avg_noise_size :: real
  matcher_permanent_classes_min :: int
  matcher_min_examples_for_prototyping :: int
  matcher_sufficient_examples_for_prototyping :: int
  tess_cn_matching :: bool
  tess_bn_matching :: bool
  tessedit_single_match :: bool
  classify_bln_numeric_mode :: bool
  use_ambigs_for_adaption :: bool
  tessedit_class_miss_scale :: real
  classify_misfit_junk_penalty :: real
  rating_scale :: real
  certainty_scale :: real

definition WORST_POSSIBLE_RATING :: real where
  "WORST_POSSIBLE_RATING = 1.0"

text \<open>
  Modelled from the spec: the constants \<^verbatim>\<open>NO_CLASS\<close> (the spec's class \<^verbatim>\<open>NONE\<close>),
  \<^verbatim>\<open>kBlankFontinfoId\<close> and \<^verbatim>\<open>MAX_INT32\<close> are declared outside this file. No theorem
  below depends on the numbers chosen for them.
\<close>

definition NO_CLASS :: CLASS_ID where
  "NO_CLASS = 0"

definition kBlankFontinfoId :: int where
  "kBlankFontinfoId = - 2"

definition MAX_INT32 :: int where
  "MAX_INT32 = 2147483647"

subsection \<open>The result set\<close>

definition Initialize :: ADAPT_RESULTS where
  "Initialize =
     \<lparr>BlobLength = MAX_INT32,
      HasNonfragment = False,
      match = [],
      best_match =
        \<lparr>unichar_id = NO_CLASS, shape_id = - 1, rating = WORST_POSSIBLE_RATING,
         adapted = False, config = 0,
         fontinfo_id = word_of_int kBlankFontinfoId,
         fontinfo_id2 = word_of_int kBlankFontinfoId\<rparr>\<rparr>"

text \<open>
  \<^verbatim>\<open>FindScoredUnichar\<close> returns a pointer to the first entry of the class, or null. The
  pointer is modelled as the index of the entry.
\<close>

primrec find_unichar :: "ScoredClass list \<Rightarrow> UNICHAR_ID \<Rightarrow> nat \<Rightarrow> nat option" where
  "find_unichar [] id' i = None"
| "find_unichar (m # ms) id' i =
     (if unichar_id m = id' then Some i else find_unichar ms id' (Suc i))"

definition FindScoredUnichar :: "ADAPT_RESULTS \<Rightarrow> UNICHAR_ID \<Rightarrow> nat option" where
  "FindScoredUnichar results id' = find_unichar (match results) id' 0"

definition ScoredUnichar :: "ADAPT_RESULTS \<Rightarrow> UNICHAR_ID \<Rightarrow> ScoredClass" where
  "ScoredUnichar results id' =
     (let poor_result =
            \<lparr>unichar_id = id', shape_id = - 1, rating = WORST_POSSIBLE_RATING,
             adapted = False, config = word_of_int (- 1),
             fontinfo_id = word_of_int kBlankFontinfoId,
             fontinfo_id2 = word_of_int kBlankFontinfoId\<rparr>
      in case FindScoredUnichar results id' of
           None \<Rightarrow> poor_result
         | Some i \<Rightarrow> match results ! i)"

text \<open>
  \<^verbatim>\<open>AddNewResult\<close>: the early return leaves the results as they are; otherwise the flag,
  the slot of the class (or a new last slot) and the running best are written in the
  order of the source.
\<close>

definition AddNewResult ::
  "Params \<Rightarrow> UNICHARSET \<Rightarrow> ADAPT_RESULTS \<Rightarrow> CLASS_ID \<Rightarrow> int \<Rightarrow> real \<Rightarrow> bool \<Rightarrow>
     int \<Rightarrow> int \<Rightarrow> int \<Rightarrow> ADAPT_RESULTS" where
  "AddNewResult par unicharset results class_id shape_id' rating' adapted' config'
       fontinfo_id' fontinfo_id2' =
     (let old_match = FindScoredUnichar results class_id;
          new_match =
            \<lparr>unichar_id = class_id, shape_id = shape_id', rating = rating',
             adapted = adapted', config = word_of_int config',
             fontinfo_id = word_of_int fontinfo_id',
             fontinfo_id2 = word_of_int fontinfo_id2'\<rparr>
      in if rating' > rating (best_match results) + matcher_bad_match_pad par \<or>
            (case old_match of
               None \<Rightarrow> False
             | Some i \<Rightarrow> rating' \<ge> rating (match results ! i))
         then results
         else
           let results1 =
                 (if \<not> get_fragment unicharset class_id
                  then results\<lparr>HasNonfragment := True\<rparr> else results);
               results2 =
                 (case old_match of
                    Some i \<Rightarrow>
                      results1\<lparr>match :=
                        (match results1)[i := (match results1 ! i)\<lparr>rating := rating'\<rparr>]\<rparr>
                  | None \<Rightarrow> results1\<lparr>match := match results1 @ [new_match]\<rparr>)
           in if rating' < rating (best_match results2) \<and>
                 \<not> get_fragment unicharset class_id
              then results2\<lparr>best_match := new_match\<rparr>
              else results2)"

subsection \<open>Failures\<close>

text \<open>
  The ways a call can stop instead of returning: a failed \<^verbatim>\<open>assert\<close> or \<^verbatim>\<open>ASSERT_HOST\<close>,
  a null pointer that is dereferenced, an index outside its table, and a read of a config
  through the variant of the union it does not hold.
\<close>

datatype error = AssertFailed | NullPointer | IndexOutOfRange | InvalidVariantRead

subsection \<open>Adaptive templates\<close>

text \<open>
  Modelled from the spec: the types of the adaptive templates are declared outside this
  file. A config is temporary or permanent (the spec's tagged union; the source reads it
  through \<^verbatim>\<open>TempConfigFor\<close>, \<^verbatim>\<open>PermConfigFor\<close> and \<^verbatim>\<open>ConfigIsPermanent\<close>); a slot that
  holds no config is \<open>None\<close>. A class pointer that is null is \<open>None\<close>. The list of
  ambiguities of a permanent config is the C array up to, and without, its negative
  terminator.
\<close>

record TEMP_CONFIG_STRUCT =
  NumTimesSeen :: int
  MaxProtoId :: int

record PERM_CONFIG_STRUCT =
  Ambigs :: "UNICHAR_ID list"
  FontinfoId :: int

datatype ADAPTED_CONFIG = Temp TEMP_CONFIG_STRUCT | Perm PERM_CONFIG_STRUCT

record ADAPT_CLASS_STRUCT =
  NumPermConfigs :: int
  MaxNumTimesSeen :: int
  Config :: "ADAPTED_CONFIG option list"

record ADAPT_TEMPLATES_STRUCT =
  NumPermClasses :: int
  Class :: "CLASS_ID \<Rightarrow> ADAPT_CLASS_STRUCT option"

text \<open>
  \<^verbatim>\<open>TempConfigReliable\<close>. The loop over the ambiguities returns false at the first class
  that has no permanent config and was not seen often enough; the \<^verbatim>\<open>assert\<close> on the class
  pointer is a failure. \<^verbatim>\<open>AmbigsForAdaption\<close> is the dictionary's table; a null vector has
  size 0.
\<close>

fun ambigs_seen_enough ::
  "Params \<Rightarrow> ADAPT_TEMPLATES_STRUCT \<Rightarrow> UNICHAR_ID list \<Rightarrow> error + bool" where
  "ambigs_seen_enough par AdaptedTemplates [] = Inr True"
| "ambigs_seen_enough par AdaptedTemplates (ambig # ambigs) =
     (case Class AdaptedTemplates ambig of
        None \<Rightarrow> Inl AssertFailed
      | Some ambig_class \<Rightarrow>
          if NumPermConfigs ambig_class = 0 \<and>
             MaxNumTimesSeen ambig_class < matcher_min_examples_for_prototyping par
          then Inr False
          else ambigs_seen_enough par AdaptedTemplates ambigs)"

definition TempConfigReliable ::
  "Params \<Rightarrow> (CLASS_ID \<Rightarrow> UNICHAR_ID list option) \<Rightarrow> ADAPT_TEMPLATES_STRUCT \<Rightarrow>
     CLASS_ID \<Rightarrow> TEMP_CONFIG_STRUCT \<Rightarrow> error + bool" where
  "TempConfigReliable par AmbigsForAdaption AdaptedTemplates class_id config' =
     (if NumTimesSeen config' \<ge> matcher_sufficient_examples_for_prototyping par
      then Inr True
      else if NumTimesSeen config' < matcher_min_examples_for_prototyping par
      then Inr False
      else if use_ambigs_for_adaption par
      then ambigs_seen_enough par AdaptedTemplates
             (case AmbigsForAdaption class_id of None \<Rightarrow> [] | Some ambigs \<Rightarrow> ambigs)
      else Inr True)"

subsection \<open>Rating correction\<close>

text \<open>
  \<^verbatim>\<open>ComputeCorrectedRating\<close>. \<^verbatim>\<open>ApplyCNCorrection\<close> belongs to the integer matcher and is a
  parameter; \<^verbatim>\<open>cn_factors\<close> is the array of normalization factors, read at the class. The
  \<^verbatim>\<open>debug\<close> argument only prints and is left out.
\<close>

definition ComputeCorrectedRating ::
  "Params \<Rightarrow> UNICHARSET \<Rightarrow> (real \<Rightarrow> int \<Rightarrow> 8 word \<Rightarrow> real) \<Rightarrow> UNICHAR_ID \<Rightarrow> real \<Rightarrow> real \<Rightarrow>
     int \<Rightarrow> int \<Rightarrow> int \<Rightarrow> int \<Rightarrow> (UNICHAR_ID \<Rightarrow> 8 word) \<Rightarrow> real" where
  "ComputeCorrectedRating par unicharset ApplyCNCorrection unichar_id' cp_rating im_rating
       feature_misses bottom' top' blob_length cn_factors =
     (let cn_corrected = ApplyCNCorrection im_rating blob_length (cn_factors unichar_id');
          miss_penalty = tessedit_class_miss_scale par * real_of_int feature_misses;
          vertical_penalty =
            (if \<not> get_isalpha unicharset unichar_id' \<and>
                \<not> get_isdigit unicharset unichar_id' \<and>
                cn_factors unichar_id' \<noteq> 0 \<and> classify_misfit_junk_penalty par > 0.0
             then
               (case get_top_bottom unicharset unichar_id' of
                  (min_bottom, max_bottom, min_top, max_top) \<Rightarrow>
                    if top' < min_top \<or> top' > max_top \<or>
                       bottom' < min_bottom \<or> bottom' > max_bottom
                    then classify_misfit_junk_penalty par
                    else 0.0)
             else 0.0);
          result = cn_corrected + miss_penalty + vertical_penalty
      in if result > WORST_POSSIBLE_RATING then WORST_POSSIBLE_RATING else result)"

subsection \<open>External collaborators\<close>

text \<open>
  The integer matcher, the class pruner, the feature extractor, the shape table and the
  font tables are not in this file. They are modelled by what they answer. The result of
  \<^verbatim>\<open>im_.Match\<close> on a class is an \<^verbatim>\<open>INT_RESULT_STRUCT\<close> (its fields \<^verbatim>\<open>Config\<close> and \<^verbatim>\<open>Config2\<close>
  are named \<open>IMConfig\<close> and \<open>IMConfig2\<close> here). An \<open>IntegerMatcher\<close> is the matcher \<^verbatim>\<open>im_\<close>
  in one of its two modes, together with the templates and features it is run on.
\<close>

record INT_RESULT_STRUCT =
  Rating :: real
  IMConfig :: int
  IMConfig2 :: int
  FeatureMisses :: int

record IntegerMatcher =
  im_ApplyCNCorrection :: "real \<Rightarrow> int \<Rightarrow> 8 word \<Rightarrow> real"
  im_Match :: "CLASS_ID \<Rightarrow> INT_RESULT_STRUCT"

type_synonym UnicharAndFonts = "UNICHAR_ID \<times> int list"
type_synonym Shape = "UnicharAndFonts list"

record ShapeTable =
  shapes :: "Shape list"
  MaxNumUnichars :: int

text \<open>
  The tables of the classifier: the shape table (or none), the table of font sets, the
  font set of each pre-trained class, the font of a config of an adapted class
  (\<^verbatim>\<open>GetFontinfoId\<close>), the templates that \<^verbatim>\<open>NewAdaptedTemplates\<close> creates, and what
  \<^verbatim>\<open>AddLargeSpeckleTo\<close> makes of a list of choices. The members \<^verbatim>\<open>shape_table_\<close> and
  \<^verbatim>\<open>fontset_table_\<close> are written without their last underscore. A \<open>BLOB_CHOICE\<close> has the
  arguments of its constructor as fields.
\<close>

record BLOB_CHOICE =
  bc_unichar_id :: UNICHAR_ID
  bc_rating :: real
  bc_certainty :: real
  bc_fontinfo_id :: int
  bc_fontinfo_id2 :: int
  bc_script_id :: int
  bc_min_xheight :: int
  bc_max_xheight :: int
  bc_adapted :: bool

record Tables =
  shape_table :: "ShapeTable option"
  fontset_table :: "int list list"
  font_set_id :: "CLASS_ID \<Rightarrow> int"
  GetFontinfoId :: "CLASS_ID \<Rightarrow> int \<Rightarrow> int"
  NewAdaptedTemplates :: ADAPT_TEMPLATES_STRUCT
  AddLargeSpeckleTo :: "BLOB_CHOICE list \<Rightarrow> BLOB_CHOICE list"

text \<open>
  The blob, by what the collaborators report of it: its bounding box, the outcome of the
  feature extraction (\<^verbatim>\<open>FeaturesOK\<close>, \<^verbatim>\<open>FXInfo.NumBL\<close>, \<^verbatim>\<open>FXInfo.NumCN\<close>; the extraction is
  cached, so every call within one classification sees the same outcome), the classes and
  ratings the class pruner returns on the adapted and on the pre-trained templates, the
  integer matcher in its baseline mode on the adapted templates and in its character
  normalized mode on the pre-trained ones, the array of normalization factors, the range of
  x-heights of a class, and whether the blob is a large speckle.
\<close>

record TBLOB =
  bounding_box_top :: int
  bounding_box_bottom :: int
  FeaturesOK :: bool
  NumBL :: int
  NumCN :: int
  BaselinePruned :: "(CLASS_ID \<times> real) list"
  CharNormPruned :: "(CLASS_ID \<times> real) list"
  im_BaseLine :: IntegerMatcher
  im_CharNorm :: IntegerMatcher
  CharNormArray :: "UNICHAR_ID \<Rightarrow> 8 word"
  XHeightRange :: "UNICHAR_ID \<Rightarrow> int \<times> int"
  LargeSpeckle :: bool

text \<open>The counters of the classifier.\<close>

record Stats =
  AdaptiveMatcherCalls :: int
  BaselineClassifierCalls :: int
  CharNormClassifierCalls :: int
  AmbigClassifierCalls :: int
  NumBaselineClassesTried :: int
  NumCharNormClassesTried :: int
  NumAmbigClassesTried :: int
  NumClassesOutput :: int

text \<open>An indexed read of a vector that checks its index.\<close>

definition get_checked :: "'a list \<Rightarrow> int \<Rightarrow> error + 'a" where
  "get_checked xs i =
     (if 0 \<le> i \<and> i < int (length xs) then Inr (xs ! nat i) else Inl IndexOutOfRange)"

definition GetShape :: "ShapeTable \<Rightarrow> int \<Rightarrow> error + Shape" where
  "GetShape st shape_id' = get_checked (shapes st) shape_id'"

definition ClassAndConfigIDToFontOrShapeID :: "Tables \<Rightarrow> int \<Rightarrow> int \<Rightarrow> error + int" where
  "ClassAndConfigIDToFontOrShapeID tabs class_id int_result_config =
     (let fsid = font_set_id tabs class_id in
      if fsid < 0 then Inr kBlankFontinfoId
      else
        case get_checked (fontset_table tabs) fsid of
          Inl e \<Rightarrow> Inl e
        | Inr fs \<Rightarrow>
            if int_result_config \<ge> 0 \<and> int_result_config < int (length fs)
            then Inr (fs ! nat int_result_config)
            else Inl AssertFailed)"

subsection \<open>The matching paths\<close>

text \<open>
  The loop of \<^verbatim>\<open>ExpandShapesAndApplyCorrections\<close> over the entries of a shape; the second
  font id is carried from one entry to the next. The minimum rating that the source
  writes back into \<^verbatim>\<open>int_result\<close> goes to the scratch array of the pruner, which is not
  modelled.
\<close>

fun expand_shape ::
  "Params \<Rightarrow> UNICHARSET \<Rightarrow> ShapeTable \<Rightarrow> IntegerMatcher \<Rightarrow> int \<Rightarrow> int \<Rightarrow> int \<Rightarrow> real \<Rightarrow>
     int \<Rightarrow> (UNICHAR_ID \<Rightarrow> 8 word) \<Rightarrow> INT_RESULT_STRUCT \<Rightarrow> Shape \<Rightarrow> int \<Rightarrow> ADAPT_RESULTS \<Rightarrow>
     error + ADAPT_RESULTS" where
  "expand_shape par unicharset st im shape_id' bottom' top' cp_rating blob_length cn_factors
       int_result [] fontinfo_id2' final_results = Inr final_results"
| "expand_shape par unicharset st im shape_id' bottom' top' cp_rating blob_length cn_factors
       int_result ((unichar_id', font_ids) # shape) fontinfo_id2' final_results =
     (case get_checked font_ids 0 of
        Inl e \<Rightarrow> Inl e
      | Inr fontinfo_id' \<Rightarrow>
          case (if length font_ids > 1 then get_checked font_ids 1
                else if fontinfo_id2' \<noteq> kBlankFontinfoId then
                  (case GetShape st fontinfo_id2' of
                     Inl e \<Rightarrow> Inl e
                   | Inr shape2 \<Rightarrow>
                       (case get_checked shape2 0 of
                          Inl e \<Rightarrow> Inl e
                        | Inr (u0, font_ids0) \<Rightarrow> get_checked font_ids0 0))
                else Inr fontinfo_id2') of
            Inl e \<Rightarrow> Inl e
          | Inr fontinfo_id2'' \<Rightarrow>
              let rating' =
                    ComputeCorrectedRating par unicharset (im_ApplyCNCorrection im)
                      unichar_id' cp_rating (Rating int_result) (FeatureMisses int_result)
                      bottom' top' blob_length cn_factors;
                  final_results' =
                    (if get_enabled unicharset unichar_id'
                     then AddNewResult par unicharset final_results unichar_id' shape_id'
                            rating' False (IMConfig int_result) fontinfo_id' fontinfo_id2''
                     else final_results)
              in expand_shape par unicharset st im shape_id' bottom' top' cp_rating
                   blob_length cn_factors int_result shape fontinfo_id2'' final_results')"

definition ExpandShapesAndApplyCorrections ::
  "Params \<Rightarrow> UNICHARSET \<Rightarrow> Tables \<Rightarrow> IntegerMatcher \<Rightarrow>
     (CLASS_ID \<Rightarrow> ADAPT_CLASS_STRUCT option) option \<Rightarrow> int \<Rightarrow> int \<Rightarrow> int \<Rightarrow> real \<Rightarrow> int \<Rightarrow>
     (UNICHAR_ID \<Rightarrow> 8 word) \<Rightarrow> INT_RESULT_STRUCT \<Rightarrow> ADAPT_RESULTS \<Rightarrow> error + ADAPT_RESULTS" where
  "ExpandShapesAndApplyCorrections par unicharset tabs im classes class_id bottom' top'
       cp_rating blob_length cn_factors int_result final_results =
     (let single = (\<lambda>fontinfo_id' fontinfo_id2'.
            let rating' =
                  ComputeCorrectedRating par unicharset (im_ApplyCNCorrection im)
                    class_id cp_rating (Rating int_result) (FeatureMisses int_result)
                    bottom' top' blob_length cn_factors
            in if get_enabled unicharset class_id
               then AddNewResult par unicharset final_results class_id (- 1) rating'
                      (classes \<noteq> None) (IMConfig int_result) fontinfo_id' fontinfo_id2'
               else final_results)
      in case classes of
           Some cls \<Rightarrow>
             Inr (single (GetFontinfoId tabs class_id (IMConfig int_result))
                    (if IMConfig2 int_result \<ge> 0
                     then GetFontinfoId tabs class_id (IMConfig2 int_result)
                     else kBlankFontinfoId))
         | None \<Rightarrow>
             (case ClassAndConfigIDToFontOrShapeID tabs class_id (IMConfig int_result) of
                Inl e \<Rightarrow> Inl e
              | Inr fontinfo_id' \<Rightarrow>
                  (case (if IMConfig2 int_result \<ge> 0
                         then ClassAndConfigIDToFontOrShapeID tabs class_id
                                (IMConfig2 int_result)
                         else Inr kBlankFontinfoId) of
                     Inl e \<Rightarrow> Inl e
                   | Inr fontinfo_id2' \<Rightarrow>
                       (case shape_table tabs of
                          Some st \<Rightarrow>
                            (case GetShape st fontinfo_id' of
                               Inl e \<Rightarrow> Inl e
                             | Inr shape \<Rightarrow>
                                 expand_shape par unicharset st im fontinfo_id' bottom' top'
                                   cp_rating blob_length cn_factors int_result shape
                                   fontinfo_id2' final_results)
                        | None \<Rightarrow> Inr (single fontinfo_id' fontinfo_id2')))))"

text \<open>
  \<^verbatim>\<open>MasterMatcher\<close> runs over the classes the pruner returned. With adapted classes the
  masks of the class are read through its pointer, which must not be null.
\<close>

fun MasterMatcher ::
  "Params \<Rightarrow> UNICHARSET \<Rightarrow> Tables \<Rightarrow> IntegerMatcher \<Rightarrow> (UNICHAR_ID \<Rightarrow> 8 word) \<Rightarrow>
     (CLASS_ID \<Rightarrow> ADAPT_CLASS_STRUCT option) option \<Rightarrow> int \<Rightarrow> int \<Rightarrow>
     (CLASS_ID \<times> real) list \<Rightarrow> ADAPT_RESULTS \<Rightarrow> error + ADAPT_RESULTS" where
  "MasterMatcher par unicharset tabs im norm_factors classes top' bottom' []
       final_results = Inr final_results"
| "MasterMatcher par unicharset tabs im norm_factors classes top' bottom'
       ((class_id, cp_rating) # results) final_results =
     (if (case classes of None \<Rightarrow> False | Some cls \<Rightarrow> cls class_id = None)
      then Inl NullPointer
      else
        case ExpandShapesAndApplyCorrections par unicharset tabs im classes class_id
               bottom' top' cp_rating (BlobLength final_results) norm_factors
               (im_Match im class_id) final_results of
          Inl e \<Rightarrow> Inl e
        | Inr final_results' \<Rightarrow>
            MasterMatcher par unicharset tabs im norm_factors classes top' bottom'
              results final_results')"

text \<open>
  \<^verbatim>\<open>GetBaselineFeatures\<close> and \<^verbatim>\<open>GetCharNormFeatures\<close>: the number of features (0 when the
  extraction failed) and the blob length written into the results.
\<close>

definition GetBaselineFeatures :: "TBLOB \<Rightarrow> ADAPT_RESULTS \<Rightarrow> int \<times> ADAPT_RESULTS" where
  "GetBaselineFeatures Blob Results =
     (if \<not> FeaturesOK Blob then (0, Results\<lparr>BlobLength := NumBL Blob\<rparr>)
      else (NumBL Blob, Results\<lparr>BlobLength := NumBL Blob\<rparr>))"

definition GetCharNormFeatures :: "TBLOB \<Rightarrow> ADAPT_RESULTS \<Rightarrow> int \<times> ADAPT_RESULTS" where
  "GetCharNormFeatures Blob Results =
     (if \<not> FeaturesOK Blob then (0, Results\<lparr>BlobLength := NumBL Blob\<rparr>)
      else (NumCN Blob, Results\<lparr>BlobLength := NumBL Blob\<rparr>))"

text \<open>
  \<^verbatim>\<open>BaselineClassifier\<close> returns the ambiguities of the best match, or null. The last
  statement reads \<^verbatim>\<open>Config[best_match.config].Perm->Ambigs\<close> without asking whether the
  config is permanent.
\<close>

definition BaselineClassifier ::
  "Params \<Rightarrow> UNICHARSET \<Rightarrow> Tables \<Rightarrow> TBLOB \<Rightarrow> ADAPT_TEMPLATES_STRUCT \<Rightarrow>
     Stats \<times> ADAPT_RESULTS \<Rightarrow> error + (UNICHAR_ID list option \<times> Stats \<times> ADAPT_RESULTS)" where
  "BaselineClassifier par unicharset tabs Blob Templates state =
     (case state of (stats, Results) \<Rightarrow>
      let stats1 = stats\<lparr>BaselineClassifierCalls := BaselineClassifierCalls stats + 1\<rparr> in
      case GetBaselineFeatures Blob Results of (NumFeatures, Results1) \<Rightarrow>
      if NumFeatures \<le> 0 then Inr (None, stats1, Results1)
      else
        let NumClasses = int (length (BaselinePruned Blob));
            stats2 = stats1\<lparr>NumBaselineClassesTried :=
                       NumBaselineClassesTried stats1 + NumClasses\<rparr>
        in case MasterMatcher par unicharset tabs (im_BaseLine Blob) (\<lambda>c. 0)
                  (Some (Class Templates)) (bounding_box_top Blob)
                  (bounding_box_bottom Blob) (BaselinePruned Blob) Results1 of
             Inl e \<Rightarrow> Inl e
           | Inr Results2 \<Rightarrow>
               let ClassId = unichar_id (best_match Results2) in
               if ClassId = NO_CLASS then Inr (None, stats2, Results2)
               else
                 case Class Templates ClassId of
                   None \<Rightarrow> Inl NullPointer
                 | Some cls \<Rightarrow>
                     (case get_checked (Config cls) (sint (config (best_match Results2))) of
                        Inl e \<Rightarrow> Inl e
                      | Inr None \<Rightarrow> Inl NullPointer
                      | Inr (Some (Temp t)) \<Rightarrow> Inl InvalidVariantRead
                      | Inr (Some (Perm p)) \<Rightarrow> Inr (Some (Ambigs p), stats2, Results2)))"

definition CharNormClassifier ::
  "Params \<Rightarrow> UNICHARSET \<Rightarrow> Tables \<Rightarrow> TBLOB \<Rightarrow> Stats \<times> ADAPT_RESULTS \<Rightarrow>
     error + (int \<times> Stats \<times> ADAPT_RESULTS)" where
  "CharNormClassifier par unicharset tabs Blob state =
     (case state of (stats, Results) \<Rightarrow>
      let stats1 = stats\<lparr>CharNormClassifierCalls := CharNormClassifierCalls stats + 1\<rparr> in
      case GetCharNormFeatures Blob Results of (NumFeatures, Results1) \<Rightarrow>
      if NumFeatures \<le> 0 then Inr (0, stats1, Results1)
      else
        let pruned =
              (if tessedit_single_match par \<and> length (CharNormPruned Blob) > 1
               then take 1 (CharNormPruned Blob) else CharNormPruned Blob);
            stats2 = stats1\<lparr>NumCharNormClassesTried :=
                       NumCharNormClassesTried stats1 + int (length pruned)\<rparr>
        in case MasterMatcher par unicharset tabs (im_CharNorm Blob) (CharNormArray Blob)
                  None (bounding_box_top Blob) (bounding_box_bottom Blob) pruned Results1 of
             Inl e \<Rightarrow> Inl e
           | Inr Results2 \<Rightarrow> Inr (NumFeatures, stats2, Results2))"

text \<open>
  \<^verbatim>\<open>AmbigClassifier\<close> matches the listed classes, up to the first negative entry.
\<close>

fun AmbigClassifier_loop ::
  "Params \<Rightarrow> UNICHARSET \<Rightarrow> Tables \<Rightarrow> TBLOB \<Rightarrow> UNICHAR_ID list \<Rightarrow> Stats \<times> ADAPT_RESULTS \<Rightarrow>
     error + (Stats \<times> ADAPT_RESULTS)" where
  "AmbigClassifier_loop par unicharset tabs Blob [] state = Inr state"
| "AmbigClassifier_loop par unicharset tabs Blob (ClassId # Ambiguities) state =
     (case state of (stats, Results) \<Rightarrow>
      if ClassId \<ge> 0 then
        case ExpandShapesAndApplyCorrections par unicharset tabs (im_CharNorm Blob) None
               ClassId (bounding_box_bottom Blob) (bounding_box_top Blob) 0
               (BlobLength Results) (CharNormArray Blob)
               (im_Match (im_CharNorm Blob) ClassId) Results of
          Inl e \<Rightarrow> Inl e
        | Inr Results' \<Rightarrow>
            AmbigClassifier_loop par unicharset tabs Blob Ambiguities
              (stats\<lparr>NumAmbigClassesTried := NumAmbigClassesTried stats + 1\<rparr>, Results')
      else Inr state)"

definition AmbigClassifier ::
  "Params \<Rightarrow> UNICHARSET \<Rightarrow> Tables \<Rightarrow> TBLOB \<Rightarrow> UNICHAR_ID list \<Rightarrow> Stats \<times> ADAPT_RESULTS \<Rightarrow>
     error + (Stats \<times> ADAPT_RESULTS)" where
  "AmbigClassifier par unicharset tabs Blob Ambiguities state =
     (case state of (stats, Results) \<Rightarrow>
      let stats1 = stats\<lparr>AmbigClassifierCalls := AmbigClassifierCalls stats + 1\<rparr> in
      case GetCharNormFeatures Blob Results of (NumFeatures, Results1) \<Rightarrow>
      if NumFeatures \<le> 0 then Inr (stats1, Results1)
      else AmbigClassifier_loop par unicharset tabs Blob Ambiguities (stats1, Results1))"

text \<open>\<^verbatim>\<open>ClassifyAsNoise\<close> and the macro \<^verbatim>\<open>MarginalMatch\<close>.\<close>

definition ClassifyAsNoise :: "Params \<Rightarrow> UNICHARSET \<Rightarrow> ADAPT_RESULTS \<Rightarrow> ADAPT_RESULTS" where
  "ClassifyAsNoise par unicharset Results =
     (let Rating1 = real_of_int (BlobLength Results) / matcher_avg_noise_size par;
          Rating2 = Rating1 * Rating1;
          Rating3 = Rating2 / (1.0 + Rating2)
      in AddNewResult par unicharset Results NO_CLASS (- 1) Rating3 False (- 1)
           kBlankFontinfoId kBlankFontinfoId)"

definition MarginalMatch :: "Params \<Rightarrow> real \<Rightarrow> bool" where
  "MarginalMatch par Rating' \<longleftrightarrow> Rating' > matcher_great_threshold par"

text \<open>
  \<^verbatim>\<open>DoAdaptiveMatch\<close>. \<open>matching_paths\<close> is its first statement, the choice and the run of
  the classifiers; the second statement adds the noise result.
\<close>

definition matching_paths ::
  "Params \<Rightarrow> UNICHARSET \<Rightarrow> Tables \<Rightarrow> TBLOB \<Rightarrow> ADAPT_TEMPLATES_STRUCT \<Rightarrow>
     Stats \<times> ADAPT_RESULTS \<Rightarrow> error + (Stats \<times> ADAPT_RESULTS)" where
  "matching_paths par unicharset tabs Blob AdaptedTemplates state =
     (if NumPermClasses AdaptedTemplates < matcher_permanent_classes_min par \<or>
         tess_cn_matching par
      then
        case CharNormClassifier par unicharset tabs Blob state of
          Inl e \<Rightarrow> Inl e
        | Inr (n, state') \<Rightarrow> Inr state'
      else
        case BaselineClassifier par unicharset tabs Blob AdaptedTemplates state of
          Inl e \<Rightarrow> Inl e
        | Inr (Ambiguities, stats1, Results1) \<Rightarrow>
            if (NumMatches Results1 > 0 \<and>
                MarginalMatch par (rating (best_match Results1)) \<and>
                \<not> tess_bn_matching par) \<or>
               NumMatches Results1 = 0
            then
              case CharNormClassifier par unicharset tabs Blob (stats1, Results1) of
                Inl e \<Rightarrow> Inl e
              | Inr (n, state') \<Rightarrow> Inr state'
            else if (case Ambiguities of
                       None \<Rightarrow> False
                     | Some [] \<Rightarrow> False
                     | Some (a # as) \<Rightarrow> a \<ge> 0) \<and>
                    \<not> tess_bn_matching par
            then AmbigClassifier par unicharset tabs Blob (the Ambiguities) (stats1, Results1)
            else Inr (stats1, Results1))"

definition DoAdaptiveMatch ::
  "Params \<Rightarrow> UNICHARSET \<Rightarrow> Tables \<Rightarrow> TBLOB \<Rightarrow> ADAPT_TEMPLATES_STRUCT \<Rightarrow>
     Stats \<times> ADAPT_RESULTS \<Rightarrow> error + (Stats \<times> ADAPT_RESULTS)" where
  "DoAdaptiveMatch par unicharset tabs Blob AdaptedTemplates state =
     (case state of (stats, Results) \<Rightarrow>
      case matching_paths par unicharset tabs Blob AdaptedTemplates
             (stats\<lparr>AdaptiveMatcherCalls := AdaptiveMatcherCalls stats + 1\<rparr>, Results) of
        Inl e \<Rightarrow> Inl e
      | Inr (stats', Results') \<Rightarrow>
          if \<not> HasNonfragment Results' \<or> NumMatches Results' = 0
          then Inr (stats', ClassifyAsNoise par unicharset Results')
          else Inr (stats', Results'))"

subsection \<open>Filters on the result set\<close>

text \<open>
  \<^verbatim>\<open>strstr(haystack, needle) != NULL\<close>: the needle occurs in the haystack as a contiguous
  run of characters; the empty needle occurs in every haystack.
\<close>

fun strstr :: "string \<Rightarrow> string \<Rightarrow> bool" where
  "strstr [] needle = (needle = [])"
| "strstr (c # cs) needle = (prefix needle (c # cs) \<or> strstr cs needle)"

definition romans :: string where
  "romans = ''i v x I V X''"

definition punc_chars :: string where
  "punc_chars = [CHR ''.'', CHR '' '', CHR '','', CHR '' '', CHR '';'', CHR '' '', CHR '':'',
     CHR '' '', CHR ''/'', CHR '' '', CHR 0x60, CHR '' '', CHR ''~'', CHR '' '', CHR 0x27,
     CHR '' '', CHR ''-'', CHR '' '', CHR ''='', CHR '' '', CHR 0x5C, CHR '' '', CHR ''|'',
     CHR '' '', CHR 0x22, CHR '' '', CHR ''!'', CHR '' '', CHR ''_'', CHR '' '', CHR ''^'']"

definition digit_chars :: string where
  "digit_chars = ''0 1 2 3 4 5 6 7 8 9''"

text \<open>
  \<^verbatim>\<open>RemoveBadMatches\<close>. Both loops read \<^verbatim>\<open>match[Next]\<close> and write \<^verbatim>\<open>match[NextGood]\<close> in the
  same array; they are modelled with the two indices and the array, and the new fill count
  is the final \<^verbatim>\<open>NextGood\<close>. \<^verbatim>\<open>unicharset.eq(id, s)\<close> compares the string of the id with
  \<^verbatim>\<open>s\<close>.
\<close>

function RemoveBadMatches_numeric_loop ::
  "UNICHARSET \<Rightarrow> real \<Rightarrow> ScoredClass \<Rightarrow> ScoredClass \<Rightarrow> nat \<Rightarrow> nat \<Rightarrow> ScoredClass list \<Rightarrow>
     nat \<times> ScoredClass list" where
  "RemoveBadMatches_numeric_loop unicharset BadMatchThreshold scored_one scored_zero
       Next NextGood ms =
     (if Next < length ms then
        if rating (ms ! Next) \<le> BadMatchThreshold then
          let match' = ms ! Next in
          if \<not> get_isalpha unicharset (unichar_id match') \<or>
             strstr romans (id_to_unichar unicharset (unichar_id match'))
          then RemoveBadMatches_numeric_loop unicharset BadMatchThreshold scored_one
                 scored_zero (Suc Next) (Suc NextGood) (ms[NextGood := ms ! Next])
          else if id_to_unichar unicharset (unichar_id match') = ''l'' \<and>
                  rating scored_one \<ge> BadMatchThreshold
          then RemoveBadMatches_numeric_loop unicharset BadMatchThreshold scored_one
                 scored_zero (Suc Next) (Suc NextGood)
                 (ms[NextGood := scored_one\<lparr>rating := rating match'\<rparr>])
          else if id_to_unichar unicharset (unichar_id match') = ''O'' \<and>
                  rating scored_zero \<ge> BadMatchThreshold
          then RemoveBadMatches_numeric_loop unicharset BadMatchThreshold scored_one
                 scored_zero (Suc Next) (Suc NextGood)
                 (ms[NextGood := scored_zero\<lparr>rating := rating match'\<rparr>])
          else RemoveBadMatches_numeric_loop unicharset BadMatchThreshold scored_one
                 scored_zero (Suc Next) NextGood ms
        else RemoveBadMatches_numeric_loop unicharset BadMatchThreshold scored_one
               scored_zero (Suc Next) NextGood ms
      else (NextGood, ms))"
  by pat_completeness auto
termination
  by (relation "measure (\<lambda>(u, t, one, zero, Next, NextGood, ms). length ms - Next)") auto

declare RemoveBadMatches_numeric_loop.simps [simp del]

function RemoveBadMatches_loop ::
  "real \<Rightarrow> nat \<Rightarrow> nat \<Rightarrow> ScoredClass list \<Rightarrow> nat \<times> ScoredClass list" where
  "RemoveBadMatches_loop BadMatchThreshold Next NextGood ms =
     (if Next < length ms then
        if rating (ms ! Next) \<le> BadMatchThreshold
        then RemoveBadMatches_loop BadMatchThreshold (Suc Next) (Suc NextGood)
               (ms[NextGood := ms ! Next])
        else RemoveBadMatches_loop BadMatchThreshold (Suc Next) NextGood ms
      else (NextGood, ms))"
  by pat_completeness auto
termination
  by (relation "measure (\<lambda>(t, Next, NextGood, ms). length ms - Next)") auto

declare RemoveBadMatches_loop.simps [simp del]

definition RemoveBadMatches :: "Params \<Rightarrow> UNICHARSET \<Rightarrow> ADAPT_RESULTS \<Rightarrow> ADAPT_RESULTS" where
  "RemoveBadMatches par unicharset Results =
     (let BadMatchThreshold = rating (best_match Results) + matcher_bad_match_pad par in
      if classify_bln_numeric_mode par then
        let unichar_id_one =
              (case unichar_to_id unicharset ''1'' of Some i \<Rightarrow> i | None \<Rightarrow> - 1);
            unichar_id_zero =
              (case unichar_to_id unicharset ''0'' of Some i \<Rightarrow> i | None \<Rightarrow> - 1);
            scored_one = ScoredUnichar Results unichar_id_one;
            scored_zero = ScoredUnichar Results unichar_id_zero
        in case RemoveBadMatches_numeric_loop unicharset BadMatchThreshold scored_one
                  scored_zero 0 0 (match Results) of
             (NextGood, ms) \<Rightarrow> Results\<lparr>match := take NextGood ms\<rparr>
      else
        case RemoveBadMatches_loop BadMatchThreshold 0 0 (match Results) of
          (NextGood, ms) \<Rightarrow> Results\<lparr>match := take NextGood ms\<rparr>)"

text \<open>\<^verbatim>\<open>RemoveExtraPuncs\<close>, with the counts of punctuation and digits seen so far.\<close>

function RemoveExtraPuncs_loop ::
  "UNICHARSET \<Rightarrow> int \<Rightarrow> int \<Rightarrow> nat \<Rightarrow> nat \<Rightarrow> ScoredClass list \<Rightarrow> nat \<times> ScoredClass list" where
  "RemoveExtraPuncs_loop unicharset punc_count digit_count Next NextGood ms =
     (if Next < length ms then
        let match' = ms ! Next in
        if strstr punc_chars (id_to_unichar unicharset (unichar_id match')) then
          RemoveExtraPuncs_loop unicharset (punc_count + 1) digit_count (Suc Next)
            (if punc_count < 2 then Suc NextGood else NextGood)
            (if punc_count < 2 then ms[NextGood := match'] else ms)
        else if strstr digit_chars (id_to_unichar unicharset (unichar_id match')) then
          RemoveExtraPuncs_loop unicharset punc_count (digit_count + 1) (Suc Next)
            (if digit_count < 1 then Suc NextGood else NextGood)
            (if digit_count < 1 then ms[NextGood := match'] else ms)
        else
          RemoveExtraPuncs_loop unicharset punc_count digit_count (Suc Next)
            (Suc NextGood) (ms[NextGood := match'])
      else (NextGood, ms))"
  by pat_completeness auto
termination
  by (relation "measure (\<lambda>(u, p, d, Next, NextGood, ms). length ms - Next)") auto

declare RemoveExtraPuncs_loop.simps [simp del]

definition RemoveExtraPuncs :: "UNICHARSET \<Rightarrow> ADAPT_RESULTS \<Rightarrow> ADAPT_RESULTS" where
  "RemoveExtraPuncs unicharset Results =
     (case RemoveExtraPuncs_loop unicharset 0 0 0 0 (match Results) of
        (NextGood, ms) \<Rightarrow> Results\<lparr>match := take NextGood ms\<rparr>)"

text \<open>
  \<^verbatim>\<open>CompareByRating\<close> orders by rating, then by class id; \<^verbatim>\<open>qsort\<close> with it is modelled by
  an insertion sort on that order. Where two entries agree on both, \<^verbatim>\<open>qsort\<close> may leave
  them in either order; the model keeps the order they had.
\<close>

definition CompareByRating :: "ScoredClass \<Rightarrow> ScoredClass \<Rightarrow> int" where
  "CompareByRating class1 class2 =
     (if rating class1 < rating class2 then - 1
      else if rating class1 > rating class2 then 1
      else if unichar_id class1 < unichar_id class2 then - 1
      else if unichar_id class1 > unichar_id class2 then 1
      else 0)"

fun insert_by_rating :: "ScoredClass \<Rightarrow> ScoredClass list \<Rightarrow> ScoredClass list" where
  "insert_by_rating x [] = [x]"
| "insert_by_rating x (y # ys) =
     (if CompareByRating x y \<le> 0 then x # y # ys else y # insert_by_rating x ys)"

definition qsort_by_rating :: "ScoredClass list \<Rightarrow> ScoredClass list" where
  "qsort_by_rating ms = foldr insert_by_rating ms []"

subsection \<open>Conversion to choices\<close>

definition MAX_MATCHES :: int where
  "MAX_MATCHES = 10"

text \<open>
  The loop of \<^verbatim>\<open>ConvertMatchesToChoices\<close> over the matches, with the list of choices, the
  flag \<^verbatim>\<open>contains_nonfrag\<close> and the count \<^verbatim>\<open>choices_length\<close>. The first branch is the
  \<^verbatim>\<open>continue\<close>, the return without recursion is the \<^verbatim>\<open>break\<close>.
\<close>

fun ConvertMatches_loop ::
  "Params \<Rightarrow> UNICHARSET \<Rightarrow> TBLOB \<Rightarrow> int \<Rightarrow> int \<Rightarrow> ScoredClass list \<Rightarrow>
     BLOB_CHOICE list \<times> bool \<times> int \<Rightarrow> BLOB_CHOICE list \<times> bool \<times> int" where
  "ConvertMatches_loop par unicharset Blob max_matches blob_length [] state = state"
| "ConvertMatches_loop par unicharset Blob max_matches blob_length (next # rest)
       (Choices, contains_nonfrag, choices_length) =
     (let current_is_frag = get_fragment unicharset (unichar_id next) in
      if int (length Choices) + 1 = max_matches \<and> \<not> contains_nonfrag \<and> current_is_frag
      then ConvertMatches_loop par unicharset Blob max_matches blob_length rest
             (Choices, contains_nonfrag, choices_length)
      else
        let Rating' =
              (if blob_length = 0 then 100
               else rating next * (rating_scale par * real_of_int blob_length));
            Certainty =
              (if blob_length = 0 then - 20
               else rating next * - certainty_scale par);
            Choices' = Choices @
              [\<lparr>bc_unichar_id = unichar_id next, bc_rating = Rating',
                bc_certainty = Certainty,
                bc_fontinfo_id = sint (fontinfo_id next),
                bc_fontinfo_id2 = sint (fontinfo_id2 next),
                bc_script_id = get_script unicharset (unichar_id next),
                bc_min_xheight = fst (XHeightRange Blob (unichar_id next)),
                bc_max_xheight = snd (XHeightRange Blob (unichar_id next)),
                bc_adapted = adapted next\<rparr>];
            contains_nonfrag' = (contains_nonfrag \<or> \<not> current_is_frag);
            choices_length' = choices_length + 1
        in if choices_length' \<ge> max_matches
           then (Choices', contains_nonfrag', choices_length')
           else ConvertMatches_loop par unicharset Blob max_matches blob_length rest
                  (Choices', contains_nonfrag', choices_length'))"

definition ConvertMatchesToChoices ::
  "Params \<Rightarrow> UNICHARSET \<Rightarrow> Tables \<Rightarrow> TBLOB \<Rightarrow> ADAPT_RESULTS \<Rightarrow> BLOB_CHOICE list \<Rightarrow>
     ADAPT_RESULTS \<times> BLOB_CHOICE list" where
  "ConvertMatchesToChoices par unicharset tabs Blob Results Choices =
     (let max_matches =
            (case shape_table tabs of
               None \<Rightarrow> MAX_MATCHES
             | Some st \<Rightarrow>
                 if MaxNumUnichars st * 2 < MAX_MATCHES then MAX_MATCHES
                 else MaxNumUnichars st * 2)
      in case ConvertMatches_loop par unicharset Blob max_matches (BlobLength Results)
                (match Results) (Choices, False, 0) of
           (Choices', contains_nonfrag, choices_length) \<Rightarrow>
             (Results\<lparr>match := take (nat choices_length) (match Results)\<rparr>, Choices'))"

subsection \<open>The classifier\<close>

text \<open>
  \<^verbatim>\<open>AdaptiveClassifier\<close> receives a pointer to the caller's list of choices. The lists of
  choices live in a store, a list of lists in which a pointer is an index; \<^verbatim>\<open>new\<close> appends
  an empty list and returns its index. The session holds the adapted templates (null before
  the first call) and the counters. \<open>classified_choices\<close> is the function up to the
  speckle test: it returns the session and what the caller's list has become. The array
  \<^verbatim>\<open>CPResults\<close>, the printing and the debugger are left out.
\<close>

record Session =
  session_templates :: "ADAPT_TEMPLATES_STRUCT option"
  session_stats :: Stats

definition fallback_choice :: BLOB_CHOICE where
  "fallback_choice =
     \<lparr>bc_unichar_id = 0, bc_rating = 50.0, bc_certainty = - 20.0, bc_fontinfo_id = - 1,
      bc_fontinfo_id2 = - 1, bc_script_id = 0, bc_min_xheight = 0, bc_max_xheight = 0,
      bc_adapted = False\<rparr>"

definition classified_choices ::
  "Params \<Rightarrow> UNICHARSET \<Rightarrow> Tables \<Rightarrow> TBLOB \<Rightarrow> Session \<Rightarrow> BLOB_CHOICE list \<Rightarrow>
     error + (Session \<times> BLOB_CHOICE list)" where
  "classified_choices par unicharset tabs Blob session Choices =
     (let AdaptedTemplates =
            (case session_templates session of
               None \<Rightarrow> NewAdaptedTemplates tabs
             | Some t \<Rightarrow> t)
      in case DoAdaptiveMatch par unicharset tabs Blob AdaptedTemplates
                (session_stats session, Initialize) of
           Inl e \<Rightarrow> Inl e
         | Inr (stats1, Results1) \<Rightarrow>
             let Results2 = RemoveBadMatches par unicharset Results1;
                 Results3 = Results2\<lparr>match := qsort_by_rating (match Results2)\<rparr>;
                 Results4 = RemoveExtraPuncs unicharset Results3
             in case ConvertMatchesToChoices par unicharset tabs Blob Results4 Choices of
                  (Results5, Choices1) \<Rightarrow>
                    let Choices2 =
                          (if LargeSpeckle Blob then AddLargeSpeckleTo tabs Choices1
                           else Choices1)
                    in Inr (\<lparr>session_templates = Some AdaptedTemplates,
                             session_stats = stats1\<lparr>NumClassesOutput :=
                               NumClassesOutput stats1 + int (length Choices2)\<rparr>\<rparr>,
                            Choices2))"

definition AdaptiveClassifier ::
  "Params \<Rightarrow> UNICHARSET \<Rightarrow> Tables \<Rightarrow> TBLOB \<Rightarrow> nat option \<Rightarrow> Session \<Rightarrow>
     BLOB_CHOICE list list \<Rightarrow> error + (Session \<times> BLOB_CHOICE list list)" where
  "AdaptiveClassifier par unicharset tabs Blob Choices session store =
     (case Choices of
        None \<Rightarrow> Inl AssertFailed
      | Some a \<Rightarrow>
          (case get_checked store (int a) of
             Inl e \<Rightarrow> Inl e
           | Inr caller_list \<Rightarrow>
               (case classified_choices par unicharset tabs Blob session caller_list of
                  Inl e \<Rightarrow> Inl e
                | Inr (session', Choices2) \<Rightarrow>
                    let store1 = store[a := Choices2] in
                    if length (store1 ! a) = 0 then
                      let Choices' = length store1;
                          store2 = store1 @ [[]];
                          store3 = store2[Choices' := (store2 ! Choices') @ [fallback_choice]]
                      in Inr (session', store3)
                    else Inr (session', store1))))"

section \<open>Example inputs\<close>

text \<open>Concrete parameters, a small character set and result sets, used to evaluate the
  definitions.\<close>

definition example_params :: Params where
  "example_params =
     \<lparr>matcher_bad_match_pad = 0.15, matcher_great_threshold = 0,
      matcher_avg_noise_size = 12, matcher_permanent_classes_min = 1,
      matcher_min_examples_for_prototyping = 3,
      matcher_sufficient_examples_for_prototyping = 5,
      tess_cn_matching = False, tess_bn_matching = False,
      tessedit_single_match = False, classify_bln_numeric_mode = True,
      use_ambigs_for_adaption = False, tessedit_class_miss_scale = 0.00390625,
      classify_misfit_junk_penalty = 0, rating_scale = 1.5, certainty_scale = 20\<rparr>"

definition example_unicharset :: UNICHARSET where
  "example_unicharset =
     \<lparr>get_fragment = (\<lambda>i. i = 6),
      get_isalpha = (\<lambda>i. i = 1 \<or> i = 3 \<or> i = 5),
      get_isdigit = (\<lambda>i. i = 2 \<or> i = 4),
      get_enabled = (\<lambda>i. True),
      id_to_unichar = (\<lambda>i. if i = 1 then ''l'' else if i = 2 then ''1''
         else if i = 3 then ''O'' else if i = 4 then ''0'' else if i = 5 then ''a''
         else if i = 6 then ''|a|0|2'' else if i = 7 then ''.'' else '' ''),
      unichar_to_id = (\<lambda>s. if s = ''l'' then Some 1 else if s = ''1'' then Some 2
         else if s = ''O'' then Some 3 else if s = ''0'' then Some 4
         else if s = ''a'' then Some 5 else if s = ''|a|0|2'' then Some 6
         else if s = ''.'' then Some 7 else if s = '' '' then Some 0 else None),
      get_top_bottom = (\<lambda>i. if i = 7 then (0, 80, 20, 100) else (0, 255, 0, 255)),
      get_script = (\<lambda>i. 0)\<rparr>"

definition example_ambigs :: "CLASS_ID \<Rightarrow> UNICHAR_ID list option" where
  "example_ambigs = (\<lambda>c. if c = 1 then Some [2] else None)"

definition example_templates :: ADAPT_TEMPLATES_STRUCT where
  "example_templates =
     \<lparr>NumPermClasses = 1,
      Class = (\<lambda>c.
        if c = 1 then Some \<lparr>NumPermConfigs = 0, MaxNumTimesSeen = 3,
                            Config = [Some (Temp \<lparr>NumTimesSeen = 3, MaxProtoId = 4\<rparr>)]\<rparr>
        else if c = 5 then Some \<lparr>NumPermConfigs = 1, MaxNumTimesSeen = 6,
                            Config = [Some (Perm \<lparr>Ambigs = [7], FontinfoId = 0\<rparr>),
                                      Some (Temp \<lparr>NumTimesSeen = 1, MaxProtoId = 2\<rparr>)]\<rparr>
        else Some \<lparr>NumPermConfigs = 0, MaxNumTimesSeen = 0, Config = []\<rparr>)\<rparr>"

definition example_ApplyCNCorrection :: "real \<Rightarrow> int \<Rightarrow> 8 word \<Rightarrow> real" where
  "example_ApplyCNCorrection rating' blob_length normalization_factor =
     (rating' * real_of_int blob_length + real (unat normalization_factor) / 256) /
     (real_of_int blob_length + 1)"

definition example_tables :: Tables where
  "example_tables =
     \<lparr>shape_table = None,
      fontset_table = [[3, 4]],
      font_set_id = (\<lambda>c. 0),
      GetFontinfoId = (\<lambda>c cfg. 3),
      NewAdaptedTemplates =
        \<lparr>NumPermClasses = 0,
         Class = (\<lambda>c. Some \<lparr>NumPermConfigs = 0, MaxNumTimesSeen = 0, Config = []\<rparr>)\<rparr>,
      AddLargeSpeckleTo = (\<lambda>Choices. Choices @
        [\<lparr>bc_unichar_id = 0, bc_rating = 30, bc_certainty = - 10, bc_fontinfo_id = - 1,
          bc_fontinfo_id2 = - 1, bc_script_id = 0, bc_min_xheight = 0, bc_max_xheight = 0,
          bc_adapted = False\<rparr>])\<rparr>"

definition example_blob :: TBLOB where
  "example_blob =
     \<lparr>bounding_box_top = 200,
      bounding_box_bottom = 10,
      FeaturesOK = True,
      NumBL = 30,
      NumCN = 28,
      BaselinePruned = [(5, 0.2)],
      CharNormPruned = [(5, 0.3), (6, 0.4)],
      im_BaseLine =
        \<lparr>im_ApplyCNCorrection = (\<lambda>r l f. r),
         im_Match = (\<lambda>c. \<lparr>Rating = 0.125, IMConfig = 0, IMConfig2 = - 1,
                              FeatureMisses = 0\<rparr>)\<rparr>,
      im_CharNorm =
        \<lparr>im_ApplyCNCorrection = (\<lambda>r l f. r),
         im_Match = (\<lambda>c. \<lparr>Rating = (if c = 5 then 0.25 else 0.5), IMConfig = 0,
                              IMConfig2 = 1, FeatureMisses = 0\<rparr>)\<rparr>,
      CharNormArray = (\<lambda>c. 64),
      XHeightRange = (\<lambda>c. (0, 255)),
      LargeSpeckle = False\<rparr>"

definition example_stats :: Stats where
  "example_stats =
     \<lparr>AdaptiveMatcherCalls = 0, BaselineClassifierCalls = 0, CharNormClassifierCalls = 0,
      AmbigClassifierCalls = 0, NumBaselineClassesTried = 0, NumCharNormClassesTried = 0,
      NumAmbigClassesTried = 0, NumClassesOutput = 0\<rparr>"

definition example_fragment_blob :: TBLOB where
  "example_fragment_blob = example_blob\<lparr>CharNormPruned := [(6, 0.4)]\<rparr>"

definition example_temp_blob :: TBLOB where
  "example_temp_blob = example_blob\<lparr>BaselinePruned := [(1, 0.2)]\<rparr>"

definition example_session :: Session where
  "example_session = \<lparr>session_templates = Some example_templates, session_stats = example_stats\<rparr>"

section \<open>Notions used in the statements\<close>

text \<open>The early-return condition of \<^verbatim>\<open>AddNewResult\<close>, as the source writes it.\<close>

definition rejected :: "Params \<Rightarrow> ADAPT_RESULTS \<Rightarrow> CLASS_ID \<Rightarrow> real \<Rightarrow> bool" where
  "rejected par r c x \<longleftrightarrow> x > rating (best_match r) + matcher_bad_match_pad par \<or>
            (case FindScoredUnichar r c of
               None \<Rightarrow> False
             | Some i \<Rightarrow> x \<ge> rating (match r ! i))"

text \<open>A result set to which a sequence of results is added: the calls of
  \<^verbatim>\<open>AddNewResult\<close> a matching path makes, in order.\<close>

type_synonym NewResult = "CLASS_ID \<times> int \<times> real \<times> bool \<times> int \<times> int \<times> int"

fun AddNewResults :: "Params \<Rightarrow> UNICHARSET \<Rightarrow> ADAPT_RESULTS \<Rightarrow> NewResult list \<Rightarrow> ADAPT_RESULTS" where
  "AddNewResults par u r [] = r"
| "AddNewResults par u r ((c, s, x, a, cf, f1, f2) # cs) =
     AddNewResults par u (AddNewResult par u r c s x a cf f1 f2) cs"

text \<open>What every result set built by \<^verbatim>\<open>AddNewResult\<close> satisfies: the running best is
  rated no worse than any entry that is not a fragment, the flag says whether there is such
  an entry, the best is the initial one while there is none, the best is the initial one or
  of a class that is not a fragment, its rating is at most the worst possible one, and no
  class has two slots.\<close>

definition results_inv :: "UNICHARSET \<Rightarrow> ADAPT_RESULTS \<Rightarrow> bool" where
  "results_inv u r \<longleftrightarrow>
     (\<forall>m \<in> set (match r). \<not> get_fragment u (unichar_id m) \<longrightarrow> rating (best_match r) \<le> rating m) \<and>
     (HasNonfragment r \<longleftrightarrow> (\<exists>m \<in> set (match r). \<not> get_fragment u (unichar_id m))) \<and>
     (\<not> HasNonfragment r \<longrightarrow> best_match r = best_match Initialize) \<and>
     (best_match r = best_match Initialize \<or> \<not> get_fragment u (unichar_id (best_match r))) \<and>
     rating (best_match r) \<le> WORST_POSSIBLE_RATING \<and>
     distinct (map unichar_id (match r))"

definition example_results :: ADAPT_RESULTS where
  "example_results =
     AddNewResults example_params example_unicharset Initialize
       [(5, - 1, 0.9, False, 0, 0, 0), (7, - 1, 0.1, False, 0, 0, 0)]"

definition example_calls :: "NewResult list" where
  "example_calls = [(5, - 1, 0.9, False, 0, 0, 0), (7, - 1, 0.1, False, 0, 0, 0)]"

text \<open>
  The numeric-mode trim in the words of the spec: what becomes of one candidate that is
  within the threshold (kept, replaced by a copy of the entry of the digit that carries the
  candidate's rating, or dropped), and the trim of a list of candidates.
\<close>

definition numeric_survivor ::
  "UNICHARSET \<Rightarrow> real \<Rightarrow> ScoredClass \<Rightarrow> ScoredClass \<Rightarrow> ScoredClass \<Rightarrow> ScoredClass option" where
  "numeric_survivor u threshold one zero m =
     (if \<not> get_isalpha u (unichar_id m) \<or>
         id_to_unichar u (unichar_id m) \<in> {''i'', ''v'', ''x'', ''I'', ''V'', ''X''}
      then Some m
      else if id_to_unichar u (unichar_id m) = ''l'' \<and> \<not> rating one < threshold
      then Some (one\<lparr>rating := rating m\<rparr>)
      else if id_to_unichar u (unichar_id m) = ''O'' \<and> \<not> rating zero < threshold
      then Some (zero\<lparr>rating := rating m\<rparr>)
      else None)"

definition numeric_trim ::
  "UNICHARSET \<Rightarrow> real \<Rightarrow> ScoredClass \<Rightarrow> ScoredClass \<Rightarrow> ScoredClass list \<Rightarrow> ScoredClass list" where
  "numeric_trim u threshold one zero ms =
     List.map_filter (numeric_survivor u threshold one zero)
       (filter (\<lambda>m. rating m \<le> threshold) ms)"

text \<open>What the loop of the source does with the candidate at \<^verbatim>\<open>Next\<close>.\<close>

definition loop_keep ::
  "UNICHARSET \<Rightarrow> real \<Rightarrow> ScoredClass \<Rightarrow> ScoredClass \<Rightarrow> ScoredClass \<Rightarrow> ScoredClass option" where
  "loop_keep u t one zero m =
     (if rating m \<le> t then
        if \<not> get_isalpha u (unichar_id m) \<or> strstr romans (id_to_unichar u (unichar_id m))
        then Some m
        else if id_to_unichar u (unichar_id m) = ''l'' \<and> rating one \<ge> t
        then Some (one\<lparr>rating := rating m\<rparr>)
        else if id_to_unichar u (unichar_id m) = ''O'' \<and> rating zero \<ge> t
        then Some (zero\<lparr>rating := rating m\<rparr>)
        else None
      else None)"

definition example_digit_results :: ADAPT_RESULTS where
  "example_digit_results =
     AddNewResults example_params example_unicharset Initialize
       [(2, - 1, 0.5, False, 0, 0, 0), (1, - 1, 0.3, False, 0, 0, 0)]"

text \<open>
  What a step of a matching path does to the result set: it keeps the invariant and the
  blob length (\<open>carried\<close>); a whole path keeps the invariant and leaves the blob length
  the feature extractor reported (\<open>path_ok\<close>).
\<close>

definition carried :: "UNICHARSET \<Rightarrow> ADAPT_RESULTS \<Rightarrow> ADAPT_RESULTS \<Rightarrow> bool" where
  "carried u R R' \<longleftrightarrow> (results_inv u R \<longrightarrow> results_inv u R') \<and> BlobLength R' = BlobLength R"

definition path_ok :: "UNICHARSET \<Rightarrow> TBLOB \<Rightarrow> ADAPT_RESULTS \<Rightarrow> ADAPT_RESULTS \<Rightarrow> bool" where
  "path_ok u Blob R R' \<longleftrightarrow>
     (results_inv u R \<longrightarrow> results_inv u R') \<and> BlobLength R' = NumBL Blob"

text \<open>
  The rating of the noise candidate in the words of the spec, as a function of the average
  noise size and the blob length.
\<close>

definition noise_rating :: "real \<Rightarrow> int \<Rightarrow> real" where
  "noise_rating avg_noise_size blob_length =
     (real_of_int blob_length / avg_noise_size)\<^sup>2 /
     (1 + (real_of_int blob_length / avg_noise_size)\<^sup>2)"

section \<open>Properties of the result set\<close>

subsection \<open>Lookup\<close>

lemma find_unichar_None: "find_unichar ms c i = None \<longleftrightarrow> c \<notin> unichar_id ` set ms"
  by (induction ms arbitrary: i) auto

lemma find_unichar_Some:
  "find_unichar ms c i = Some j \<Longrightarrow>
     \<exists>k. j = i + k \<and> k < length ms \<and> unichar_id (ms ! k) = c \<and>
         (\<forall>l < k. unichar_id (ms ! l) \<noteq> c)"
proof (induction ms arbitrary: i)
  case Nil
  then show ?case by simp
next
  case (Cons m ms)
  show ?case
  proof (cases "unichar_id m = c")
    case True
    with Cons.prems show ?thesis by simp
  next
    case False
    with Cons.prems have "find_unichar ms c (Suc i) = Some j" by simp
    from Cons.IH[OF this] obtain k where k: "j = Suc i + k" "k < length ms"
      "unichar_id (ms ! k) = c" "\<forall>l < k. unichar_id (ms ! l) \<noteq> c" by blast
    have "\<forall>l < Suc k. unichar_id ((m # ms) ! l) \<noteq> c"
      using False k(4) by (simp add: nth_Cons split: nat.splits)
    with k show ?thesis by (intro exI[of _ "Suc k"]) simp
  qed
qed

lemma FindScoredUnichar_Some:
  "FindScoredUnichar r c = Some i \<Longrightarrow>
     i < length (match r) \<and> unichar_id (match r ! i) = c \<and>
     (\<forall>k < i. unichar_id (match r ! k) \<noteq> c)"
  unfolding FindScoredUnichar_def using find_unichar_Some[of "match r" c 0 i] by auto

lemma FindScoredUnichar_None:
  "FindScoredUnichar r c = None \<longleftrightarrow> c \<notin> unichar_id ` set (match r)"
  unfolding FindScoredUnichar_def by (rule find_unichar_None)

subsection \<open>Adding a result\<close>

lemma AddNewResult_rejected:
  "rejected par r c x \<Longrightarrow> AddNewResult par u r c s x a cf f1 f2 = r"
  by (simp add: AddNewResult_def rejected_def Let_def)

lemma AddNewResult_match:
  "\<not> rejected par r c x \<Longrightarrow> match (AddNewResult par u r c s x a cf f1 f2) =
     (case FindScoredUnichar r c of
        Some i \<Rightarrow> (match r)[i := (match r ! i)\<lparr>rating := x\<rparr>]
      | None \<Rightarrow> match r @ [\<lparr>unichar_id = c, shape_id = s, rating = x,
             adapted = a, config = word_of_int cf,
             fontinfo_id = word_of_int f1,
             fontinfo_id2 = word_of_int f2\<rparr>])"
  by (simp add: AddNewResult_def rejected_def Let_def split: option.splits)

lemma AddNewResult_changes:
  assumes "\<not> rejected par r c x"
  shows "match (AddNewResult par u r c s x a cf f1 f2) \<noteq> match r"
proof (cases "FindScoredUnichar r c")
  case None
  with assms show ?thesis by (simp add: AddNewResult_match)
next
  case (Some i)
  from FindScoredUnichar_Some[OF Some] have i: "i < length (match r)" by simp
  from assms Some have lt: "x < rating (match r ! i)" by (simp add: rejected_def)
  have "match (AddNewResult par u r c s x a cf f1 f2) ! i = (match r ! i)\<lparr>rating := x\<rparr>"
    using assms Some i by (simp add: AddNewResult_match)
  then have "rating (match (AddNewResult par u r c s x a cf f1 f2) ! i) = x" by simp
  with lt show ?thesis by auto
qed

lemma AddNewResult_HasNonfragment:
  "\<not> rejected par r c x \<Longrightarrow> HasNonfragment (AddNewResult par u r c s x a cf f1 f2) =
     (HasNonfragment r \<or> \<not> get_fragment u c)"
  by (auto simp add: AddNewResult_def rejected_def Let_def split: option.splits)

lemma AddNewResult_best_match:
  "\<not> rejected par r c x \<Longrightarrow> best_match (AddNewResult par u r c s x a cf f1 f2) =
     (if x < rating (best_match r) \<and> \<not> get_fragment u c
      then \<lparr>unichar_id = c, shape_id = s, rating = x,
             adapted = a, config = word_of_int cf,
             fontinfo_id = word_of_int f1,
             fontinfo_id2 = word_of_int f2\<rparr> else best_match r)"
  by (auto simp add: AddNewResult_def rejected_def Let_def split: option.splits)

lemma AddNewResult_BlobLength:
  "BlobLength (AddNewResult par u r c s x a cf f1 f2) = BlobLength r"
  by (auto simp add: AddNewResult_def Let_def split: option.splits)

lemma map_unichar_id_update:
  "map unichar_id (ms[i := (ms ! i)\<lparr>rating := x\<rparr>]) = map unichar_id ms"
  by (induction ms arbitrary: i) (auto split: nat.splits)

lemma results_inv_AddNewResult:
  assumes inv: "results_inv u r"
  shows "results_inv u (AddNewResult par u r c s x a cf f1 f2)"
proof (cases "rejected par r c x")
  case True
  with inv show ?thesis by (simp add: AddNewResult_rejected)
next
  case False
  let ?r' = "AddNewResult par u r c s x a cf f1 f2"
  let ?n = "\<lparr>unichar_id = c, shape_id = s, rating = x,
             adapted = a, config = word_of_int cf,
             fontinfo_id = word_of_int f1,
             fontinfo_id2 = word_of_int f2\<rparr>"
  have bm: "best_match ?r' = (if x < rating (best_match r) \<and> \<not> get_fragment u c then ?n else best_match r)"
    using False by (rule AddNewResult_best_match)
  have hn: "HasNonfragment ?r' = (HasNonfragment r \<or> \<not> get_fragment u c)"
    using False by (rule AddNewResult_HasNonfragment)
  show ?thesis
  proof (cases "FindScoredUnichar r c")
    case None
    then have m: "match ?r' = match r @ [?n]" using False by (simp add: AddNewResult_match)
    from None have notin: "c \<notin> unichar_id ` set (match r)" by (simp add: FindScoredUnichar_None)
    show ?thesis using inv notin unfolding results_inv_def bm hn m
      by (auto simp: WORST_POSSIBLE_RATING_def)
  next
    case (Some i)
    from FindScoredUnichar_Some[OF Some] have i: "i < length (match r)" "unichar_id (match r ! i) = c" by simp_all
    from False Some have lt: "x < rating (match r ! i)" by (simp add: rejected_def)
    have m: "match ?r' = (match r)[i := (match r ! i)\<lparr>rating := x\<rparr>]"
      using False Some by (simp add: AddNewResult_match)
    have mem: "match r ! i \<in> set (match r)" using i by simp
    have sub: "set (match ?r') \<subseteq> insert ((match r ! i)\<lparr>rating := x\<rparr>) (set (match r))"
      unfolding m by (rule set_update_subset_insert)
    have in': "(match r ! i)\<lparr>rating := x\<rparr> \<in> set (match ?r')"
      unfolding m using i by (simp add: set_update_memI)
    have ids: "map unichar_id (match ?r') = map unichar_id (match r)"
      unfolding m by (rule map_unichar_id_update)
    have ex: "(\<exists>m \<in> set (match ?r'). \<not> get_fragment u (unichar_id m)) \<longleftrightarrow>
              (\<exists>m \<in> set (match r). \<not> get_fragment u (unichar_id m))"
    proof -
      have "unichar_id ` set (match ?r') = unichar_id ` set (match r)"
        using ids by (metis set_map)
      then show ?thesis by (metis (no_types, lifting) image_iff)
    qed
    have c1: "\<forall>m \<in> set (match ?r'). \<not> get_fragment u (unichar_id m) \<longrightarrow> rating (best_match ?r') \<le> rating m"
    proof (intro ballI impI)
      fix m assume m': "m \<in> set (match ?r')" and nf: "\<not> get_fragment u (unichar_id m)"
      from m' sub have "m = (match r ! i)\<lparr>rating := x\<rparr> \<or> m \<in> set (match r)" by auto
      then show "rating (best_match ?r') \<le> rating m"
      proof
        assume "m = (match r ! i)\<lparr>rating := x\<rparr>"
        then show ?thesis using nf i inv mem lt unfolding bm results_inv_def by auto
      next
        assume "m \<in> set (match r)"
        then show ?thesis using nf inv unfolding bm results_inv_def by auto
      qed
    qed
    have hn': "HasNonfragment ?r' \<longleftrightarrow> (\<exists>m \<in> set (match ?r'). \<not> get_fragment u (unichar_id m))"
      unfolding ex hn using inv mem i unfolding results_inv_def by auto
    show ?thesis unfolding results_inv_def
      using c1 hn' inv ids unfolding bm hn results_inv_def
      by (auto simp: WORST_POSSIBLE_RATING_def)
  qed
qed

lemma results_inv_Initialize: "results_inv u Initialize"
  by (simp add: results_inv_def Initialize_def WORST_POSSIBLE_RATING_def)

lemma results_inv_AddNewResults:
  "results_inv u r \<Longrightarrow> results_inv u (AddNewResults par u r calls)"
  by (induction par u r calls rule: AddNewResults.induct) (simp_all add: results_inv_AddNewResult)

lemma results_inv_not_rejected:
  assumes inv: "results_inv u r" and pad: "0 \<le> matcher_bad_match_pad par"
    and lt: "x < rating (best_match r)" and nf: "\<not> get_fragment u c"
  shows "\<not> rejected par r c x"
proof (cases "FindScoredUnichar r c")
  case None
  with lt pad show ?thesis by (simp add: rejected_def)
next
  case (Some i)
  from FindScoredUnichar_Some[OF Some] have i: "i < length (match r)" "unichar_id (match r ! i) = c"
    by simp_all
  then have "match r ! i \<in> set (match r)" by simp
  with inv nf i(2) have "rating (best_match r) \<le> rating (match r ! i)"
    unfolding results_inv_def by blast
  with lt pad Some show ?thesis by (simp add: rejected_def)
qed

lemma best_match_AddNewResult:
  "best_match (AddNewResult par u r c s x a cf f1 f2) =
     (if \<not> rejected par r c x \<and> x < rating (best_match r) \<and> \<not> get_fragment u c
      then \<lparr>unichar_id = c, shape_id = s, rating = x, adapted = a,
             config = word_of_int cf, fontinfo_id = word_of_int f1,
             fontinfo_id2 = word_of_int f2\<rparr>
      else best_match r)"
proof (cases "rejected par r c x")
  case True
  then show ?thesis by (simp add: AddNewResult_rejected)
next
  case False
  then show ?thesis by (simp add: AddNewResult_best_match)
qed

lemma AddNewResult_same_iff_rejected:
  "AddNewResult par u r c s x a cf f1 f2 = r \<longleftrightarrow> rejected par r c x"
proof
  assume eq: "AddNewResult par u r c s x a cf f1 f2 = r"
  show "rejected par r c x"
  proof (rule ccontr)
    assume "\<not> rejected par r c x"
    from AddNewResult_changes[OF this, of u s a cf f1 f2] eq show False by simp
  qed
next
  assume "rejected par r c x"
  then show "AddNewResult par u r c s x a cf f1 f2 = r" by (rule AddNewResult_rejected)
qed

lemma example_results_eq:
  "example_results = \<lparr>BlobLength = MAX_INT32, HasNonfragment = True,
      match = [\<lparr>unichar_id = 5, shape_id = - 1, rating = 0.9, adapted = False, config = 0,
                 fontinfo_id = 0, fontinfo_id2 = 0\<rparr>,
               \<lparr>unichar_id = 7, shape_id = - 1, rating = 0.1, adapted = False, config = 0,
                 fontinfo_id = 0, fontinfo_id2 = 0\<rparr>],
      best_match = \<lparr>unichar_id = 7, shape_id = - 1, rating = 0.1, adapted = False, config = 0,
                 fontinfo_id = 0, fontinfo_id2 = 0\<rparr>\<rparr>"
  by (simp add: example_results_def example_params_def example_unicharset_def Initialize_def
      AddNewResult_def FindScoredUnichar_def WORST_POSSIBLE_RATING_def NO_CLASS_def Let_def)

lemma example_calls_results: "AddNewResults example_params example_unicharset Initialize example_calls = example_results"
  by (simp add: example_results_def example_calls_def)

section \<open>Properties of the matching paths\<close>

lemma carried_refl: "carried u R R"
  by (simp add: carried_def)

lemma carried_trans: "carried u R R' \<Longrightarrow> carried u R' R'' \<Longrightarrow> carried u R R''"
  by (simp add: carried_def)

lemma carried_AddNewResult: "carried u R (AddNewResult par u R c s x a cf f1 f2)"
  by (simp add: carried_def results_inv_AddNewResult AddNewResult_BlobLength)

lemma results_inv_BlobLength: "results_inv u (R\<lparr>BlobLength := x\<rparr>) = results_inv u R"
  by (simp add: results_inv_def)

lemma carried_expand_shape:
  "expand_shape par u st im sid bottom' top' cp bl cnf ir shape f2 R = Inr R' \<Longrightarrow> carried u R R'"
proof (induction shape arbitrary: f2 R)
  case Nil
  then show ?case by (simp add: carried_refl)
next
  case (Cons e shape)
  obtain uid fids where e: "e = (uid, fids)" by (cases e)
  from Cons.prems obtain f1 f2' where
    rec: "expand_shape par u st im sid bottom' top' cp bl cnf ir shape f2'
       (if get_enabled u uid
        then AddNewResult par u R uid sid
               (ComputeCorrectedRating par u (im_ApplyCNCorrection im) uid cp (Rating ir)
                  (FeatureMisses ir) bottom' top' bl cnf)
               False (IMConfig ir) f1 f2'
        else R) = Inr R'"
    unfolding e by (auto simp: Let_def split: sum.splits)
  from Cons.IH[OF rec] show ?case
    by (cases "get_enabled u uid")
       (auto intro: carried_trans[OF carried_AddNewResult])
qed

lemma carried_ExpandShapes:
  "ExpandShapesAndApplyCorrections par u tabs im classes c bottom' top' cp bl cnf ir R = Inr R'
     \<Longrightarrow> carried u R R'"
  unfolding ExpandShapesAndApplyCorrections_def Let_def
  by (auto split: option.splits sum.splits if_splits
      intro: carried_AddNewResult carried_refl carried_expand_shape)

lemma carried_MasterMatcher:
  "MasterMatcher par u tabs im nf classes top' bottom' pruned R = Inr R' \<Longrightarrow> carried u R R'"
proof (induction pruned arbitrary: R)
  case Nil
  then show ?case by (simp add: carried_refl)
next
  case (Cons e pruned)
  obtain c cp where e: "e = (c, cp)" by (cases e)
  from Cons.prems obtain R1 where
    1: "ExpandShapesAndApplyCorrections par u tabs im classes c bottom' top' cp
          (BlobLength R) nf (im_Match im c) R = Inr R1"
    and 2: "MasterMatcher par u tabs im nf classes top' bottom' pruned R1 = Inr R'"
    unfolding e by (auto split: sum.splits if_splits)
  from carried_ExpandShapes[OF 1] Cons.IH[OF 2] show ?case by (rule carried_trans)
qed

lemma path_ok_features:
  "carried u (R\<lparr>BlobLength := NumBL Blob\<rparr>) R' \<Longrightarrow> path_ok u Blob R R'"
  by (simp add: carried_def path_ok_def results_inv_BlobLength)

lemma path_ok_trans: "path_ok u Blob R R' \<Longrightarrow> path_ok u Blob R' R'' \<Longrightarrow> path_ok u Blob R R''"
  by (simp add: path_ok_def)

lemma path_ok_carried: "path_ok u Blob R R' \<Longrightarrow> carried u R' R'' \<Longrightarrow> path_ok u Blob R R''"
  by (simp add: path_ok_def carried_def)

lemma BaselineClassifier_ok:
  assumes "BaselineClassifier par u tabs Blob T (stats, R) = Inr (amb, stats', R')"
  shows "path_ok u Blob R R'"
    and "BaselineClassifierCalls stats' = BaselineClassifierCalls stats + 1"
    and "CharNormClassifierCalls stats' = CharNormClassifierCalls stats"
    and "AmbigClassifierCalls stats' = AmbigClassifierCalls stats"
    and "AdaptiveMatcherCalls stats' = AdaptiveMatcherCalls stats"
proof -
  note d = BaselineClassifier_def GetBaselineFeatures_def Let_def
  show "path_ok u Blob R R'"
  proof (cases "FeaturesOK Blob \<and> 0 < NumBL Blob")
    case False
    with assms have "R' = R\<lparr>BlobLength := NumBL Blob\<rparr>"
      by (auto simp: d split: if_splits)
    then show ?thesis by (simp add: path_ok_features carried_refl)
  next
    case True
    with assms obtain R2 where
      mm: "MasterMatcher par u tabs (im_BaseLine Blob) (\<lambda>c. 0) (Some (Class T))
             (bounding_box_top Blob) (bounding_box_bottom Blob) (BaselinePruned Blob)
             (R\<lparr>BlobLength := NumBL Blob\<rparr>) = Inr R2" and "R' = R2"
      by (auto simp: d split: if_splits sum.splits option.splits ADAPTED_CONFIG.splits)
    with carried_MasterMatcher[OF mm] show ?thesis by (simp add: path_ok_features)
  qed
  show "BaselineClassifierCalls stats' = BaselineClassifierCalls stats + 1"
    "CharNormClassifierCalls stats' = CharNormClassifierCalls stats"
    "AmbigClassifierCalls stats' = AmbigClassifierCalls stats"
    "AdaptiveMatcherCalls stats' = AdaptiveMatcherCalls stats"
    using assms
    by (auto simp: d split: if_splits sum.splits option.splits ADAPTED_CONFIG.splits)
qed

lemma CharNormClassifier_ok:
  assumes "CharNormClassifier par u tabs Blob (stats, R) = Inr (n, stats', R')"
  shows "path_ok u Blob R R'"
    and "BaselineClassifierCalls stats' = BaselineClassifierCalls stats"
    and "CharNormClassifierCalls stats' = CharNormClassifierCalls stats + 1"
    and "AmbigClassifierCalls stats' = AmbigClassifierCalls stats"
    and "AdaptiveMatcherCalls stats' = AdaptiveMatcherCalls stats"
proof -
  note d = CharNormClassifier_def GetCharNormFeatures_def Let_def
  show "path_ok u Blob R R'"
  proof (cases "FeaturesOK Blob \<and> 0 < NumCN Blob")
    case False
    with assms have "R' = R\<lparr>BlobLength := NumBL Blob\<rparr>"
      by (auto simp: d split: if_splits)
    then show ?thesis by (simp add: path_ok_features carried_refl)
  next
    case True
    with assms obtain pruned where
      mm: "MasterMatcher par u tabs (im_CharNorm Blob) (CharNormArray Blob) None
             (bounding_box_top Blob) (bounding_box_bottom Blob) pruned
             (R\<lparr>BlobLength := NumBL Blob\<rparr>) = Inr R'"
      by (auto simp: d split: if_splits sum.splits)
    with carried_MasterMatcher[OF mm] show ?thesis by (simp add: path_ok_features)
  qed
  show "BaselineClassifierCalls stats' = BaselineClassifierCalls stats"
    "CharNormClassifierCalls stats' = CharNormClassifierCalls stats + 1"
    "AmbigClassifierCalls stats' = AmbigClassifierCalls stats"
    "AdaptiveMatcherCalls stats' = AdaptiveMatcherCalls stats"
    using assms by (auto simp: d split: if_splits sum.splits)
qed

lemma AmbigClassifier_loop_ok:
  "AmbigClassifier_loop par u tabs Blob ambs (stats, R) = Inr (stats', R') \<Longrightarrow>
   carried u R R' \<and>
   BaselineClassifierCalls stats' = BaselineClassifierCalls stats \<and>
   CharNormClassifierCalls stats' = CharNormClassifierCalls stats \<and>
   AmbigClassifierCalls stats' = AmbigClassifierCalls stats \<and>
   AdaptiveMatcherCalls stats' = AdaptiveMatcherCalls stats"
proof (induction ambs arbitrary: stats R)
  case Nil
  then show ?case by (simp add: carried_refl)
next
  case (Cons a ambs)
  show ?case
  proof (cases "a \<ge> 0")
    case False
    with Cons.prems show ?thesis by (simp add: carried_refl)
  next
    case True
    with Cons.prems obtain R1 where
      1: "ExpandShapesAndApplyCorrections par u tabs (im_CharNorm Blob) None
               a (bounding_box_bottom Blob) (bounding_box_top Blob) 0
               (BlobLength R) (CharNormArray Blob)
               (im_Match (im_CharNorm Blob) a) R = Inr R1"
      and 2: "AmbigClassifier_loop par u tabs Blob ambs
              (stats\<lparr>NumAmbigClassesTried := NumAmbigClassesTried stats + 1\<rparr>, R1) = Inr (stats', R')"
      by (auto split: sum.splits)
    from Cons.IH[OF 2] carried_ExpandShapes[OF 1] show ?thesis
      by (auto intro: carried_trans)
  qed
qed

lemma AmbigClassifier_ok:
  assumes "AmbigClassifier par u tabs Blob ambs (stats, R) = Inr (stats', R')"
  shows "path_ok u Blob R R'"
    and "BaselineClassifierCalls stats' = BaselineClassifierCalls stats"
    and "CharNormClassifierCalls stats' = CharNormClassifierCalls stats"
    and "AmbigClassifierCalls stats' = AmbigClassifierCalls stats + 1"
    and "AdaptiveMatcherCalls stats' = AdaptiveMatcherCalls stats"
proof -
  note d = AmbigClassifier_def GetCharNormFeatures_def Let_def
  have "path_ok u Blob R R' \<and>
    BaselineClassifierCalls stats' = BaselineClassifierCalls stats \<and>
    CharNormClassifierCalls stats' = CharNormClassifierCalls stats \<and>
    AmbigClassifierCalls stats' = AmbigClassifierCalls stats + 1 \<and>
    AdaptiveMatcherCalls stats' = AdaptiveMatcherCalls stats"
  proof (cases "FeaturesOK Blob \<and> 0 < NumCN Blob")
    case False
    with assms have "R' = R\<lparr>BlobLength := NumBL Blob\<rparr>"
      "stats' = stats\<lparr>AmbigClassifierCalls := AmbigClassifierCalls stats + 1\<rparr>"
      by (auto simp: d split: if_splits)
    then show ?thesis by (simp add: path_ok_features carried_refl)
  next
    case True
    with assms have "AmbigClassifier_loop par u tabs Blob ambs
        (stats\<lparr>AmbigClassifierCalls := AmbigClassifierCalls stats + 1\<rparr>,
         R\<lparr>BlobLength := NumBL Blob\<rparr>) = Inr (stats', R')"
      by (auto simp: d split: if_splits)
    from AmbigClassifier_loop_ok[OF this] show ?thesis by (simp add: path_ok_features)
  qed
  then show "path_ok u Blob R R'"
    and "BaselineClassifierCalls stats' = BaselineClassifierCalls stats"
    and "CharNormClassifierCalls stats' = CharNormClassifierCalls stats"
    and "AmbigClassifierCalls stats' = AmbigClassifierCalls stats + 1"
    and "AdaptiveMatcherCalls stats' = AdaptiveMatcherCalls stats"
    by simp_all
qed

lemma matching_paths_ok:
  assumes "matching_paths par u tabs Blob T (stats, R) = Inr (stats', R')"
  shows "path_ok u Blob R R'"
proof (cases "NumPermClasses T < matcher_permanent_classes_min par \<or> tess_cn_matching par")
  case True
  with assms obtain n where "CharNormClassifier par u tabs Blob (stats, R) = Inr (n, stats', R')"
    by (auto simp: matching_paths_def split: sum.splits)
  then show ?thesis by (rule CharNormClassifier_ok)
next
  case False
  with assms obtain amb stats1 R1 where
    b: "BaselineClassifier par u tabs Blob T (stats, R) = Inr (amb, stats1, R1)"
    by (auto simp: matching_paths_def split: sum.splits)
  note ok1 = BaselineClassifier_ok(1)[OF b]
  from assms False b have
    "(\<exists>n. CharNormClassifier par u tabs Blob (stats1, R1) = Inr (n, stats', R')) \<or>
     AmbigClassifier par u tabs Blob (the amb) (stats1, R1) = Inr (stats', R') \<or>
     R' = R1"
    by (auto simp: matching_paths_def split: if_splits sum.splits)
  then consider n where "CharNormClassifier par u tabs Blob (stats1, R1) = Inr (n, stats', R')"
    | "AmbigClassifier par u tabs Blob (the amb) (stats1, R1) = Inr (stats', R')"
    | "R' = R1" by blast
  then show ?thesis
  proof cases
    case 1
    from ok1 CharNormClassifier_ok(1)[OF 1] show ?thesis by (rule path_ok_trans)
  next
    case 2
    from ok1 AmbigClassifier_ok(1)[OF 2] show ?thesis by (rule path_ok_trans)
  next
    case 3
    with ok1 show ?thesis by simp
  qed
qed

lemma noise_rating_bounds:
  "0 \<le> noise_rating a b \<and> noise_rating a b < 1"
proof -
  define y where "y = (real_of_int b / a)\<^sup>2"
  have y: "0 \<le> y" by (simp add: y_def)
  then have "0 < 1 + y" by simp
  with y have "0 \<le> y / (1 + y)" "y / (1 + y) < 1" by (simp_all add: divide_less_eq)
  then show ?thesis by (simp add: noise_rating_def y_def)
qed

lemma noise_rating_strict_mono:
  assumes a: "0 < a" and b: "0 \<le> b1" "b1 < b2"
  shows "noise_rating a b1 < noise_rating a b2"
proof -
  let ?x1 = "real_of_int b1 / a" and ?x2 = "real_of_int b2 / a"
  from b have "real_of_int b1 < real_of_int b2" by simp
  from divide_strict_right_mono[OF this a] a b have x: "0 \<le> ?x1" "?x1 < ?x2" by simp_all
  then have sq: "?x1\<^sup>2 < ?x2\<^sup>2" by (intro power_strict_mono) simp_all
  define y1 y2 where "y1 = ?x1\<^sup>2" and "y2 = ?x2\<^sup>2"
  have y: "0 \<le> y1" "y1 < y2" using sq by (simp_all add: y1_def y2_def)
  then have pos: "0 < 1 + y1" "0 < 1 + y2" by simp_all
  have "y1 * (1 + y2) < y2 * (1 + y1)" using y by (simp add: algebra_simps)
  then have "y1 / (1 + y1) < y2 / (1 + y2)"
    using pos by (simp add: divide_less_eq less_divide_eq mult.commute)
  then show ?thesis by (simp add: noise_rating_def y1_def y2_def)
qed

lemma ClassifyAsNoise_rating:
  "ClassifyAsNoise par u R =
     AddNewResult par u R NO_CLASS (- 1)
       (noise_rating (matcher_avg_noise_size par) (BlobLength R)) False (- 1)
       kBlankFontinfoId kBlankFontinfoId"
  by (simp add: ClassifyAsNoise_def noise_rating_def Let_def power2_eq_square)

lemma ClassifyAsNoise_adds:
  assumes inv: "results_inv u R" and pad: "0 \<le> matcher_bad_match_pad par"
    and nf: "\<not> get_fragment u NO_CLASS"
    and frags: "\<forall>m \<in> set (match R). get_fragment u (unichar_id m)"
  shows "ClassifyAsNoise par u R =
     R\<lparr>HasNonfragment := True,
       match := match R @
         [\<lparr>unichar_id = NO_CLASS, shape_id = - 1,
           rating = noise_rating (matcher_avg_noise_size par) (BlobLength R),
           adapted = False, config = word_of_int (- 1),
           fontinfo_id = word_of_int kBlankFontinfoId,
           fontinfo_id2 = word_of_int kBlankFontinfoId\<rparr>],
       best_match :=
         \<lparr>unichar_id = NO_CLASS, shape_id = - 1,
           rating = noise_rating (matcher_avg_noise_size par) (BlobLength R),
           adapted = False, config = word_of_int (- 1),
           fontinfo_id = word_of_int kBlankFontinfoId,
           fontinfo_id2 = word_of_int kBlankFontinfoId\<rparr>\<rparr>"
proof -
  let ?x = "noise_rating (matcher_avg_noise_size par) (BlobLength R)"
  from frags nf have notin: "NO_CLASS \<notin> unichar_id ` set (match R)" by auto
  then have f: "FindScoredUnichar R NO_CLASS = None" by (simp add: FindScoredUnichar_None)
  from inv frags have "\<not> HasNonfragment R" unfolding results_inv_def by blast
  with inv have b: "best_match R = best_match Initialize" unfolding results_inv_def by blast
  then have br: "rating (best_match R) = 1" by (simp add: Initialize_def WORST_POSSIBLE_RATING_def)
  from noise_rating_bounds[of "matcher_avg_noise_size par" "BlobLength R"]
  have x: "?x < 1" by simp
  with pad br have "\<not> ?x > rating (best_match R) + matcher_bad_match_pad par" by simp
  with f x br nf show ?thesis
    unfolding ClassifyAsNoise_rating by (simp add: AddNewResult_def Let_def)
qed

subsection \<open>Runs on the example inputs\<close>

lemmas example_defs =
  example_blob_def example_tables_def example_params_def example_stats_def
  example_unicharset_def example_templates_def

lemmas path_defs =
  DoAdaptiveMatch_def matching_paths_def CharNormClassifier_def BaselineClassifier_def
  AmbigClassifier_def GetCharNormFeatures_def GetBaselineFeatures_def
  ExpandShapesAndApplyCorrections_def ClassAndConfigIDToFontOrShapeID_def get_checked_def
  ComputeCorrectedRating_def AddNewResult_def FindScoredUnichar_def Initialize_def
  MarginalMatch_def NumMatches_def ClassifyAsNoise_def
  WORST_POSSIBLE_RATING_def NO_CLASS_def kBlankFontinfoId_def Let_def

lemma example_fragment_paths:
  "matching_paths example_params example_unicharset example_tables example_fragment_blob
     (NewAdaptedTemplates example_tables)
     (example_stats\<lparr>AdaptiveMatcherCalls := AdaptiveMatcherCalls example_stats + 1\<rparr>, Initialize) =
   Inr (example_stats\<lparr>AdaptiveMatcherCalls := 1, CharNormClassifierCalls := 1,
          NumCharNormClassesTried := 1\<rparr>,
        Initialize\<lparr>BlobLength := 30,
          match := [\<lparr>unichar_id = 6, shape_id = - 1, rating = 0.5, adapted = False,
                     config = 0, fontinfo_id = 3, fontinfo_id2 = 4\<rparr>]\<rparr>)"
  by (simp add: matching_paths_def CharNormClassifier_def GetCharNormFeatures_def
      example_fragment_blob_def example_blob_def example_tables_def example_params_def
      example_stats_def example_unicharset_def
      ExpandShapesAndApplyCorrections_def ClassAndConfigIDToFontOrShapeID_def get_checked_def
      ComputeCorrectedRating_def AddNewResult_def FindScoredUnichar_def Initialize_def
      WORST_POSSIBLE_RATING_def Let_def)

lemma example_run_baseline_charnorm:
  "DoAdaptiveMatch example_params example_unicharset example_tables example_blob
     example_templates (example_stats, Initialize) =
   Inr (\<lparr>AdaptiveMatcherCalls = 1, BaselineClassifierCalls = 1,
         CharNormClassifierCalls = 1, AmbigClassifierCalls = 0,
         NumBaselineClassesTried = 1, NumCharNormClassesTried = 2,
         NumAmbigClassesTried = 0, NumClassesOutput = 0\<rparr>,
      \<lparr>BlobLength = 30, HasNonfragment = True,
         match =
           [\<lparr>unichar_id = 5, shape_id = - 1, rating = 1 / 8, adapted = True,
               config = 0, fontinfo_id = 3, fontinfo_id2 = - 2\<rparr>],
         best_match =
           \<lparr>unichar_id = 5, shape_id = - 1, rating = 1 / 8, adapted = True,
              config = 0, fontinfo_id = 3, fontinfo_id2 = - 2\<rparr>\<rparr>)"
  by (simp add: path_defs example_defs)

lemma example_run_baseline_ambig:
  "DoAdaptiveMatch (example_params\<lparr>matcher_great_threshold := 0.2\<rparr>) example_unicharset
     example_tables example_blob example_templates (example_stats, Initialize) =
   Inr (\<lparr>AdaptiveMatcherCalls = 1, BaselineClassifierCalls = 1,
         CharNormClassifierCalls = 0, AmbigClassifierCalls = 1,
         NumBaselineClassesTried = 1, NumCharNormClassesTried = 0,
         NumAmbigClassesTried = 1, NumClassesOutput = 0\<rparr>,
      \<lparr>BlobLength = 30, HasNonfragment = True,
         match =
           [\<lparr>unichar_id = 5, shape_id = - 1, rating = 1 / 8, adapted = True,
               config = 0, fontinfo_id = 3, fontinfo_id2 = - 2\<rparr>],
         best_match =
           \<lparr>unichar_id = 5, shape_id = - 1, rating = 1 / 8, adapted = True,
              config = 0, fontinfo_id = 3, fontinfo_id2 = - 2\<rparr>\<rparr>)"
  by (simp add: path_defs example_defs)

lemma example_run_baseline:
  "BaselineClassifier example_params example_unicharset example_tables example_blob
     example_templates
     (example_stats\<lparr>AdaptiveMatcherCalls := AdaptiveMatcherCalls example_stats + 1\<rparr>, Initialize) =
   Inr (Some [7],
      \<lparr>AdaptiveMatcherCalls = 1, BaselineClassifierCalls = 1,
         CharNormClassifierCalls = 0, AmbigClassifierCalls = 0,
         NumBaselineClassesTried = 1, NumCharNormClassesTried = 0,
         NumAmbigClassesTried = 0, NumClassesOutput = 0\<rparr>,
      \<lparr>BlobLength = 30, HasNonfragment = True,
         match =
           [\<lparr>unichar_id = 5, shape_id = - 1, rating = 1 / 8, adapted = True,
               config = 0, fontinfo_id = 3, fontinfo_id2 = - 2\<rparr>],
         best_match =
           \<lparr>unichar_id = 5, shape_id = - 1, rating = 1 / 8, adapted = True,
              config = 0, fontinfo_id = 3, fontinfo_id2 = - 2\<rparr>\<rparr>)"
  by (simp add: path_defs example_defs)

lemma example_run_charnorm:
  "DoAdaptiveMatch example_params example_unicharset example_tables example_fragment_blob
     (NewAdaptedTemplates example_tables) (example_stats, Initialize) =
   Inr (\<lparr>AdaptiveMatcherCalls = 1, BaselineClassifierCalls = 0,
         CharNormClassifierCalls = 1, AmbigClassifierCalls = 0,
         NumBaselineClassesTried = 0, NumCharNormClassesTried = 1,
         NumAmbigClassesTried = 0, NumClassesOutput = 0\<rparr>,
        \<lparr>BlobLength = 30, HasNonfragment = True,
         match = [\<lparr>unichar_id = 6, shape_id = - 1, rating = 0.5, adapted = False,
                    config = 0, fontinfo_id = 3, fontinfo_id2 = 4\<rparr>,
                  \<lparr>unichar_id = 0, shape_id = - 1, rating = 25 / 29, adapted = False,
                    config = - 1, fontinfo_id = - 2, fontinfo_id2 = - 2\<rparr>],
         best_match = \<lparr>unichar_id = 0, shape_id = - 1, rating = 25 / 29,
                    adapted = False, config = - 1, fontinfo_id = - 2, fontinfo_id2 = - 2\<rparr>\<rparr>)"
  by (simp add: path_defs example_defs example_fragment_blob_def)

lemma example_baseline_match:
  "MasterMatcher example_params example_unicharset example_tables (im_BaseLine example_blob)
     (\<lambda>c. 0) (Some (Class example_templates)) (bounding_box_top example_blob)
     (bounding_box_bottom example_blob) (BaselinePruned example_blob)
     (Initialize\<lparr>BlobLength := NumBL example_blob\<rparr>) =
   Inr \<lparr>BlobLength = 30, HasNonfragment = True,
         match =
           [\<lparr>unichar_id = 5, shape_id = - 1, rating = 1 / 8, adapted = True,
               config = 0, fontinfo_id = 3, fontinfo_id2 = - 2\<rparr>],
         best_match =
           \<lparr>unichar_id = 5, shape_id = - 1, rating = 1 / 8, adapted = True,
              config = 0, fontinfo_id = 3, fontinfo_id2 = - 2\<rparr>\<rparr>"
  by (simp add: path_defs example_defs)

lemma example_temp_match:
  "MasterMatcher example_params example_unicharset example_tables (im_BaseLine example_temp_blob)
     (\<lambda>c. 0) (Some (Class example_templates)) (bounding_box_top example_temp_blob)
     (bounding_box_bottom example_temp_blob) (BaselinePruned example_temp_blob)
     (Initialize\<lparr>BlobLength := NumBL example_temp_blob\<rparr>) =
   Inr \<lparr>BlobLength = 30, HasNonfragment = True,
         match =
           [\<lparr>unichar_id = 1, shape_id = - 1, rating = 1 / 8, adapted = True,
               config = 0, fontinfo_id = 3, fontinfo_id2 = - 2\<rparr>],
         best_match =
           \<lparr>unichar_id = 1, shape_id = - 1, rating = 1 / 8, adapted = True,
              config = 0, fontinfo_id = 3, fontinfo_id2 = - 2\<rparr>\<rparr>"
  by (simp add: path_defs example_defs example_temp_blob_def)

lemma example_numeric_trim:
  "RemoveBadMatches example_params example_unicharset
     \<lparr>BlobLength = 30, HasNonfragment = True,
         match =
           [\<lparr>unichar_id = 5, shape_id = - 1, rating = 1 / 8, adapted = True,
               config = 0, fontinfo_id = 3, fontinfo_id2 = - 2\<rparr>],
         best_match =
           \<lparr>unichar_id = 5, shape_id = - 1, rating = 1 / 8, adapted = True,
              config = 0, fontinfo_id = 3, fontinfo_id2 = - 2\<rparr>\<rparr> =
   \<lparr>BlobLength = 30, HasNonfragment = True, match = [],
         best_match =
           \<lparr>unichar_id = 5, shape_id = - 1, rating = 1 / 8, adapted = True,
              config = 0, fontinfo_id = 3, fontinfo_id2 = - 2\<rparr>\<rparr>"
  by (simp add: RemoveBadMatches_def RemoveBadMatches_numeric_loop.simps example_params_def
      example_unicharset_def romans_def Let_def)

lemma example_no_puncs:
  "RemoveExtraPuncs example_unicharset
     \<lparr>BlobLength = 30, HasNonfragment = True, match = [],
         best_match =
           \<lparr>unichar_id = 5, shape_id = - 1, rating = 1 / 8, adapted = True,
              config = 0, fontinfo_id = 3, fontinfo_id2 = - 2\<rparr>\<rparr> =
   \<lparr>BlobLength = 30, HasNonfragment = True, match = [],
         best_match =
           \<lparr>unichar_id = 5, shape_id = - 1, rating = 1 / 8, adapted = True,
              config = 0, fontinfo_id = 3, fontinfo_id2 = - 2\<rparr>\<rparr>"
  by (simp add: RemoveExtraPuncs_def RemoveExtraPuncs_loop.simps)

lemma example_no_choices:
  "ConvertMatchesToChoices example_params example_unicharset example_tables example_blob
     \<lparr>BlobLength = 30, HasNonfragment = True, match = [],
         best_match =
           \<lparr>unichar_id = 5, shape_id = - 1, rating = 1 / 8, adapted = True,
              config = 0, fontinfo_id = 3, fontinfo_id2 = - 2\<rparr>\<rparr> [] =
   (\<lparr>BlobLength = 30, HasNonfragment = True, match = [],
         best_match =
           \<lparr>unichar_id = 5, shape_id = - 1, rating = 1 / 8, adapted = True,
              config = 0, fontinfo_id = 3, fontinfo_id2 = - 2\<rparr>\<rparr>, [])"
  by (simp add: ConvertMatchesToChoices_def)

lemma example_classified_empty:
  "classified_choices example_params example_unicharset example_tables example_blob
     example_session [] =
   Inr (\<lparr>session_templates = Some example_templates,
         session_stats = \<lparr>AdaptiveMatcherCalls = 1, BaselineClassifierCalls = 1,
           CharNormClassifierCalls = 1, AmbigClassifierCalls = 0,
           NumBaselineClassesTried = 1, NumCharNormClassesTried = 2,
           NumAmbigClassesTried = 0, NumClassesOutput = 0\<rparr>\<rparr>, [])"
proof -
  have s: "LargeSpeckle example_blob = False"
    by (simp add: example_blob_def)
  have q: "qsort_by_rating [] = []" by (simp add: qsort_by_rating_def)
  show ?thesis
    by (simp add: classified_choices_def example_session_def
        example_run_baseline_charnorm example_numeric_trim q example_no_puncs
        example_no_choices s Let_def)
qed

subsection \<open>C1: rejection and merging in AddNewResult\<close>

text \<open>
  C1 as stated fails. The claim has the candidate rejected only when its rating exceeds the
  best rating plus \<^verbatim>\<open>matcher_bad_match_pad\<close> and there is no entry of its class with an
  equal or worse rating. In the example the class 5 has an entry rated 0.9, the best
  rating is 0.1, and the new rating 0.5 is beyond the pad: the source returns early and
  the entry keeps 0.9, although an entry with a worse rating was there to replace.
\<close>

theorem AddNewResult_reject_counterexample:
  "\<not> (AddNewResult example_params example_unicharset example_results 5 (- 1) 0.5 False 0 0 0
        = example_results \<longleftrightarrow>
      0.5 > rating (best_match example_results) + matcher_bad_match_pad example_params \<and>
      \<not> (case FindScoredUnichar example_results 5 of
           None \<Rightarrow> False
         | Some i \<Rightarrow> rating (match example_results ! i) \<ge> 0.5))"
  by (simp add: example_results_eq AddNewResult_def FindScoredUnichar_def example_params_def Let_def)

text \<open>
  C1, amended: a call of \<^verbatim>\<open>AddNewResult\<close> leaves the result set unchanged if and only if
  the rating exceeds the best rating plus \<^verbatim>\<open>matcher_bad_match_pad\<close>, or the class has an
  entry whose rating is lower than or equal to the new one. When the result set changes and
  the class has an entry, that entry's rating becomes the lower of the old and the new
  rating, in the same slot; when the class has none, the new entry is appended. A slot is
  added only when the class was absent, and classes stay distinct.
\<close>

theorem AddNewResult_reject_or_merge:
  "(AddNewResult par u r c s x a cf f1 f2 = r \<longleftrightarrow>
      x > rating (best_match r) + matcher_bad_match_pad par \<or>
      (\<exists>i. FindScoredUnichar r c = Some i \<and> rating (match r ! i) \<le> x)) \<and>
   (AddNewResult par u r c s x a cf f1 f2 \<noteq> r \<longrightarrow>
      (\<forall>i. FindScoredUnichar r c = Some i \<longrightarrow>
         match (AddNewResult par u r c s x a cf f1 f2) =
           (match r)[i := (match r ! i)\<lparr>rating := min (rating (match r ! i)) x\<rparr>]) \<and>
      (FindScoredUnichar r c = None \<longrightarrow>
         match (AddNewResult par u r c s x a cf f1 f2) =
           match r @ [\<lparr>unichar_id = c, shape_id = s, rating = x, adapted = a,
                       config = word_of_int cf, fontinfo_id = word_of_int f1,
                       fontinfo_id2 = word_of_int f2\<rparr>])) \<and>
   (length (match (AddNewResult par u r c s x a cf f1 f2)) \<noteq> length (match r) \<longrightarrow>
      c \<notin> unichar_id ` set (match r) \<and>
      length (match (AddNewResult par u r c s x a cf f1 f2)) = Suc (length (match r))) \<and>
   (distinct (map unichar_id (match r)) \<longrightarrow>
      distinct (map unichar_id (match (AddNewResult par u r c s x a cf f1 f2))))"
proof -
  let ?r' = "AddNewResult par u r c s x a cf f1 f2"
  have rej: "rejected par r c x \<longleftrightarrow>
      x > rating (best_match r) + matcher_bad_match_pad par \<or>
      (\<exists>i. FindScoredUnichar r c = Some i \<and> rating (match r ! i) \<le> x)"
    by (auto simp: rejected_def split: option.splits)
  have same: "?r' = r \<longleftrightarrow> rejected par r c x"
  proof
    assume eq: "?r' = r"
    show "rejected par r c x"
    proof (rule ccontr)
      assume "\<not> rejected par r c x"
      from AddNewResult_changes[OF this, of u s a cf f1 f2] eq show False by simp
    qed
  next
    assume "rejected par r c x"
    then show "?r' = r" by (rule AddNewResult_rejected)
  qed
  have upd: "match ?r' = (match r)[i := (match r ! i)\<lparr>rating := min (rating (match r ! i)) x\<rparr>]"
    if "?r' \<noteq> r" "FindScoredUnichar r c = Some i" for i
  proof -
    from that same have nr: "\<not> rejected par r c x" by simp
    with that(2) have "x < rating (match r ! i)" by (simp add: rejected_def)
    then have "min (rating (match r ! i)) x = x" by simp
    with nr that(2) show ?thesis by (simp add: AddNewResult_match)
  qed
  have app: "match ?r' = match r @ [\<lparr>unichar_id = c, shape_id = s, rating = x, adapted = a,
                       config = word_of_int cf, fontinfo_id = word_of_int f1,
                       fontinfo_id2 = word_of_int f2\<rparr>]"
    if "?r' \<noteq> r" "FindScoredUnichar r c = None"
    using that same by (simp add: AddNewResult_match)
  have len: "c \<notin> unichar_id ` set (match r) \<and> length (match ?r') = Suc (length (match r))"
    if "length (match ?r') \<noteq> length (match r)"
  proof (cases "FindScoredUnichar r c")
    case None
    from that have "?r' \<noteq> r" by auto
    from app[OF this None] None show ?thesis by (simp add: FindScoredUnichar_None)
  next
    case (Some i)
    from that have "?r' \<noteq> r" by auto
    from upd[OF this Some] that show ?thesis by simp
  qed
  have dist: "distinct (map unichar_id (match ?r'))" if d: "distinct (map unichar_id (match r))"
  proof (cases "?r' = r")
    case True
    with d show ?thesis by simp
  next
    case False
    show ?thesis
    proof (cases "FindScoredUnichar r c")
      case None
      from app[OF False None] None d show ?thesis by (simp add: FindScoredUnichar_None)
    next
      case (Some i)
      from upd[OF False Some] d show ?thesis
        by (simp add: map_unichar_id_update)
    qed
  qed
  have 1: "?r' = r \<longleftrightarrow>
      x > rating (best_match r) + matcher_bad_match_pad par \<or>
      (\<exists>i. FindScoredUnichar r c = Some i \<and> rating (match r ! i) \<le> x)"
    using same rej by simp
  show ?thesis
    apply (intro conjI impI allI)
    subgoal by (rule 1)
    subgoal for i by (rule upd)
    subgoal by (rule app)
    subgoal using len by blast
    subgoal using len by blast
    subgoal by (rule dist)
    done
qed

theorem AddNewResult_reject_or_merge_witness:
  "AddNewResult example_params example_unicharset example_results 5 (- 1) 0.2 True 3 4 4
     \<noteq> example_results \<and>
   FindScoredUnichar example_results 5 = Some 0 \<and>
   match (AddNewResult example_params example_unicharset example_results 5 (- 1) 0.2 True 3 4 4) =
     [\<lparr>unichar_id = 5, shape_id = - 1, rating = 0.2, adapted = False, config = 0,
         fontinfo_id = 0, fontinfo_id2 = 0\<rparr>,
      \<lparr>unichar_id = 7, shape_id = - 1, rating = 0.1, adapted = False, config = 0,
         fontinfo_id = 0, fontinfo_id2 = 0\<rparr>]"
proof -
  let ?r' = "AddNewResult example_params example_unicharset example_results 5 (- 1) 0.2 True 3 4 4"
  have f: "FindScoredUnichar example_results 5 = Some 0"
    by (simp add: example_results_eq FindScoredUnichar_def)
  have "\<not> (0.2 > rating (best_match example_results) + matcher_bad_match_pad example_params \<or>
      (\<exists>i. FindScoredUnichar example_results 5 = Some i \<and> rating (match example_results ! i) \<le> 0.2))"
    unfolding f by (simp add: example_results_eq example_params_def)
  with AddNewResult_reject_or_merge [of example_params example_unicharset example_results
          5 "- 1" "0.2" True 3 4 4]
  have n: "?r' \<noteq> example_results" by blast
  with f AddNewResult_reject_or_merge [of example_params example_unicharset example_results
          5 "- 1" "0.2" True 3 4 4]
  have "match ?r' = (match example_results)[0 := (match example_results ! 0)
           \<lparr>rating := min (rating (match example_results ! 0)) 0.2\<rparr>]" by blast
  also have "\<dots> = [\<lparr>unichar_id = 5, shape_id = - 1, rating = 0.2, adapted = False, config = 0,
         fontinfo_id = 0, fontinfo_id2 = 0\<rparr>,
      \<lparr>unichar_id = 7, shape_id = - 1, rating = 0.1, adapted = False, config = 0,
         fontinfo_id = 0, fontinfo_id2 = 0\<rparr>]"
    by (simp add: example_results_eq)
  finally show ?thesis using n f by simp
qed

subsection \<open>C7: the running best excludes fragments\<close>

text \<open>
  C7: when \<^verbatim>\<open>AddNewResult\<close> adds a candidate (the result set changes), the running best
  becomes that candidate exactly when its rating is strictly lower than the current best
  rating and its class is not a fragment; otherwise the best is left as it was. For a
  result set built from \<^verbatim>\<open>Initialize\<close> by calls of \<^verbatim>\<open>AddNewResult\<close>, with a pad that is
  not negative, a candidate with a strictly lower rating and a class that is not a fragment
  is never rejected, so the condition on the result set changing can be dropped. In such a
  result set the class of the running best is not a fragment, as soon as an entry that is
  not a fragment has a rating below the worst possible one, or as soon as \<^verbatim>\<open>NO_CLASS\<close>, the
  class of the initial best, is not a fragment.
\<close>

theorem best_match_excludes_fragments:
  "best_match (AddNewResult par u r c s x a cf f1 f2) =
     (if AddNewResult par u r c s x a cf f1 f2 \<noteq> r \<and>
         x < rating (best_match r) \<and> \<not> get_fragment u c
      then \<lparr>unichar_id = c, shape_id = s, rating = x, adapted = a,
             config = word_of_int cf, fontinfo_id = word_of_int f1,
             fontinfo_id2 = word_of_int f2\<rparr>
      else best_match r) \<and>
   (0 \<le> matcher_bad_match_pad par \<longrightarrow>
    best_match (AddNewResult par u (AddNewResults par u Initialize calls) c s x a cf f1 f2) =
     (if x < rating (best_match (AddNewResults par u Initialize calls)) \<and> \<not> get_fragment u c
      then \<lparr>unichar_id = c, shape_id = s, rating = x, adapted = a,
             config = word_of_int cf, fontinfo_id = word_of_int f1,
             fontinfo_id2 = word_of_int f2\<rparr>
      else best_match (AddNewResults par u Initialize calls))) \<and>
   ((\<exists>m \<in> set (match (AddNewResults par u Initialize calls)).
        \<not> get_fragment u (unichar_id m) \<and> rating m < WORST_POSSIBLE_RATING) \<longrightarrow>
    \<not> get_fragment u (unichar_id (best_match (AddNewResults par u Initialize calls)))) \<and>
   (\<not> get_fragment u NO_CLASS \<longrightarrow>
    \<not> get_fragment u (unichar_id (best_match (AddNewResults par u Initialize calls))))"
proof -
  let ?R = "AddNewResults par u Initialize calls"
  have inv: "results_inv u ?R"
    by (rule results_inv_AddNewResults) (rule results_inv_Initialize)
  have 1: "best_match (AddNewResult par u r c s x a cf f1 f2) =
     (if AddNewResult par u r c s x a cf f1 f2 \<noteq> r \<and>
         x < rating (best_match r) \<and> \<not> get_fragment u c
      then \<lparr>unichar_id = c, shape_id = s, rating = x, adapted = a,
             config = word_of_int cf, fontinfo_id = word_of_int f1,
             fontinfo_id2 = word_of_int f2\<rparr>
      else best_match r)"
    unfolding AddNewResult_same_iff_rejected by (rule best_match_AddNewResult)
  have 2: "best_match (AddNewResult par u ?R c s x a cf f1 f2) =
     (if x < rating (best_match ?R) \<and> \<not> get_fragment u c
      then \<lparr>unichar_id = c, shape_id = s, rating = x, adapted = a,
             config = word_of_int cf, fontinfo_id = word_of_int f1,
             fontinfo_id2 = word_of_int f2\<rparr>
      else best_match ?R)" if "0 \<le> matcher_bad_match_pad par"
    using results_inv_not_rejected[OF inv that, of x c]
    by (simp add: best_match_AddNewResult)
  have 3: "\<not> get_fragment u (unichar_id (best_match ?R))"
    if "\<exists>m \<in> set (match ?R). \<not> get_fragment u (unichar_id m) \<and> rating m < WORST_POSSIBLE_RATING"
  proof -
    from that obtain m where m: "m \<in> set (match ?R)" "\<not> get_fragment u (unichar_id m)"
      "rating m < WORST_POSSIBLE_RATING" by blast
    from inv m(1,2) have "rating (best_match ?R) \<le> rating m" unfolding results_inv_def by blast
    with m(3) have "best_match ?R \<noteq> best_match Initialize"
      by (auto simp: Initialize_def)
    with inv show ?thesis unfolding results_inv_def by blast
  qed
  have 4: "\<not> get_fragment u (unichar_id (best_match ?R))" if "\<not> get_fragment u NO_CLASS"
  proof -
    from inv have "best_match ?R = best_match Initialize \<or>
        \<not> get_fragment u (unichar_id (best_match ?R))" unfolding results_inv_def by blast
    then show ?thesis using that by (auto simp: Initialize_def)
  qed
  show ?thesis
    apply (intro conjI impI)
    subgoal by (rule 1)
    subgoal by (rule 2)
    subgoal by (rule 3)
    subgoal by (rule 4)
    done
qed

theorem best_match_excludes_fragments_witness:
  "0 \<le> matcher_bad_match_pad example_params \<and>
   \<not> get_fragment example_unicharset NO_CLASS \<and>
   best_match (AddNewResult example_params example_unicharset
      (AddNewResults example_params example_unicharset Initialize example_calls)
      6 (- 1) 0.05 False 0 0 0) =
     best_match (AddNewResults example_params example_unicharset Initialize example_calls) \<and>
   unichar_id (best_match (AddNewResult example_params example_unicharset
      (AddNewResults example_params example_unicharset Initialize example_calls)
      5 (- 1) 0.05 False 0 0 0)) = 5 \<and>
   \<not> get_fragment example_unicharset
       (unichar_id (best_match
          (AddNewResults example_params example_unicharset Initialize example_calls)))"
proof -
  have p: "0 \<le> matcher_bad_match_pad example_params" by (simp add: example_params_def)
  have n: "\<not> get_fragment example_unicharset NO_CLASS"
    by (simp add: example_unicharset_def NO_CLASS_def)
  have b: "rating (best_match (AddNewResults example_params example_unicharset Initialize example_calls)) = 0.1"
    by (simp add: example_calls_results example_results_eq)
  have f6: "get_fragment example_unicharset 6" and f5: "\<not> get_fragment example_unicharset 5"
    by (simp_all add: example_unicharset_def)
  from best_match_excludes_fragments [of example_params example_unicharset Initialize
      6 "- 1" "0.05" False 0 0 0 example_calls] p f6
  have 1: "best_match (AddNewResult example_params example_unicharset
      (AddNewResults example_params example_unicharset Initialize example_calls)
      6 (- 1) 0.05 False 0 0 0) =
     best_match (AddNewResults example_params example_unicharset Initialize example_calls)"
    by simp
  from best_match_excludes_fragments [of example_params example_unicharset Initialize
      5 "- 1" "0.05" False 0 0 0 example_calls] p f5 b
  have 2: "unichar_id (best_match (AddNewResult example_params example_unicharset
      (AddNewResults example_params example_unicharset Initialize example_calls)
      5 (- 1) 0.05 False 0 0 0)) = 5"
    by simp
  from best_match_excludes_fragments [of example_params example_unicharset Initialize
      5 "- 1" "0.05" False 0 0 0 example_calls] n
  have 3: "\<not> get_fragment example_unicharset
       (unichar_id (best_match
          (AddNewResults example_params example_unicharset Initialize example_calls)))"
    by blast
  from p n 1 2 3 show ?thesis by blast
qed

subsection \<open>C2: reliability of a temporary config\<close>

lemma ambigs_seen_enough_all:
  "\<forall>a \<in> set ambigs. Class T a \<noteq> None \<Longrightarrow>
   ambigs_seen_enough par T ambigs =
     Inr (\<forall>a \<in> set ambigs. \<forall>cl. Class T a = Some cl \<longrightarrow>
            NumPermConfigs cl \<noteq> 0 \<or>
            matcher_min_examples_for_prototyping par \<le> MaxNumTimesSeen cl)"
proof (induction ambigs)
  case Nil
  then show ?case by simp
next
  case (Cons a ambigs)
  then obtain cl where cl: "Class T a = Some cl" by auto
  from Cons have IH: "ambigs_seen_enough par T ambigs =
     Inr (\<forall>a \<in> set ambigs. \<forall>cl. Class T a = Some cl \<longrightarrow>
            NumPermConfigs cl \<noteq> 0 \<or>
            matcher_min_examples_for_prototyping par \<le> MaxNumTimesSeen cl)" by simp
  show ?case
  proof (cases "NumPermConfigs cl = 0 \<and>
             MaxNumTimesSeen cl < matcher_min_examples_for_prototyping par")
    case True
    with cl show ?thesis by auto
  next
    case False
    with cl IH show ?thesis by auto
  qed
qed

text \<open>
  C2 as stated fails. With \<^verbatim>\<open>use_ambigs_for_adaption\<close> off, a config in the middle band
  (seen 3 times, with a minimum of 3 and 5 sufficient) is reliable although class 2, which
  is ambiguous with its class, has no permanent config and was never seen: the source
  looks at the ambiguities only under that flag.
\<close>

theorem TempConfigReliable_counterexample:
  "TempConfigReliable example_params example_ambigs example_templates 1
      \<lparr>NumTimesSeen = 3, MaxProtoId = 4\<rparr> = Inr True \<and>
   matcher_min_examples_for_prototyping example_params \<le> 3 \<and>
   3 < matcher_sufficient_examples_for_prototyping example_params \<and>
   example_ambigs 1 = Some [2] \<and>
   (case Class example_templates 2 of
      None \<Rightarrow> False
    | Some ambig_class \<Rightarrow>
        NumPermConfigs ambig_class = 0 \<and>
        MaxNumTimesSeen ambig_class < matcher_min_examples_for_prototyping example_params)"
  by (simp add: TempConfigReliable_def example_params_def example_ambigs_def example_templates_def)

text \<open>
  C2, amended: \<^verbatim>\<open>TempConfigReliable\<close> returns true whenever \<^verbatim>\<open>NumTimesSeen\<close> is at least
  \<^verbatim>\<open>matcher_sufficient_examples_for_prototyping\<close>; it returns false whenever \<^verbatim>\<open>NumTimesSeen\<close>
  is below \<^verbatim>\<open>matcher_min_examples_for_prototyping\<close>, whatever the ambiguities (the minimum
  being at most the sufficient number, which the claim's bands presuppose); and in the
  middle band, every ambiguous class being allocated, it returns true exactly when
  \<^verbatim>\<open>use_ambigs_for_adaption\<close> is off or every class ambiguous with the class has a
  permanent config (\<^verbatim>\<open>NumPermConfigs\<close> is not 0) or was seen at least the minimum number
  of times.
\<close>

theorem TempConfigReliable_bands:
  "(matcher_sufficient_examples_for_prototyping par \<le> NumTimesSeen cfg \<longrightarrow>
      TempConfigReliable par AmbigsForAdaption T c cfg = Inr True) \<and>
   (NumTimesSeen cfg < matcher_min_examples_for_prototyping par \<and>
    matcher_min_examples_for_prototyping par \<le> matcher_sufficient_examples_for_prototyping par \<longrightarrow>
      TempConfigReliable par AmbigsForAdaption T c cfg = Inr False) \<and>
   (matcher_min_examples_for_prototyping par \<le> NumTimesSeen cfg \<and>
    NumTimesSeen cfg < matcher_sufficient_examples_for_prototyping par \<and>
    (\<forall>a \<in> set (case AmbigsForAdaption c of None \<Rightarrow> [] | Some ambigs \<Rightarrow> ambigs).
        Class T a \<noteq> None) \<longrightarrow>
      TempConfigReliable par AmbigsForAdaption T c cfg =
        Inr (\<not> use_ambigs_for_adaption par \<or>
             (\<forall>a \<in> set (case AmbigsForAdaption c of None \<Rightarrow> [] | Some ambigs \<Rightarrow> ambigs).
                \<forall>cl. Class T a = Some cl \<longrightarrow>
                  NumPermConfigs cl \<noteq> 0 \<or>
                  matcher_min_examples_for_prototyping par \<le> MaxNumTimesSeen cl)))"
proof (intro conjI impI)
  assume "matcher_sufficient_examples_for_prototyping par \<le> NumTimesSeen cfg"
  then show "TempConfigReliable par AmbigsForAdaption T c cfg = Inr True"
    by (simp add: TempConfigReliable_def)
next
  assume "NumTimesSeen cfg < matcher_min_examples_for_prototyping par \<and>
    matcher_min_examples_for_prototyping par \<le> matcher_sufficient_examples_for_prototyping par"
  then show "TempConfigReliable par AmbigsForAdaption T c cfg = Inr False"
    by (simp add: TempConfigReliable_def)
next
  let ?ambigs = "case AmbigsForAdaption c of None \<Rightarrow> [] | Some ambigs \<Rightarrow> ambigs"
  assume a: "matcher_min_examples_for_prototyping par \<le> NumTimesSeen cfg \<and>
    NumTimesSeen cfg < matcher_sufficient_examples_for_prototyping par \<and>
    (\<forall>a \<in> set ?ambigs. Class T a \<noteq> None)"
  then have all: "\<forall>a \<in> set ?ambigs. Class T a \<noteq> None" by blast
  show "TempConfigReliable par AmbigsForAdaption T c cfg =
        Inr (\<not> use_ambigs_for_adaption par \<or>
             (\<forall>a \<in> set ?ambigs. \<forall>cl. Class T a = Some cl \<longrightarrow>
                  NumPermConfigs cl \<noteq> 0 \<or>
                  matcher_min_examples_for_prototyping par \<le> MaxNumTimesSeen cl))"
  proof (cases "use_ambigs_for_adaption par")
    case True
    with a ambigs_seen_enough_all[OF all, of par] show ?thesis
      by (simp add: TempConfigReliable_def)
  next
    case False
    with a show ?thesis by (simp add: TempConfigReliable_def)
  qed
qed

theorem TempConfigReliable_bands_witness:
  "TempConfigReliable (example_params\<lparr>use_ambigs_for_adaption := True\<rparr>) example_ambigs
      example_templates 1 \<lparr>NumTimesSeen = 3, MaxProtoId = 4\<rparr> = Inr False \<and>
   TempConfigReliable (example_params\<lparr>use_ambigs_for_adaption := True\<rparr>) example_ambigs
      example_templates 1 \<lparr>NumTimesSeen = 5, MaxProtoId = 4\<rparr> = Inr True \<and>
   TempConfigReliable (example_params\<lparr>use_ambigs_for_adaption := True\<rparr>) example_ambigs
      example_templates 1 \<lparr>NumTimesSeen = 2, MaxProtoId = 4\<rparr> = Inr False"
proof -
  let ?par = "example_params\<lparr>use_ambigs_for_adaption := True\<rparr>"
  have p: "matcher_min_examples_for_prototyping ?par = 3"
    "matcher_sufficient_examples_for_prototyping ?par = 5" "use_ambigs_for_adaption ?par"
    by (simp_all add: example_params_def)
  have amb: "(case example_ambigs 1 of None \<Rightarrow> [] | Some ambigs \<Rightarrow> ambigs) = [2]"
    by (simp add: example_ambigs_def)
  have cl: "Class example_templates 2 = Some \<lparr>NumPermConfigs = 0, MaxNumTimesSeen = 0, Config = []\<rparr>"
    by (simp add: example_templates_def)
  have 1: "TempConfigReliable ?par example_ambigs example_templates 1
      \<lparr>NumTimesSeen = 3, MaxProtoId = 4\<rparr> = Inr False"
    using TempConfigReliable_bands [of ?par "\<lparr>NumTimesSeen = 3, MaxProtoId = 4\<rparr>"
      example_ambigs example_templates 1]
    unfolding amb p by (simp add: cl)
  have 2: "TempConfigReliable ?par example_ambigs example_templates 1
      \<lparr>NumTimesSeen = 5, MaxProtoId = 4\<rparr> = Inr True"
    using TempConfigReliable_bands [of ?par "\<lparr>NumTimesSeen = 5, MaxProtoId = 4\<rparr>"
      example_ambigs example_templates 1]
    unfolding p by simp
  have 3: "TempConfigReliable ?par example_ambigs example_templates 1
      \<lparr>NumTimesSeen = 2, MaxProtoId = 4\<rparr> = Inr False"
    using TempConfigReliable_bands [of ?par "\<lparr>NumTimesSeen = 2, MaxProtoId = 4\<rparr>"
      example_ambigs example_templates 1]
    unfolding p by simp
  from 1 2 3 show ?thesis by blast
qed

subsection \<open>C5: the corrected rating\<close>

text \<open>
  C5 as stated fails. The source applies the vertical penalty only when
  \<^verbatim>\<open>classify_misfit_junk_penalty\<close> is positive. With a penalty of -0.25, a class that is
  neither a letter nor a digit, a normalization factor of 64 and a top of 200 above the
  recorded maximum 100, the claim's sum is 3/16 while the source returns 7/16.
\<close>

theorem ComputeCorrectedRating_counterexample:
  "\<not> get_isalpha example_unicharset 7 \<and> \<not> get_isdigit example_unicharset 7 \<and>
   (\<lambda>c. 64 :: 8 word) 7 \<noteq> 0 \<and>
   get_top_bottom example_unicharset 7 = (0, 80, 20, 100) \<and> (200 :: int) > 100 \<and>
   classify_misfit_junk_penalty (example_params\<lparr>classify_misfit_junk_penalty := - 0.25\<rparr>)
     = - 0.25 \<and>
   ComputeCorrectedRating (example_params\<lparr>classify_misfit_junk_penalty := - 0.25\<rparr>)
      example_unicharset example_ApplyCNCorrection 7 0.5 0.5 0 10 200 3 (\<lambda>c. 64) = 7 / 16 \<and>
   example_ApplyCNCorrection 0.5 3 64 +
     tessedit_class_miss_scale (example_params\<lparr>classify_misfit_junk_penalty := - 0.25\<rparr>) * 0 +
     classify_misfit_junk_penalty (example_params\<lparr>classify_misfit_junk_penalty := - 0.25\<rparr>)
     = 3 / 16"
  by (simp add: ComputeCorrectedRating_def example_unicharset_def example_params_def
      example_ApplyCNCorrection_def WORST_POSSIBLE_RATING_def)

text \<open>
  C5, amended: the corrected rating is the rating corrected by \<^verbatim>\<open>ApplyCNCorrection\<close> plus
  \<^verbatim>\<open>tessedit_class_miss_scale\<close> times the feature misses plus a vertical penalty, clamped
  at 1.0, the worst possible rating; the vertical penalty is \<^verbatim>\<open>classify_misfit_junk_penalty\<close>
  exactly when the class is neither alphabetic nor a digit, its normalization factor is
  not 0, the penalty is positive, and the top or the bottom of the blob is outside the
  recorded range of the class, and 0 otherwise.
\<close>

theorem ComputeCorrectedRating_clamped_sum:
  "ComputeCorrectedRating par unicharset ApplyCNCorrection unichar_id' cp_rating im_rating
       feature_misses bottom' top' blob_length cn_factors =
     min WORST_POSSIBLE_RATING
       (ApplyCNCorrection im_rating blob_length (cn_factors unichar_id') +
        tessedit_class_miss_scale par * real_of_int feature_misses +
        (if \<not> get_isalpha unicharset unichar_id' \<and> \<not> get_isdigit unicharset unichar_id' \<and>
            cn_factors unichar_id' \<noteq> 0 \<and> 0 < classify_misfit_junk_penalty par \<and>
            (case get_top_bottom unicharset unichar_id' of
               (min_bottom, max_bottom, min_top, max_top) \<Rightarrow>
                 top' < min_top \<or> max_top < top' \<or> bottom' < min_bottom \<or> max_bottom < bottom')
         then classify_misfit_junk_penalty par else 0)) \<and>
   ComputeCorrectedRating par unicharset ApplyCNCorrection unichar_id' cp_rating im_rating
       feature_misses bottom' top' blob_length cn_factors \<le> 1"
  by (auto simp add: ComputeCorrectedRating_def Let_def WORST_POSSIBLE_RATING_def min_def
      split: prod.splits)

theorem ComputeCorrectedRating_clamped_sum_witness:
  "ComputeCorrectedRating (example_params\<lparr>classify_misfit_junk_penalty := 0.25\<rparr>)
      example_unicharset example_ApplyCNCorrection 7 0.5 0.5 0 10 200 3 (\<lambda>c. 64) = 11 / 16 \<and>
   ComputeCorrectedRating (example_params\<lparr>classify_misfit_junk_penalty := 0.25\<rparr>)
      example_unicharset example_ApplyCNCorrection 7 0.5 0.5 0 10 90 3 (\<lambda>c. 64) = 7 / 16 \<and>
   ComputeCorrectedRating (example_params\<lparr>classify_misfit_junk_penalty := 0.25\<rparr>)
      example_unicharset example_ApplyCNCorrection 7 0.5 0.5 200 10 200 3 (\<lambda>c. 64) = 1"
  using ComputeCorrectedRating_clamped_sum [of "example_params\<lparr>classify_misfit_junk_penalty := 0.25\<rparr>"
      example_unicharset example_ApplyCNCorrection 7 "0.5" "0.5" 0 10 200 3 "\<lambda>c. 64"]
    ComputeCorrectedRating_clamped_sum [of "example_params\<lparr>classify_misfit_junk_penalty := 0.25\<rparr>"
      example_unicharset example_ApplyCNCorrection 7 "0.5" "0.5" 0 10 90 3 "\<lambda>c. 64"]
    ComputeCorrectedRating_clamped_sum [of "example_params\<lparr>classify_misfit_junk_penalty := 0.25\<rparr>"
      example_unicharset example_ApplyCNCorrection 7 "0.5" "0.5" 200 10 200 3 "\<lambda>c. 64"]
  by (simp add: example_unicharset_def example_params_def
      example_ApplyCNCorrection_def WORST_POSSIBLE_RATING_def)

subsection \<open>C6: the bad-match trim in numeric mode\<close>

lemma take_Suc_update:
  "g < length ms \<Longrightarrow> take (Suc g) (ms[g := v]) = take g ms @ [v]"
  by (simp add: take_Suc_conv_app_nth)

lemma drop_Suc_update:
  "g \<le> n \<Longrightarrow> drop (Suc n) (ms[g := v]) = drop (Suc n) ms"
  by simp

lemma map_filter_drop_step:
  "n < length ms \<Longrightarrow>
     List.map_filter f (drop n ms) =
       (case f (ms ! n) of None \<Rightarrow> [] | Some y \<Rightarrow> [y]) @ List.map_filter f (drop (Suc n) ms)"
  by (simp add: Cons_nth_drop_Suc[symmetric] map_filter_simps split: option.splits)

lemma numeric_loop_refines:
  "g \<le> n \<Longrightarrow> n \<le> length ms \<Longrightarrow>
   RemoveBadMatches_numeric_loop u t one zero n g ms = (g', ms') \<Longrightarrow>
   take g' ms' = take g ms @ List.map_filter (loop_keep u t one zero) (drop n ms)"
proof (induction u t one zero n g ms arbitrary: g' ms'
       rule: RemoveBadMatches_numeric_loop.induct)
  case (1 u t one zero n g ms)
  show ?case
  proof (cases "n < length ms")
    case False
    with "1.prems" show ?thesis
      by (subst (asm) RemoveBadMatches_numeric_loop.simps) (simp add: map_filter_simps)
  next
    case n: True
    with "1.prems" have g: "g < length ms" by simp
    note step = map_filter_drop_step[OF n, of "loop_keep u t one zero"]
    show ?thesis
    proof (cases "rating (ms ! n) \<le> t")
      case False
      with n "1.prems" have "RemoveBadMatches_numeric_loop u t one zero (Suc n) g ms = (g', ms')"
        by (subst (asm) RemoveBadMatches_numeric_loop.simps) simp
      from "1.IH"(5)[OF n False _ _ this] "1.prems" n
      have "take g' ms' = take g ms @ List.map_filter (loop_keep u t one zero) (drop (Suc n) ms)"
        by simp
      moreover have "loop_keep u t one zero (ms ! n) = None" using False by (simp add: loop_keep_def)
      ultimately show ?thesis using step by simp
    next
      case r: True
      show ?thesis
      proof (cases "\<not> get_isalpha u (unichar_id (ms ! n)) \<or>
             strstr romans (id_to_unichar u (unichar_id (ms ! n)))")
        case True
        with n r "1.prems" have
          "RemoveBadMatches_numeric_loop u t one zero (Suc n) (Suc g) (ms[g := ms ! n]) = (g', ms')"
          by (subst (asm) RemoveBadMatches_numeric_loop.simps) (simp add: Let_def)
        from "1.IH"(1)[OF n r refl True _ _ this] "1.prems" n g
        have "take g' ms' = take (Suc g) (ms[g := ms ! n]) @
              List.map_filter (loop_keep u t one zero) (drop (Suc n) (ms[g := ms ! n]))"
          by simp
        moreover have "loop_keep u t one zero (ms ! n) = Some (ms ! n)"
          using True r by (auto simp add: loop_keep_def)
        ultimately show ?thesis using step g "1.prems"(1)
          by (simp add: take_Suc_update)
      next
        case nk: False
        show ?thesis
        proof (cases "id_to_unichar u (unichar_id (ms ! n)) = ''l'' \<and> rating one \<ge> t")
          case True
          with n r nk "1.prems" have
            "RemoveBadMatches_numeric_loop u t one zero (Suc n) (Suc g)
               (ms[g := one\<lparr>rating := rating (ms ! n)\<rparr>]) = (g', ms')"
            by (subst (asm) RemoveBadMatches_numeric_loop.simps) (simp add: Let_def)
          from "1.IH"(2)[OF n r refl nk True _ _ this] "1.prems" n g
          have "take g' ms' = take (Suc g) (ms[g := one\<lparr>rating := rating (ms ! n)\<rparr>]) @
              List.map_filter (loop_keep u t one zero)
                (drop (Suc n) (ms[g := one\<lparr>rating := rating (ms ! n)\<rparr>]))"
            by simp
          moreover have "loop_keep u t one zero (ms ! n) = Some (one\<lparr>rating := rating (ms ! n)\<rparr>)"
            using True r nk by (auto simp add: loop_keep_def)
          ultimately show ?thesis using step g "1.prems"(1)
            by (simp add: take_Suc_update)
        next
          case nl: False
          show ?thesis
          proof (cases "id_to_unichar u (unichar_id (ms ! n)) = ''O'' \<and> rating zero \<ge> t")
            case True
            with n r nk nl "1.prems" have
              "RemoveBadMatches_numeric_loop u t one zero (Suc n) (Suc g)
                 (ms[g := zero\<lparr>rating := rating (ms ! n)\<rparr>]) = (g', ms')"
              by (subst (asm) RemoveBadMatches_numeric_loop.simps)
                 (auto simp add: Let_def split: if_splits)
            from "1.IH"(3)[OF n r refl nk nl True _ _ this] "1.prems" n g
            have "take g' ms' = take (Suc g) (ms[g := zero\<lparr>rating := rating (ms ! n)\<rparr>]) @
                List.map_filter (loop_keep u t one zero)
                  (drop (Suc n) (ms[g := zero\<lparr>rating := rating (ms ! n)\<rparr>]))"
              by simp
            moreover have "loop_keep u t one zero (ms ! n) = Some (zero\<lparr>rating := rating (ms ! n)\<rparr>)"
              using True r nk nl by (auto simp add: loop_keep_def)
            ultimately show ?thesis using step g "1.prems"(1)
              by (simp add: take_Suc_update)
          next
            case no: False
            with n r nk nl "1.prems" have
              "RemoveBadMatches_numeric_loop u t one zero (Suc n) g ms = (g', ms')"
              by (subst (asm) RemoveBadMatches_numeric_loop.simps)
                 (auto simp add: Let_def split: if_splits)
            from "1.IH"(4)[OF n r refl nk nl no _ _ this] "1.prems" n
            have "take g' ms' = take g ms @
                List.map_filter (loop_keep u t one zero) (drop (Suc n) ms)"
              by simp
            moreover have "loop_keep u t one zero (ms ! n) = None"
              using r nk nl no by (auto simp add: loop_keep_def)
            ultimately show ?thesis using step by simp
          qed
        qed
      qed
    qed
  qed
qed

lemma strstr_romans:
  assumes "s \<noteq> []" and "CHR '' '' \<notin> set s"
  shows "strstr romans s \<longleftrightarrow> s \<in> {''i'', ''v'', ''x'', ''I'', ''V'', ''X''}"
proof (cases s)
  case Nil
  with assms show ?thesis by simp
next
  case (Cons a s')
  with assms(2) have a: "a \<noteq> CHR '' ''" and s': "s' = [] \<or> hd s' \<noteq> CHR '' ''"
    by (auto simp: neq_Nil_conv)
  have p: "prefix s' (CHR '' '' # t) \<longleftrightarrow> s' = []" for t
    using s' by (cases s') auto
  show ?thesis unfolding Cons romans_def using a
    by (simp add: p)
qed

lemma map_filter_if_filter:
  "List.map_filter (\<lambda>m. if P m then f m else None) xs = List.map_filter f (filter P xs)"
  by (induction xs) (simp_all split: option.splits)

lemma map_filter_cong_set:
  "(\<And>x. x \<in> set xs \<Longrightarrow> f x = g x) \<Longrightarrow> List.map_filter f xs = List.map_filter g xs"
  by (induction xs) (simp_all split: option.splits)

lemma loop_keep_survivor:
  assumes "get_isalpha u (unichar_id m) \<longrightarrow>
     id_to_unichar u (unichar_id m) \<noteq> [] \<and> CHR '' '' \<notin> set (id_to_unichar u (unichar_id m))"
  shows "loop_keep u t one zero m =
     (if rating m \<le> t then numeric_survivor u t one zero m else None)"
proof (cases "get_isalpha u (unichar_id m)")
  case False
  then show ?thesis by (simp add: loop_keep_def numeric_survivor_def)
next
  case True
  with assms have "strstr romans (id_to_unichar u (unichar_id m)) \<longleftrightarrow>
      id_to_unichar u (unichar_id m) \<in> {''i'', ''v'', ''x'', ''I'', ''V'', ''X''}"
    by (intro strstr_romans) simp_all
  then show ?thesis unfolding loop_keep_def numeric_survivor_def
    by (simp add: not_less)
qed

lemma RemoveBadMatches_numeric:
  assumes "classify_bln_numeric_mode par"
  shows "RemoveBadMatches par u R =
     R\<lparr>match := List.map_filter
         (loop_keep u (rating (best_match R) + matcher_bad_match_pad par)
            (ScoredUnichar R (case unichar_to_id u ''1'' of Some i \<Rightarrow> i | None \<Rightarrow> - 1))
            (ScoredUnichar R (case unichar_to_id u ''0'' of Some i \<Rightarrow> i | None \<Rightarrow> - 1)))
         (match R)\<rparr>"
proof -
  let ?t = "rating (best_match R) + matcher_bad_match_pad par"
  let ?one = "ScoredUnichar R (case unichar_to_id u ''1'' of Some i \<Rightarrow> i | None \<Rightarrow> - 1)"
  let ?zero = "ScoredUnichar R (case unichar_to_id u ''0'' of Some i \<Rightarrow> i | None \<Rightarrow> - 1)"
  obtain g' ms' where l: "RemoveBadMatches_numeric_loop u ?t ?one ?zero 0 0 (match R) = (g', ms')"
    by (cases "RemoveBadMatches_numeric_loop u ?t ?one ?zero 0 0 (match R)")
  from numeric_loop_refines[OF _ _ l]
  have "take g' ms' = List.map_filter (loop_keep u ?t ?one ?zero) (match R)" by simp
  with assms l show ?thesis by (simp add: RemoveBadMatches_def Let_def)
qed

lemma example_digit_results_eq:
  "example_digit_results = \<lparr>BlobLength = MAX_INT32, HasNonfragment = True,
      match = [\<lparr>unichar_id = 2, shape_id = - 1, rating = 0.5, adapted = False, config = 0,
                 fontinfo_id = 0, fontinfo_id2 = 0\<rparr>,
               \<lparr>unichar_id = 1, shape_id = - 1, rating = 0.3, adapted = False, config = 0,
                 fontinfo_id = 0, fontinfo_id2 = 0\<rparr>],
      best_match = \<lparr>unichar_id = 1, shape_id = - 1, rating = 0.3, adapted = False, config = 0,
                 fontinfo_id = 0, fontinfo_id2 = 0\<rparr>\<rparr>"
  by (simp add: example_digit_results_def example_params_def example_unicharset_def Initialize_def
      AddNewResult_def FindScoredUnichar_def WORST_POSSIBLE_RATING_def NO_CLASS_def Let_def)

lemma not_roman_l: "\<not> strstr romans ''l''"
  by (simp add: romans_def)

lemma ScoredUnichar_pair:
  assumes "match R = [m1, ml] \<or> match R = [ml, m1]" and "unichar_id m1 \<noteq> unichar_id ml"
  shows "ScoredUnichar R (unichar_id m1) = m1"
  using assms by (auto simp: ScoredUnichar_def FindScoredUnichar_def)

text \<open>
  C6: in numeric mode, where the alphabetic classes of the result set have strings that are
  not empty and hold no space, \<^verbatim>\<open>RemoveBadMatches\<close> only changes the list of matches, which
  becomes the numeric trim of the spec: of the candidates whose rating is at most the best
  rating plus \<^verbatim>\<open>matcher_bad_match_pad\<close>, in their order, those that are not alphabetic and
  the letters i v x I V X are kept unchanged; an l becomes a copy of the entry of 1 with
  the rating of the l, and an O a copy of the entry of 0 with the rating of the O, each
  only when the entry of the digit is not rated better than the threshold; every other
  alphabetic candidate is dropped. In particular, with a pad from 0 up to but excluding
  0.2, a result set that holds only an l rated 0.3 and a 1 rated 0.5, with best rating
  0.3, is trimmed to the entry of 1 rated 0.3.
\<close>

theorem RemoveBadMatches_numeric_mode:
  "(classify_bln_numeric_mode par \<and>
    (\<forall>m \<in> set (match R). get_isalpha u (unichar_id m) \<longrightarrow>
       id_to_unichar u (unichar_id m) \<noteq> [] \<and>
       CHR '' '' \<notin> set (id_to_unichar u (unichar_id m))) \<longrightarrow>
    RemoveBadMatches par u R =
      R\<lparr>match := numeric_trim u (rating (best_match R) + matcher_bad_match_pad par)
         (ScoredUnichar R (case unichar_to_id u ''1'' of Some i \<Rightarrow> i | None \<Rightarrow> - 1))
         (ScoredUnichar R (case unichar_to_id u ''0'' of Some i \<Rightarrow> i | None \<Rightarrow> - 1))
         (match R)\<rparr>) \<and>
   (classify_bln_numeric_mode par \<and>
    (match R = [m1, ml] \<or> match R = [ml, m1]) \<and>
    id_to_unichar u (unichar_id ml) = ''l'' \<and> get_isalpha u (unichar_id ml) \<and>
    rating ml = 0.3 \<and>
    unichar_to_id u ''1'' = Some (unichar_id m1) \<and> unichar_id m1 \<noteq> unichar_id ml \<and>
    rating m1 = 0.5 \<and>
    rating (best_match R) = 0.3 \<and>
    0 \<le> matcher_bad_match_pad par \<and> matcher_bad_match_pad par < 0.2 \<longrightarrow>
    match (RemoveBadMatches par u R) = [m1\<lparr>rating := 0.3\<rparr>])"
proof (intro conjI impI)
  let ?t = "rating (best_match R) + matcher_bad_match_pad par"
  let ?one = "ScoredUnichar R (case unichar_to_id u ''1'' of Some i \<Rightarrow> i | None \<Rightarrow> - 1)"
  let ?zero = "ScoredUnichar R (case unichar_to_id u ''0'' of Some i \<Rightarrow> i | None \<Rightarrow> - 1)"
  assume a: "classify_bln_numeric_mode par \<and>
    (\<forall>m \<in> set (match R). get_isalpha u (unichar_id m) \<longrightarrow>
       id_to_unichar u (unichar_id m) \<noteq> [] \<and>
       CHR '' '' \<notin> set (id_to_unichar u (unichar_id m)))"
  then have "List.map_filter (loop_keep u ?t ?one ?zero) (match R) =
      List.map_filter (\<lambda>m. if rating m \<le> ?t then numeric_survivor u ?t ?one ?zero m else None)
        (match R)"
    by (intro map_filter_cong_set loop_keep_survivor) blast
  also have "\<dots> = numeric_trim u ?t ?one ?zero (match R)"
    unfolding numeric_trim_def by (rule map_filter_if_filter)
  finally show "RemoveBadMatches par u R = R\<lparr>match := numeric_trim u ?t ?one ?zero (match R)\<rparr>"
    using a by (simp add: RemoveBadMatches_numeric)
next
  let ?t = "rating (best_match R) + matcher_bad_match_pad par"
  let ?zero = "ScoredUnichar R (case unichar_to_id u ''0'' of Some i \<Rightarrow> i | None \<Rightarrow> - 1)"
  assume a: "classify_bln_numeric_mode par \<and>
    (match R = [m1, ml] \<or> match R = [ml, m1]) \<and>
    id_to_unichar u (unichar_id ml) = ''l'' \<and> get_isalpha u (unichar_id ml) \<and>
    rating ml = 0.3 \<and>
    unichar_to_id u ''1'' = Some (unichar_id m1) \<and> unichar_id m1 \<noteq> unichar_id ml \<and>
    rating m1 = 0.5 \<and>
    rating (best_match R) = 0.3 \<and>
    0 \<le> matcher_bad_match_pad par \<and> matcher_bad_match_pad par < 0.2"
  then have one: "ScoredUnichar R (unichar_id m1) = m1"
    by (intro ScoredUnichar_pair[of R m1 ml]) simp_all
  from a have k1: "loop_keep u ?t m1 ?zero m1 = None"
    by (simp add: loop_keep_def)
  from a have kl: "loop_keep u ?t m1 ?zero ml = Some (m1\<lparr>rating := 0.3\<rparr>)"
    by (simp add: loop_keep_def not_roman_l)
  from a have "RemoveBadMatches par u R =
      R\<lparr>match := List.map_filter (loop_keep u ?t m1 ?zero) (match R)\<rparr>"
    using RemoveBadMatches_numeric[of par u R] one by simp
  moreover have "List.map_filter (loop_keep u ?t m1 ?zero) (match R) = [m1\<lparr>rating := 0.3\<rparr>]"
    using a k1 kl by auto
  ultimately show "match (RemoveBadMatches par u R) = [m1\<lparr>rating := 0.3\<rparr>]" by simp
qed

theorem RemoveBadMatches_numeric_mode_witness:
  "classify_bln_numeric_mode example_params \<and>
   match example_digit_results =
     [\<lparr>unichar_id = 2, shape_id = - 1, rating = 0.5, adapted = False, config = 0,
        fontinfo_id = 0, fontinfo_id2 = 0\<rparr>,
      \<lparr>unichar_id = 1, shape_id = - 1, rating = 0.3, adapted = False, config = 0,
        fontinfo_id = 0, fontinfo_id2 = 0\<rparr>] \<and>
   id_to_unichar example_unicharset 1 = ''l'' \<and> id_to_unichar example_unicharset 2 = ''1'' \<and>
   match (RemoveBadMatches example_params example_unicharset example_digit_results) =
     [\<lparr>unichar_id = 2, shape_id = - 1, rating = 0.3, adapted = False, config = 0,
        fontinfo_id = 0, fontinfo_id2 = 0\<rparr>] \<and>
   RemoveBadMatches example_params example_unicharset example_digit_results =
     example_digit_results\<lparr>match :=
       numeric_trim example_unicharset 0.45
         (ScoredUnichar example_digit_results 2) (ScoredUnichar example_digit_results 4)
         (match example_digit_results)\<rparr>"
proof -
  let ?m1 = "\<lparr>unichar_id = 2, shape_id = - 1, rating = 0.5, adapted = False, config = 0,
        fontinfo_id = 0 :: 16 word, fontinfo_id2 = 0 :: 16 word\<rparr>"
  let ?ml = "\<lparr>unichar_id = 1, shape_id = - 1, rating = 0.3, adapted = False, config = 0,
        fontinfo_id = 0 :: 16 word, fontinfo_id2 = 0 :: 16 word\<rparr>"
  have n: "classify_bln_numeric_mode example_params" by (simp add: example_params_def)
  have m: "match example_digit_results = [?m1, ?ml]" by (simp add: example_digit_results_eq)
  have ids: "id_to_unichar example_unicharset 1 = ''l''" "id_to_unichar example_unicharset 2 = ''1''"
    "get_isalpha example_unicharset 1" "unichar_to_id example_unicharset ''1'' = Some 2"
    "unichar_to_id example_unicharset ''0'' = Some 4"
    by (simp_all add: example_unicharset_def)
  have b: "rating (best_match example_digit_results) = 0.3" by (simp add: example_digit_results_eq)
  have p: "matcher_bad_match_pad example_params = 0.15" by (simp add: example_params_def)
  have wf: "\<forall>m \<in> set (match example_digit_results).
       get_isalpha example_unicharset (unichar_id m) \<longrightarrow>
       id_to_unichar example_unicharset (unichar_id m) \<noteq> [] \<and>
       CHR '' '' \<notin> set (id_to_unichar example_unicharset (unichar_id m))"
    unfolding m by (simp add: example_unicharset_def)
  note t = RemoveBadMatches_numeric_mode [of example_params example_digit_results
      example_unicharset ?m1 ?ml]
  have 1: "match (RemoveBadMatches example_params example_unicharset example_digit_results) =
     [?m1\<lparr>rating := 0.3\<rparr>]"
    by (rule t[THEN conjunct2, rule_format]) (simp add: n m ids b p)
  from t[THEN conjunct1] n wf
  have 2: "RemoveBadMatches example_params example_unicharset example_digit_results =
     example_digit_results\<lparr>match :=
       numeric_trim example_unicharset
         (rating (best_match example_digit_results) + matcher_bad_match_pad example_params)
         (ScoredUnichar example_digit_results
            (case unichar_to_id example_unicharset ''1'' of Some i \<Rightarrow> i | None \<Rightarrow> - 1))
         (ScoredUnichar example_digit_results
            (case unichar_to_id example_unicharset ''0'' of Some i \<Rightarrow> i | None \<Rightarrow> - 1))
         (match example_digit_results)\<rparr>" by blast
  have t45: "rating (best_match example_digit_results) + matcher_bad_match_pad example_params = 0.45"
    unfolding b p by simp
  from 1 have r1: "match (RemoveBadMatches example_params example_unicharset example_digit_results) =
     [\<lparr>unichar_id = 2, shape_id = - 1, rating = 0.3, adapted = False, config = 0,
        fontinfo_id = 0, fontinfo_id2 = 0\<rparr>]" by simp
  have 3: "RemoveBadMatches example_params example_unicharset example_digit_results =
     example_digit_results\<lparr>match :=
       numeric_trim example_unicharset 0.45
         (ScoredUnichar example_digit_results 2) (ScoredUnichar example_digit_results 4)
         (match example_digit_results)\<rparr>"
    using 2 unfolding t45 ids by simp
  show ?thesis
    apply (intro conjI)
    subgoal by (rule n)
    subgoal by (rule m)
    subgoal by (rule ids(1))
    subgoal by (rule ids(2))
    subgoal by (rule r1)
    subgoal by (rule 3)
    done
qed

subsection \<open>C9: ratings and certainties of the choices\<close>

lemma ConvertMatches_loop_emits:
  "ConvertMatches_loop par u Blob mx bl ms (C, cn, cl) = (C', cn', cl') \<Longrightarrow>
   \<exists>new. C' = C @ new \<and>
     (\<forall>ch \<in> set new. \<exists>m \<in> set ms. bc_unichar_id ch = unichar_id m \<and>
        bc_rating ch = (if bl = 0 then 100 else rating m * rating_scale par * real_of_int bl) \<and>
        bc_certainty ch = (if bl = 0 then - 20 else - rating m * certainty_scale par))"
proof (induction ms arbitrary: C cn cl)
  case Nil
  then show ?case by simp
next
  case (Cons m ms)
  let ?frag = "get_fragment u (unichar_id m)"
  show ?case
  proof (cases "int (length C) + 1 = mx \<and> \<not> cn \<and> ?frag")
    case True
    with Cons.prems have "ConvertMatches_loop par u Blob mx bl ms (C, cn, cl) = (C', cn', cl')"
      by simp
    from Cons.IH[OF this] show ?thesis by auto
  next
    case False
    let ?ch = "\<lparr>bc_unichar_id = unichar_id m,
                bc_rating = (if bl = 0 then 100 else rating m * (rating_scale par * real_of_int bl)),
                bc_certainty = (if bl = 0 then - 20 else rating m * - certainty_scale par),
                bc_fontinfo_id = sint (fontinfo_id m),
                bc_fontinfo_id2 = sint (fontinfo_id2 m),
                bc_script_id = get_script u (unichar_id m),
                bc_min_xheight = fst (XHeightRange Blob (unichar_id m)),
                bc_max_xheight = snd (XHeightRange Blob (unichar_id m)),
                bc_adapted = adapted m\<rparr>"
    have ch: "bc_unichar_id ?ch = unichar_id m \<and>
        bc_rating ?ch = (if bl = 0 then 100 else rating m * rating_scale par * real_of_int bl) \<and>
        bc_certainty ?ch = (if bl = 0 then - 20 else - rating m * certainty_scale par)"
      by simp
    show ?thesis
    proof (cases "cl + 1 \<ge> mx")
      case True
      with False Cons.prems have "C' = C @ [?ch]" by (auto simp: Let_def)
      with ch show ?thesis by (intro exI[of _ "[?ch]"]) simp
    next
      case nb: False
      with False Cons.prems have
        "ConvertMatches_loop par u Blob mx bl ms (C @ [?ch], cn \<or> \<not> ?frag, cl + 1) = (C', cn', cl')"
        by (auto simp: Let_def)
      from Cons.IH[OF this] obtain new where new: "C' = (C @ [?ch]) @ new"
        "\<forall>ch \<in> set new. \<exists>m \<in> set ms. bc_unichar_id ch = unichar_id m \<and>
        bc_rating ch = (if bl = 0 then 100 else rating m * rating_scale par * real_of_int bl) \<and>
        bc_certainty ch = (if bl = 0 then - 20 else - rating m * certainty_scale par)"
        by blast
      show ?thesis
      proof (intro exI[of _ "?ch # new"] conjI ballI)
        show "C' = C @ ?ch # new" using new(1) by simp
      next
        fix c assume "c \<in> set (?ch # new)"
        then consider "c = ?ch" | "c \<in> set new" by auto
        then show "\<exists>m' \<in> set (m # ms). bc_unichar_id c = unichar_id m' \<and>
          bc_rating c = (if bl = 0 then 100 else rating m' * rating_scale par * real_of_int bl) \<and>
          bc_certainty c = (if bl = 0 then - 20 else - rating m' * certainty_scale par)"
        proof cases
          case 1
          with ch show ?thesis by (intro bexI[of _ m]) simp_all
        next
          case 2
          with new(2) obtain m' where "m' \<in> set ms" "bc_unichar_id c = unichar_id m' \<and>
            bc_rating c = (if bl = 0 then 100 else rating m' * rating_scale par * real_of_int bl) \<and>
            bc_certainty c = (if bl = 0 then - 20 else - rating m' * certainty_scale par)" by blast
          then show ?thesis by (intro bexI[of _ m']) simp_all
        qed
      qed
    qed
  qed
qed

text \<open>
  C9: \<^verbatim>\<open>ConvertMatchesToChoices\<close> leaves the choices it was given in place and appends the
  emitted ones. If the blob length of the result set is 0, every emitted choice has rating
  100 and certainty -20; otherwise every emitted choice comes from a match of the result
  set, with the rating of the match times \<^verbatim>\<open>rating_scale\<close> times the blob length as its
  rating and minus the rating of the match times \<^verbatim>\<open>certainty_scale\<close> as its certainty.
\<close>

theorem ConvertMatchesToChoices_ratings:
  assumes "ConvertMatchesToChoices par u tabs Blob Results Choices = (Results', Choices')"
  shows "take (length Choices) Choices' = Choices \<and>
    (\<forall>ch \<in> set (drop (length Choices) Choices').
       (BlobLength Results = 0 \<longrightarrow> bc_rating ch = 100 \<and> bc_certainty ch = - 20) \<and>
       (BlobLength Results \<noteq> 0 \<longrightarrow>
          (\<exists>m \<in> set (match Results). bc_unichar_id ch = unichar_id m \<and>
             bc_rating ch = rating m * rating_scale par * real_of_int (BlobLength Results) \<and>
             bc_certainty ch = - rating m * certainty_scale par)))"
proof -
  let ?mx = "case shape_table tabs of
               None \<Rightarrow> MAX_MATCHES
             | Some st \<Rightarrow>
                 if MaxNumUnichars st * 2 < MAX_MATCHES then MAX_MATCHES
                 else MaxNumUnichars st * 2"
  obtain C' cn' cl' where l: "ConvertMatches_loop par u Blob ?mx (BlobLength Results)
                (match Results) (Choices, False, 0) = (C', cn', cl')"
    by (cases "ConvertMatches_loop par u Blob ?mx (BlobLength Results)
                (match Results) (Choices, False, 0)") auto
  with assms have C: "Choices' = C'" by (simp add: ConvertMatchesToChoices_def Let_def)
  from ConvertMatches_loop_emits[OF l] obtain new where new: "C' = Choices @ new"
    "\<forall>ch \<in> set new. \<exists>m \<in> set (match Results). bc_unichar_id ch = unichar_id m \<and>
        bc_rating ch = (if BlobLength Results = 0 then 100
             else rating m * rating_scale par * real_of_int (BlobLength Results)) \<and>
        bc_certainty ch = (if BlobLength Results = 0 then - 20
             else - rating m * certainty_scale par)"
    by blast
  have d: "drop (length Choices) Choices' = new" "take (length Choices) Choices' = Choices"
    using C new(1) by simp_all
  show ?thesis unfolding d using new(2) by (auto split: if_splits)
qed

lemma example_convert_zero:
  "snd (ConvertMatchesToChoices example_params example_unicharset example_tables example_blob
         (example_results\<lparr>BlobLength := 0\<rparr>) []) =
     [\<lparr>bc_unichar_id = 5, bc_rating = 100, bc_certainty = - 20, bc_fontinfo_id = 0,
       bc_fontinfo_id2 = 0, bc_script_id = 0, bc_min_xheight = 0, bc_max_xheight = 255,
       bc_adapted = False\<rparr>,
      \<lparr>bc_unichar_id = 7, bc_rating = 100, bc_certainty = - 20, bc_fontinfo_id = 0,
       bc_fontinfo_id2 = 0, bc_script_id = 0, bc_min_xheight = 0, bc_max_xheight = 255,
       bc_adapted = False\<rparr>]"
  by (simp add: ConvertMatchesToChoices_def example_results_eq example_tables_def
      example_blob_def example_unicharset_def example_params_def MAX_MATCHES_def Let_def)

lemma example_convert_thirty:
  "snd (ConvertMatchesToChoices example_params example_unicharset example_tables example_blob
         (example_results\<lparr>BlobLength := 30\<rparr>) []) =
     [\<lparr>bc_unichar_id = 5, bc_rating = 40.5, bc_certainty = - 18, bc_fontinfo_id = 0,
       bc_fontinfo_id2 = 0, bc_script_id = 0, bc_min_xheight = 0, bc_max_xheight = 255,
       bc_adapted = False\<rparr>,
      \<lparr>bc_unichar_id = 7, bc_rating = 4.5, bc_certainty = - 2, bc_fontinfo_id = 0,
       bc_fontinfo_id2 = 0, bc_script_id = 0, bc_min_xheight = 0, bc_max_xheight = 255,
       bc_adapted = False\<rparr>]"
  by (simp add: ConvertMatchesToChoices_def example_results_eq example_tables_def
      example_blob_def example_unicharset_def example_params_def MAX_MATCHES_def Let_def)

theorem ConvertMatchesToChoices_ratings_witness:
  "map (\<lambda>ch. (bc_unichar_id ch, bc_rating ch, bc_certainty ch))
     (snd (ConvertMatchesToChoices example_params example_unicharset example_tables
        example_blob (example_results\<lparr>BlobLength := 0\<rparr>) [])) =
     [(5, 100, - 20), (7, 100, - 20)] \<and>
   map (\<lambda>ch. (bc_unichar_id ch, bc_rating ch, bc_certainty ch))
     (snd (ConvertMatchesToChoices example_params example_unicharset example_tables
        example_blob (example_results\<lparr>BlobLength := 30\<rparr>) [])) =
     [(5, 0.9 * rating_scale example_params * 30, - 0.9 * certainty_scale example_params),
      (7, 0.1 * rating_scale example_params * 30, - 0.1 * certainty_scale example_params)]"
proof -
  let ?z = "ConvertMatchesToChoices example_params example_unicharset example_tables
        example_blob (example_results\<lparr>BlobLength := 0\<rparr>) []"
  let ?t = "ConvertMatchesToChoices example_params example_unicharset example_tables
        example_blob (example_results\<lparr>BlobLength := 30\<rparr>) []"
  have z: "?z = (fst ?z, snd ?z)" and t: "?t = (fst ?t, snd ?t)" by simp_all
  from ConvertMatchesToChoices_ratings [OF z]
  have "\<forall>ch \<in> set (snd ?z). bc_rating ch = 100 \<and> bc_certainty ch = - 20" by simp
  then have 1: "map (\<lambda>ch. (bc_unichar_id ch, bc_rating ch, bc_certainty ch)) (snd ?z) =
      map (\<lambda>ch. (bc_unichar_id ch, 100, - 20)) (snd ?z)" by simp
  from ConvertMatchesToChoices_ratings [OF t]
  have "\<forall>ch \<in> set (snd ?t). \<exists>m \<in> set (match example_results).
      bc_unichar_id ch = unichar_id m \<and>
      bc_rating ch = rating m * rating_scale example_params * 30 \<and>
      bc_certainty ch = - rating m * certainty_scale example_params" by simp
  then have 2: "\<forall>ch \<in> set (snd ?t).
      (bc_unichar_id ch = 5 \<longrightarrow> bc_rating ch = 0.9 * rating_scale example_params * 30 \<and>
         bc_certainty ch = - 0.9 * certainty_scale example_params) \<and>
      (bc_unichar_id ch = 7 \<longrightarrow> bc_rating ch = 0.1 * rating_scale example_params * 30 \<and>
         bc_certainty ch = - 0.1 * certainty_scale example_params)"
    by (auto simp add: example_results_eq)
  show ?thesis
  proof
    show "map (\<lambda>ch. (bc_unichar_id ch, bc_rating ch, bc_certainty ch)) (snd ?z) =
       [(5, 100, - 20), (7, 100, - 20)]"
      unfolding 1 by (simp add: example_convert_zero)
  next
    have ids: "map bc_unichar_id (snd ?t) = [5, 7]" by (simp add: example_convert_thirty)
    then obtain c5 c7 where c: "snd ?t = [c5, c7]" "bc_unichar_id c5 = 5" "bc_unichar_id c7 = 7"
      by auto
    with 2 show "map (\<lambda>ch. (bc_unichar_id ch, bc_rating ch, bc_certainty ch)) (snd ?t) =
       [(5, 0.9 * rating_scale example_params * 30, - 0.9 * certainty_scale example_params),
        (7, 0.1 * rating_scale example_params * 30, - 0.1 * certainty_scale example_params)]"
      by simp
  qed
qed

section \<open>The claims about the classifier pipeline\<close>

subsection \<open>C4: the noise candidate\<close>

text \<open>
  C4: take the result set the matching paths of \<^verbatim>\<open>DoAdaptiveMatch\<close> leave, started on the
  initialized result set, with a pad that is not negative, a positive
  \<^verbatim>\<open>matcher_avg_noise_size\<close> and \<^verbatim>\<open>NO_CLASS\<close> not a fragment. If every match is a fragment
  (in particular if there is none), \<^verbatim>\<open>DoAdaptiveMatch\<close> appends one candidate of the class
  \<^verbatim>\<open>NO_CLASS\<close>, rated (blob length / average noise size) squared over 1 plus that square;
  it becomes the best match, and it is the only candidate of \<^verbatim>\<open>NO_CLASS\<close> afterwards. If
  some match is not a fragment, nothing is added. The blob length is the one the feature
  extractor reported, and the rating is strictly increasing in the blob length, from 0 on.
\<close>

theorem DoAdaptiveMatch_noise:
  assumes paths: "matching_paths par u tabs Blob T
       (stats\<lparr>AdaptiveMatcherCalls := AdaptiveMatcherCalls stats + 1\<rparr>, Initialize) =
       Inr (stats', R)"
    and pad: "0 \<le> matcher_bad_match_pad par"
    and avg: "0 < matcher_avg_noise_size par"
    and nf: "\<not> get_fragment u NO_CLASS"
  shows "((\<forall>m \<in> set (match R). get_fragment u (unichar_id m)) \<longrightarrow>
      DoAdaptiveMatch par u tabs Blob T (stats, Initialize) =
        Inr (stats',
          R\<lparr>HasNonfragment := True,
            match := match R @
              [\<lparr>unichar_id = NO_CLASS, shape_id = - 1,
                rating = noise_rating (matcher_avg_noise_size par) (BlobLength R),
                adapted = False, config = word_of_int (- 1),
                fontinfo_id = word_of_int kBlankFontinfoId,
                fontinfo_id2 = word_of_int kBlankFontinfoId\<rparr>],
            best_match :=
              \<lparr>unichar_id = NO_CLASS, shape_id = - 1,
                rating = noise_rating (matcher_avg_noise_size par) (BlobLength R),
                adapted = False, config = word_of_int (- 1),
                fontinfo_id = word_of_int kBlankFontinfoId,
                fontinfo_id2 = word_of_int kBlankFontinfoId\<rparr>\<rparr>) \<and>
      length (filter (\<lambda>m. unichar_id m = NO_CLASS)
        (match R @
          [\<lparr>unichar_id = NO_CLASS, shape_id = - 1,
            rating = noise_rating (matcher_avg_noise_size par) (BlobLength R),
            adapted = False, config = word_of_int (- 1),
            fontinfo_id = word_of_int kBlankFontinfoId,
            fontinfo_id2 = word_of_int kBlankFontinfoId\<rparr>])) = 1) \<and>
    ((\<exists>m \<in> set (match R). \<not> get_fragment u (unichar_id m)) \<longrightarrow>
      DoAdaptiveMatch par u tabs Blob T (stats, Initialize) = Inr (stats', R)) \<and>
    BlobLength R = NumBL Blob \<and>
    (\<forall>b1 b2. 0 \<le> b1 \<and> b1 < b2 \<longrightarrow>
       noise_rating (matcher_avg_noise_size par) b1 <
       noise_rating (matcher_avg_noise_size par) b2)"
proof -
  from matching_paths_ok[OF paths] results_inv_Initialize[of u]
  have inv: "results_inv u R" and bl: "BlobLength R = NumBL Blob"
    by (simp_all add: path_ok_def)
  have run: "DoAdaptiveMatch par u tabs Blob T (stats, Initialize) =
      (if \<not> HasNonfragment R \<or> NumMatches R = 0
       then Inr (stats', ClassifyAsNoise par u R) else Inr (stats', R))"
    using paths by (simp add: DoAdaptiveMatch_def)
  have hn: "HasNonfragment R \<longleftrightarrow> (\<exists>m \<in> set (match R). \<not> get_fragment u (unichar_id m))"
    using inv unfolding results_inv_def by blast
  have 1: "DoAdaptiveMatch par u tabs Blob T (stats, Initialize) =
        Inr (stats',
          R\<lparr>HasNonfragment := True,
            match := match R @
              [\<lparr>unichar_id = NO_CLASS, shape_id = - 1,
                rating = noise_rating (matcher_avg_noise_size par) (BlobLength R),
                adapted = False, config = word_of_int (- 1),
                fontinfo_id = word_of_int kBlankFontinfoId,
                fontinfo_id2 = word_of_int kBlankFontinfoId\<rparr>],
            best_match :=
              \<lparr>unichar_id = NO_CLASS, shape_id = - 1,
                rating = noise_rating (matcher_avg_noise_size par) (BlobLength R),
                adapted = False, config = word_of_int (- 1),
                fontinfo_id = word_of_int kBlankFontinfoId,
                fontinfo_id2 = word_of_int kBlankFontinfoId\<rparr>\<rparr>)"
    if frags: "\<forall>m \<in> set (match R). get_fragment u (unichar_id m)"
  proof -
    from frags hn have "\<not> HasNonfragment R" by blast
    with run have "DoAdaptiveMatch par u tabs Blob T (stats, Initialize) =
       Inr (stats', ClassifyAsNoise par u R)" by simp
    then show ?thesis unfolding ClassifyAsNoise_adds[OF inv pad nf frags] .
  qed
  have 2: "length (filter (\<lambda>m. unichar_id m = NO_CLASS)
        (match R @
          [\<lparr>unichar_id = NO_CLASS, shape_id = - 1,
            rating = noise_rating (matcher_avg_noise_size par) (BlobLength R),
            adapted = False, config = word_of_int (- 1),
            fontinfo_id = word_of_int kBlankFontinfoId,
            fontinfo_id2 = word_of_int kBlankFontinfoId\<rparr>])) = 1"
    if frags: "\<forall>m \<in> set (match R). get_fragment u (unichar_id m)"
  proof -
    from frags nf have "\<forall>m \<in> set (match R). unichar_id m \<noteq> NO_CLASS" by auto
    then have "filter (\<lambda>m. unichar_id m = NO_CLASS) (match R) = []"
      by (simp add: filter_empty_conv)
    then show ?thesis by simp
  qed
  have 3: "DoAdaptiveMatch par u tabs Blob T (stats, Initialize) = Inr (stats', R)"
    if ex: "\<exists>m \<in> set (match R). \<not> get_fragment u (unichar_id m)"
  proof -
    from ex hn have "HasNonfragment R" by blast
    moreover from ex have "match R \<noteq> []" by auto
    then have "NumMatches R \<noteq> 0" by (simp add: NumMatches_def)
    ultimately show ?thesis using run by simp
  qed
  have 4: "noise_rating (matcher_avg_noise_size par) b1 <
       noise_rating (matcher_avg_noise_size par) b2" if "0 \<le> b1 \<and> b1 < b2" for b1 b2
    using that avg by (intro noise_rating_strict_mono) simp_all
  show ?thesis
    apply (intro conjI impI allI)
    subgoal by (rule 1)
    subgoal by (rule 2)
    subgoal by (rule 3)
    subgoal by (rule bl)
    subgoal by (rule 4)
    done
qed

theorem DoAdaptiveMatch_noise_witness:
  "DoAdaptiveMatch example_params example_unicharset example_tables example_fragment_blob
     (NewAdaptedTemplates example_tables) (example_stats, Initialize) =
   Inr (example_stats\<lparr>AdaptiveMatcherCalls := 1, CharNormClassifierCalls := 1,
          NumCharNormClassesTried := 1\<rparr>,
        \<lparr>BlobLength = 30, HasNonfragment = True,
         match = [\<lparr>unichar_id = 6, shape_id = - 1, rating = 0.5, adapted = False,
                    config = 0, fontinfo_id = 3, fontinfo_id2 = 4\<rparr>,
                  \<lparr>unichar_id = NO_CLASS, shape_id = - 1, rating = 25 / 29, adapted = False,
                    config = - 1, fontinfo_id = - 2, fontinfo_id2 = - 2\<rparr>],
         best_match = \<lparr>unichar_id = NO_CLASS, shape_id = - 1, rating = 25 / 29,
                    adapted = False, config = - 1, fontinfo_id = - 2, fontinfo_id2 = - 2\<rparr>\<rparr>) \<and>
   noise_rating (matcher_avg_noise_size example_params) 30 <
     noise_rating (matcher_avg_noise_size example_params) 31"
proof -
  have pad: "0 \<le> matcher_bad_match_pad example_params"
    and avg: "0 < matcher_avg_noise_size example_params"
    by (simp_all add: example_params_def)
  have nf: "\<not> get_fragment example_unicharset NO_CLASS"
    by (simp add: example_unicharset_def NO_CLASS_def)
  note t = DoAdaptiveMatch_noise [OF example_fragment_paths pad avg nf]
  have frags: "\<forall>m \<in> set (match (Initialize\<lparr>BlobLength := 30,
          match := [\<lparr>unichar_id = 6, shape_id = - 1, rating = 0.5, adapted = False,
                     config = 0, fontinfo_id = 3, fontinfo_id2 = 4\<rparr>]\<rparr>)).
      get_fragment example_unicharset (unichar_id m)"
    by (simp add: example_unicharset_def)
  have n: "noise_rating (matcher_avg_noise_size example_params) 30 = 25 / 29"
    by (simp add: noise_rating_def example_params_def power2_eq_square)
  from t[THEN conjunct1, THEN mp, OF frags, THEN conjunct1]
  have 1: "DoAdaptiveMatch example_params example_unicharset example_tables example_fragment_blob
     (NewAdaptedTemplates example_tables) (example_stats, Initialize) =
   Inr (example_stats\<lparr>AdaptiveMatcherCalls := 1, CharNormClassifierCalls := 1,
          NumCharNormClassesTried := 1\<rparr>,
        \<lparr>BlobLength = 30, HasNonfragment = True,
         match = [\<lparr>unichar_id = 6, shape_id = - 1, rating = 0.5, adapted = False,
                    config = 0, fontinfo_id = 3, fontinfo_id2 = 4\<rparr>,
                  \<lparr>unichar_id = NO_CLASS, shape_id = - 1, rating = 25 / 29, adapted = False,
                    config = - 1, fontinfo_id = - 2, fontinfo_id2 = - 2\<rparr>],
         best_match = \<lparr>unichar_id = NO_CLASS, shape_id = - 1, rating = 25 / 29,
                    adapted = False, config = - 1, fontinfo_id = - 2, fontinfo_id2 = - 2\<rparr>\<rparr>)"
    by (simp add: n Initialize_def kBlankFontinfoId_def)
  from t have 2: "noise_rating (matcher_avg_noise_size example_params) 30 <
     noise_rating (matcher_avg_noise_size example_params) 31" by simp
  from 1 2 show ?thesis by (rule conjI)
qed

subsection \<open>C3: the choice of the matching paths\<close>

text \<open>
  C3: for a call of \<^verbatim>\<open>DoAdaptiveMatch\<close> that returns. If the number of permanent classes
  of the adapted templates is below \<^verbatim>\<open>matcher_permanent_classes_min\<close>, or \<^verbatim>\<open>tess_cn_matching\<close>
  is set, the character normalized classifier is run, on the state of the call, and it is
  the only path: its counter of calls goes up by one, the counters of the baseline and of
  the ambiguity classifier stay, and the call returns the result set that classifier left
  (with the noise candidate where \<^verbatim>\<open>DoAdaptiveMatch\<close> adds it). Otherwise the baseline classifier is run first, once,
  and the character normalized classifier is run afterwards, on the state the baseline
  classifier left, exactly when the baseline classifier left no match, or the best rating
  is above \<^verbatim>\<open>matcher_great_threshold\<close> and \<^verbatim>\<open>tess_bn_matching\<close> is off; in the other case
  its counter of calls stays.
\<close>

theorem DoAdaptiveMatch_paths:
  assumes run: "DoAdaptiveMatch par u tabs Blob T (stats, Results) = Inr (stats', Results')"
  shows
   "(NumPermClasses T < matcher_permanent_classes_min par \<or> tess_cn_matching par \<longrightarrow>
       (\<exists>n R. CharNormClassifier par u tabs Blob
                 (stats\<lparr>AdaptiveMatcherCalls := AdaptiveMatcherCalls stats + 1\<rparr>, Results) =
               Inr (n, stats', R) \<and>
               Results' = (if \<not> HasNonfragment R \<or> NumMatches R = 0
                           then ClassifyAsNoise par u R else R)) \<and>
       BaselineClassifierCalls stats' = BaselineClassifierCalls stats \<and>
       AmbigClassifierCalls stats' = AmbigClassifierCalls stats \<and>
       CharNormClassifierCalls stats' = CharNormClassifierCalls stats + 1) \<and>
    (\<not> (NumPermClasses T < matcher_permanent_classes_min par \<or> tess_cn_matching par) \<longrightarrow>
       (\<exists>amb stats1 R1.
          BaselineClassifier par u tabs Blob T
            (stats\<lparr>AdaptiveMatcherCalls := AdaptiveMatcherCalls stats + 1\<rparr>, Results) =
            Inr (amb, stats1, R1) \<and>
          BaselineClassifierCalls stats' = BaselineClassifierCalls stats + 1 \<and>
          (if NumMatches R1 = 0 \<or>
              (rating (best_match R1) > matcher_great_threshold par \<and> \<not> tess_bn_matching par)
           then CharNormClassifierCalls stats' = CharNormClassifierCalls stats + 1 \<and>
                (\<exists>n R2. CharNormClassifier par u tabs Blob (stats1, R1) = Inr (n, stats', R2) \<and>
                   Results' = (if \<not> HasNonfragment R2 \<or> NumMatches R2 = 0
                               then ClassifyAsNoise par u R2 else R2))
           else CharNormClassifierCalls stats' = CharNormClassifierCalls stats)))"
proof -
  let ?s = "stats\<lparr>AdaptiveMatcherCalls := AdaptiveMatcherCalls stats + 1\<rparr>"
  from run obtain R where paths: "matching_paths par u tabs Blob T (?s, Results) = Inr (stats', R)"
    and res: "Results' = (if \<not> HasNonfragment R \<or> NumMatches R = 0
                          then ClassifyAsNoise par u R else R)"
    by (auto simp: DoAdaptiveMatch_def split: sum.splits if_splits)
  show ?thesis
  proof (cases "NumPermClasses T < matcher_permanent_classes_min par \<or> tess_cn_matching par")
    case True
    with paths obtain n where
      c: "CharNormClassifier par u tabs Blob (?s, Results) = Inr (n, stats', R)"
      by (auto simp: matching_paths_def split: sum.splits)
    from c res have "\<exists>n R. CharNormClassifier par u tabs Blob (?s, Results) =
               Inr (n, stats', R) \<and>
               Results' = (if \<not> HasNonfragment R \<or> NumMatches R = 0
                           then ClassifyAsNoise par u R else R)" by blast
    with CharNormClassifier_ok(2-4)[OF c] True show ?thesis by simp
  next
    case False
    with paths obtain amb stats1 R1 where
      b: "BaselineClassifier par u tabs Blob T (?s, Results) = Inr (amb, stats1, R1)"
      by (auto simp: matching_paths_def split: sum.splits)
    note bc = BaselineClassifier_ok(2-4)[OF b]
    let ?cn = "NumMatches R1 = 0 \<or>
              (rating (best_match R1) > matcher_great_threshold par \<and> \<not> tess_bn_matching par)"
    have len: "0 \<le> NumMatches R1" by (simp add: NumMatches_def)
    have cond: "((NumMatches R1 > 0 \<and> MarginalMatch par (rating (best_match R1)) \<and>
                \<not> tess_bn_matching par) \<or> NumMatches R1 = 0) \<longleftrightarrow> ?cn"
      using len by (auto simp: MarginalMatch_def)
    have "if ?cn
           then CharNormClassifierCalls stats' = CharNormClassifierCalls stats + 1 \<and>
                (\<exists>n R2. CharNormClassifier par u tabs Blob (stats1, R1) = Inr (n, stats', R2) \<and>
                   Results' = (if \<not> HasNonfragment R2 \<or> NumMatches R2 = 0
                               then ClassifyAsNoise par u R2 else R2))
           else CharNormClassifierCalls stats' = CharNormClassifierCalls stats"
    proof (cases ?cn)
      case True
      with paths False b cond obtain n where
        c: "CharNormClassifier par u tabs Blob (stats1, R1) = Inr (n, stats', R)"
        by (auto simp: matching_paths_def split: sum.splits)
      from CharNormClassifier_ok(3)[OF c] bc have
        "CharNormClassifierCalls stats' = CharNormClassifierCalls stats + 1" by simp
      moreover from c res have "\<exists>n R2. CharNormClassifier par u tabs Blob (stats1, R1) =
               Inr (n, stats', R2) \<and>
               Results' = (if \<not> HasNonfragment R2 \<or> NumMatches R2 = 0
                           then ClassifyAsNoise par u R2 else R2)" by blast
      ultimately show ?thesis using True by simp
    next
      case ncn: False
      with cond have nc: "\<not> ((NumMatches R1 > 0 \<and> MarginalMatch par (rating (best_match R1)) \<and>
                \<not> tess_bn_matching par) \<or> NumMatches R1 = 0)" by blast
      from paths False b nc have
        "AmbigClassifier par u tabs Blob (the amb) (stats1, R1) = Inr (stats', R) \<or>
         stats' = stats1"
        unfolding matching_paths_def by (simp split: if_splits)
      then have "CharNormClassifierCalls stats' = CharNormClassifierCalls stats1"
        using AmbigClassifier_ok(3) by blast
      with bc ncn show ?thesis by simp
    qed
    moreover have "BaselineClassifierCalls stats' = BaselineClassifierCalls stats + 1"
    proof -
      from paths False b have
        "(\<exists>n. CharNormClassifier par u tabs Blob (stats1, R1) = Inr (n, stats', R)) \<or>
         AmbigClassifier par u tabs Blob (the amb) (stats1, R1) = Inr (stats', R) \<or>
         stats' = stats1"
        by (auto simp: matching_paths_def split: if_splits sum.splits)
      then have "BaselineClassifierCalls stats' = BaselineClassifierCalls stats1"
        using AmbigClassifier_ok(2) CharNormClassifier_ok(2) by blast
      with bc show ?thesis by simp
    qed
    ultimately show ?thesis using False b by blast
  qed
qed

theorem DoAdaptiveMatch_paths_witness:
  "\<not> (NumPermClasses example_templates < matcher_permanent_classes_min example_params \<or>
       tess_cn_matching example_params) \<and>
   (\<exists>stats' Results'.
      DoAdaptiveMatch example_params example_unicharset example_tables example_blob
        example_templates (example_stats, Initialize) = Inr (stats', Results') \<and>
      BaselineClassifierCalls stats' = 1 \<and> CharNormClassifierCalls stats' = 1) \<and>
   (\<exists>stats' Results'.
      DoAdaptiveMatch (example_params\<lparr>matcher_great_threshold := 0.2\<rparr>) example_unicharset
        example_tables example_blob example_templates (example_stats, Initialize) =
        Inr (stats', Results') \<and>
      BaselineClassifierCalls stats' = 1 \<and> CharNormClassifierCalls stats' = 0) \<and>
   NumPermClasses (NewAdaptedTemplates example_tables) <
     matcher_permanent_classes_min example_params \<and>
   (\<exists>stats' Results'.
      DoAdaptiveMatch example_params example_unicharset example_tables example_fragment_blob
        (NewAdaptedTemplates example_tables) (example_stats, Initialize) =
        Inr (stats', Results') \<and>
      BaselineClassifierCalls stats' = 0 \<and> CharNormClassifierCalls stats' = 1 \<and>
      AmbigClassifierCalls stats' = 0)"
proof -
  have perm: "\<not> (NumPermClasses example_templates < matcher_permanent_classes_min example_params \<or>
       tess_cn_matching example_params)"
    "\<not> (NumPermClasses example_templates <
          matcher_permanent_classes_min (example_params\<lparr>matcher_great_threshold := 0.2\<rparr>) \<or>
        tess_cn_matching (example_params\<lparr>matcher_great_threshold := 0.2\<rparr>))"
    "NumPermClasses (NewAdaptedTemplates example_tables) <
       matcher_permanent_classes_min example_params"
    by (simp_all add: example_defs)
  have z: "BaselineClassifierCalls example_stats = 0" "CharNormClassifierCalls example_stats = 0"
    "AmbigClassifierCalls example_stats = 0"
    by (simp_all add: example_stats_def)
  have b2: "\<not> (NumMatches R1 = 0 \<or> rating (best_match R1) >
       matcher_great_threshold (example_params\<lparr>matcher_great_threshold := 0.2\<rparr>) \<and>
       \<not> tess_bn_matching (example_params\<lparr>matcher_great_threshold := 0.2\<rparr>))"
    if "BaselineClassifier (example_params\<lparr>matcher_great_threshold := 0.2\<rparr>)
          example_unicharset example_tables example_blob example_templates
          (example_stats\<lparr>AdaptiveMatcherCalls := AdaptiveMatcherCalls example_stats + 1\<rparr>,
           Initialize) = Inr (amb, stats1, R1)" for amb stats1 R1
    using that by (auto simp add: path_defs example_defs)
  from DoAdaptiveMatch_paths[OF example_run_baseline_charnorm, THEN conjunct2, THEN mp, OF perm(1)]
  obtain amb stats1 R1 where 1:
    "BaselineClassifier example_params example_unicharset example_tables example_blob
          example_templates
          (example_stats\<lparr>AdaptiveMatcherCalls := AdaptiveMatcherCalls example_stats + 1\<rparr>,
           Initialize) = Inr (amb, stats1, R1)"
    "BaselineClassifierCalls \<lparr>AdaptiveMatcherCalls = 1, BaselineClassifierCalls = 1,
         CharNormClassifierCalls = 1, AmbigClassifierCalls = 0,
         NumBaselineClassesTried = 1, NumCharNormClassesTried = 2,
         NumAmbigClassesTried = 0, NumClassesOutput = 0\<rparr> =
       BaselineClassifierCalls example_stats + 1"
    by blast
  have w1: "\<exists>stats' Results'.
      DoAdaptiveMatch example_params example_unicharset example_tables example_blob
        example_templates (example_stats, Initialize) = Inr (stats', Results') \<and>
      BaselineClassifierCalls stats' = 1 \<and> CharNormClassifierCalls stats' = 1"
    using 1(2) unfolding example_run_baseline_charnorm z by simp
  from DoAdaptiveMatch_paths[OF example_run_baseline_ambig, THEN conjunct2, THEN mp, OF perm(2)]
  obtain amb2 stats2 R2 where 2:
    "BaselineClassifier (example_params\<lparr>matcher_great_threshold := 0.2\<rparr>)
          example_unicharset example_tables example_blob example_templates
          (example_stats\<lparr>AdaptiveMatcherCalls := AdaptiveMatcherCalls example_stats + 1\<rparr>,
           Initialize) = Inr (amb2, stats2, R2)"
    "NumMatches R2 = 0 \<or> rating (best_match R2) >
       matcher_great_threshold (example_params\<lparr>matcher_great_threshold := 0.2\<rparr>) \<and>
       \<not> tess_bn_matching (example_params\<lparr>matcher_great_threshold := 0.2\<rparr>) \<or>
     CharNormClassifierCalls \<lparr>AdaptiveMatcherCalls = 1, BaselineClassifierCalls = 1,
         CharNormClassifierCalls = 0, AmbigClassifierCalls = 1,
         NumBaselineClassesTried = 1, NumCharNormClassesTried = 0,
         NumAmbigClassesTried = 1, NumClassesOutput = 0\<rparr> =
          CharNormClassifierCalls example_stats"
    by (metis (no_types, lifting))
  have w2: "\<exists>stats' Results'.
      DoAdaptiveMatch (example_params\<lparr>matcher_great_threshold := 0.2\<rparr>) example_unicharset
        example_tables example_blob example_templates (example_stats, Initialize) =
        Inr (stats', Results') \<and>
      BaselineClassifierCalls stats' = 1 \<and> CharNormClassifierCalls stats' = 0"
    using 2(2) b2[OF 2(1)] unfolding example_run_baseline_ambig z by simp
  have w3: "\<exists>stats' Results'.
      DoAdaptiveMatch example_params example_unicharset example_tables example_fragment_blob
        (NewAdaptedTemplates example_tables) (example_stats, Initialize) =
        Inr (stats', Results') \<and>
      BaselineClassifierCalls stats' = 0 \<and> CharNormClassifierCalls stats' = 1 \<and>
      AmbigClassifierCalls stats' = 0"
  proof -
    obtain s r where e: "DoAdaptiveMatch example_params example_unicharset example_tables
        example_fragment_blob (NewAdaptedTemplates example_tables) (example_stats, Initialize) =
        Inr (s, r)"
      using example_run_charnorm by blast
    from DoAdaptiveMatch_paths[OF e, THEN conjunct1, THEN mp] perm(3)
    have "BaselineClassifierCalls s = BaselineClassifierCalls example_stats \<and>
       AmbigClassifierCalls s = AmbigClassifierCalls example_stats \<and>
       CharNormClassifierCalls s = CharNormClassifierCalls example_stats + 1" by blast
    with e show ?thesis unfolding z by simp
  qed
  from perm(1) w1 w2 perm(3) w3 show ?thesis by blast
qed

subsection \<open>C8: the ambiguities of the best match\<close>

lemma BaselineClassifier_after_match:
  assumes f: "FeaturesOK Blob" "0 < NumBL Blob"
    and mm: "MasterMatcher par u tabs (im_BaseLine Blob) (\<lambda>c. 0) (Some (Class T))
               (bounding_box_top Blob) (bounding_box_bottom Blob) (BaselinePruned Blob)
               (Results\<lparr>BlobLength := NumBL Blob\<rparr>) = Inr R2"
    and best: "unichar_id (best_match R2) \<noteq> NO_CLASS"
    and cls: "Class T (unichar_id (best_match R2)) = Some cls"
  shows "BaselineClassifier par u tabs Blob T (stats, Results) =
     (case get_checked (Config cls) (sint (config (best_match R2))) of
        Inl e \<Rightarrow> Inl e
      | Inr None \<Rightarrow> Inl NullPointer
      | Inr (Some (Temp t)) \<Rightarrow> Inl InvalidVariantRead
      | Inr (Some (Perm p)) \<Rightarrow>
          Inr (Some (Ambigs p),
               stats\<lparr>BaselineClassifierCalls := BaselineClassifierCalls stats + 1,
                 NumBaselineClassesTried :=
                   NumBaselineClassesTried stats + int (length (BaselinePruned Blob))\<rparr>,
               R2))"
  using f mm best cls
  by (auto simp add: BaselineClassifier_def GetBaselineFeatures_def Let_def
      split: sum.splits option.splits ADAPTED_CONFIG.splits)

text \<open>
  C8: take a baseline classification whose features were extracted, whose matching
  returned, and whose best match is a class other than \<^verbatim>\<open>NO_CLASS\<close> that the adapted
  templates hold. If the config of the best match is permanent, \<^verbatim>\<open>BaselineClassifier\<close>
  returns the ambiguities of that permanent config; if it is temporary, the read through
  the permanent variant is invalid; and \<^verbatim>\<open>BaselineClassifier\<close> returns at all exactly when
  the config of the best match is permanent. When it returns a list that starts with a
  class, and neither the character normalized path nor \<^verbatim>\<open>tess_bn_matching\<close> applies, that
  list is the one \<^verbatim>\<open>AmbigClassifier\<close> is run on.
\<close>

theorem BaselineClassifier_ambiguities:
  assumes f: "FeaturesOK Blob" "0 < NumBL Blob"
    and mm: "MasterMatcher par u tabs (im_BaseLine Blob) (\<lambda>c. 0) (Some (Class T))
               (bounding_box_top Blob) (bounding_box_bottom Blob) (BaselinePruned Blob)
               (Results\<lparr>BlobLength := NumBL Blob\<rparr>) = Inr R2"
    and best: "unichar_id (best_match R2) \<noteq> NO_CLASS"
    and cls: "Class T (unichar_id (best_match R2)) = Some cls"
  shows
   "(\<forall>p. get_checked (Config cls) (sint (config (best_match R2))) = Inr (Some (Perm p)) \<longrightarrow>
       BaselineClassifier par u tabs Blob T (stats, Results) =
         Inr (Some (Ambigs p),
              stats\<lparr>BaselineClassifierCalls := BaselineClassifierCalls stats + 1,
                NumBaselineClassesTried :=
                  NumBaselineClassesTried stats + int (length (BaselinePruned Blob))\<rparr>,
              R2)) \<and>
    (\<forall>t. get_checked (Config cls) (sint (config (best_match R2))) = Inr (Some (Temp t)) \<longrightarrow>
       BaselineClassifier par u tabs Blob T (stats, Results) = Inl InvalidVariantRead) \<and>
    ((\<exists>r. BaselineClassifier par u tabs Blob T (stats, Results) = Inr r) \<longleftrightarrow>
     (\<exists>p. get_checked (Config cls) (sint (config (best_match R2))) = Inr (Some (Perm p)))) \<and>
    (\<forall>p a as.
       get_checked (Config cls) (sint (config (best_match R2))) = Inr (Some (Perm p)) \<and>
       \<not> (NumPermClasses T < matcher_permanent_classes_min par \<or> tess_cn_matching par) \<and>
       \<not> (NumMatches R2 = 0 \<or>
          (rating (best_match R2) > matcher_great_threshold par \<and> \<not> tess_bn_matching par)) \<and>
       Ambigs p = a # as \<and> 0 \<le> a \<and> \<not> tess_bn_matching par \<longrightarrow>
       matching_paths par u tabs Blob T (stats, Results) =
         AmbigClassifier par u tabs Blob (Ambigs p)
           (stats\<lparr>BaselineClassifierCalls := BaselineClassifierCalls stats + 1,
              NumBaselineClassesTried :=
                NumBaselineClassesTried stats + int (length (BaselinePruned Blob))\<rparr>,
            R2))"
proof -
  note bc = BaselineClassifier_after_match[OF f mm best cls, of stats]
  let ?slot = "get_checked (Config cls) (sint (config (best_match R2)))"
  let ?s2 = "stats\<lparr>BaselineClassifierCalls := BaselineClassifierCalls stats + 1,
                NumBaselineClassesTried :=
                  NumBaselineClassesTried stats + int (length (BaselinePruned Blob))\<rparr>"
  have 1: "BaselineClassifier par u tabs Blob T (stats, Results) = Inr (Some (Ambigs p), ?s2, R2)"
    if "?slot = Inr (Some (Perm p))" for p
    using that by (simp add: bc)
  have 2: "BaselineClassifier par u tabs Blob T (stats, Results) = Inl InvalidVariantRead"
    if "?slot = Inr (Some (Temp t))" for t
    using that by (simp add: bc)
  have 3: "(\<exists>r. BaselineClassifier par u tabs Blob T (stats, Results) = Inr r) \<longleftrightarrow>
     (\<exists>p. ?slot = Inr (Some (Perm p)))"
    unfolding bc by (auto split: sum.splits option.splits ADAPTED_CONFIG.splits)
  have 4: "matching_paths par u tabs Blob T (stats, Results) =
         AmbigClassifier par u tabs Blob (Ambigs p) (?s2, R2)"
    if h: "?slot = Inr (Some (Perm p)) \<and>
       \<not> (NumPermClasses T < matcher_permanent_classes_min par \<or> tess_cn_matching par) \<and>
       \<not> (NumMatches R2 = 0 \<or>
          (rating (best_match R2) > matcher_great_threshold par \<and> \<not> tess_bn_matching par)) \<and>
       Ambigs p = a # as \<and> 0 \<le> a \<and> \<not> tess_bn_matching par" for p a as
  proof -
    from h have b: "BaselineClassifier par u tabs Blob T (stats, Results) =
        Inr (Some (Ambigs p), ?s2, R2)" by (simp add: bc)
    from h show ?thesis unfolding matching_paths_def b
      by (auto simp add: MarginalMatch_def)
  qed
  show ?thesis
    apply (intro conjI allI impI)
    subgoal for p by (rule 1)
    subgoal for t by (rule 2)
    subgoal by (rule 3)
    subgoal for p a as by (rule 4)
    done
qed

theorem BaselineClassifier_ambiguities_witness:
  "BaselineClassifier example_params example_unicharset example_tables example_blob
     example_templates (example_stats, Initialize) =
     Inr (Some [7],
          example_stats\<lparr>BaselineClassifierCalls := 1, NumBaselineClassesTried := 1\<rparr>,
          \<lparr>BlobLength = 30, HasNonfragment = True,
           match =
             [\<lparr>unichar_id = 5, shape_id = - 1, rating = 1 / 8, adapted = True,
                 config = 0, fontinfo_id = 3, fontinfo_id2 = - 2\<rparr>],
           best_match =
             \<lparr>unichar_id = 5, shape_id = - 1, rating = 1 / 8, adapted = True,
                config = 0, fontinfo_id = 3, fontinfo_id2 = - 2\<rparr>\<rparr>) \<and>
   BaselineClassifier example_params example_unicharset example_tables example_temp_blob
     example_templates (example_stats, Initialize) = Inl InvalidVariantRead"
proof -
  have f: "FeaturesOK example_blob" "0 < NumBL example_blob"
    "FeaturesOK example_temp_blob" "0 < NumBL example_temp_blob"
    by (simp_all add: example_blob_def example_temp_blob_def)
  let ?c5 = "\<lparr>NumPermConfigs = 1, MaxNumTimesSeen = 6,
                Config = [Some (Perm \<lparr>Ambigs = [7], FontinfoId = 0\<rparr>),
                          Some (Temp \<lparr>NumTimesSeen = 1, MaxProtoId = 2\<rparr>)]\<rparr>"
  let ?c1 = "\<lparr>NumPermConfigs = 0, MaxNumTimesSeen = 3,
                Config = [Some (Temp \<lparr>NumTimesSeen = 3, MaxProtoId = 4\<rparr>)]\<rparr>"
  have 1: "BaselineClassifier example_params example_unicharset example_tables example_blob
     example_templates (example_stats, Initialize) =
     Inr (Some (Ambigs \<lparr>Ambigs = [7], FontinfoId = 0\<rparr>),
          example_stats\<lparr>BaselineClassifierCalls := BaselineClassifierCalls example_stats + 1,
            NumBaselineClassesTried :=
              NumBaselineClassesTried example_stats + int (length (BaselinePruned example_blob))\<rparr>,
          \<lparr>BlobLength = 30, HasNonfragment = True,
           match =
             [\<lparr>unichar_id = 5, shape_id = - 1, rating = 1 / 8, adapted = True,
                 config = 0, fontinfo_id = 3, fontinfo_id2 = - 2\<rparr>],
           best_match =
             \<lparr>unichar_id = 5, shape_id = - 1, rating = 1 / 8, adapted = True,
                config = 0, fontinfo_id = 3, fontinfo_id2 = - 2\<rparr>\<rparr>)"
    by (rule BaselineClassifier_ambiguities [OF f(1,2) example_baseline_match,
          where cls = ?c5, THEN conjunct1, rule_format])
       (simp_all add: NO_CLASS_def example_templates_def get_checked_def)
  have 2: "BaselineClassifier example_params example_unicharset example_tables example_temp_blob
     example_templates (example_stats, Initialize) = Inl InvalidVariantRead"
    by (rule BaselineClassifier_ambiguities [OF f(3,4) example_temp_match,
          where cls = ?c1, THEN conjunct2, THEN conjunct1, rule_format])
       (simp_all add: NO_CLASS_def example_templates_def get_checked_def)
  from 1 2 show ?thesis by (simp add: example_stats_def example_blob_def)
qed

subsection \<open>C10: the fallback choice\<close>

text \<open>
  C10: take a call of \<^verbatim>\<open>AdaptiveClassifier\<close> on a pointer into the store, and what the
  caller's list has become after the conversion and the speckle test. If that list is
  empty, the call returns a store in which the caller's list is still empty and a new
  list, at an index the store did not have, holds the fallback choice alone (class id 0,
  rating 50, certainty -20); no list the caller could reach has gained the fallback choice.
  If that list is not empty, it is what the caller's list holds and nothing is allocated.
\<close>

theorem AdaptiveClassifier_fallback_lost:
  assumes a: "a < length store"
    and cc: "classified_choices par u tabs Blob session (store ! a) = Inr (session', Choices2)"
  shows "(Choices2 = [] \<longrightarrow>
      AdaptiveClassifier par u tabs Blob (Some a) session store =
        Inr (session', store[a := []] @ [[fallback_choice]]) \<and>
      (store[a := []] @ [[fallback_choice]]) ! a = [] \<and>
      (store[a := []] @ [[fallback_choice]]) ! length store = [fallback_choice] \<and>
      length store \<noteq> a \<and>
      (\<forall>b < length store. fallback_choice \<in> set ((store[a := []] @ [[fallback_choice]]) ! b)
          \<longrightarrow> b \<noteq> a \<and> fallback_choice \<in> set (store ! b))) \<and>
    (Choices2 \<noteq> [] \<longrightarrow>
      AdaptiveClassifier par u tabs Blob (Some a) session store =
        Inr (session', store[a := Choices2])) \<and>
    bc_unichar_id fallback_choice = 0 \<and> bc_rating fallback_choice = 50 \<and>
    bc_certainty fallback_choice = - 20"
proof -
  have g: "get_checked store (int a) = Inr (store ! a)"
    using a by (simp add: get_checked_def)
  have 1: "AdaptiveClassifier par u tabs Blob (Some a) session store =
        Inr (session', store[a := []] @ [[fallback_choice]])" if "Choices2 = []"
    using that a cc
    by (simp add: AdaptiveClassifier_def g Let_def list_update_append nth_append)
  have 2: "(store[a := []] @ [[fallback_choice]]) ! a = []"
    using a by (simp add: nth_append)
  have 3: "(store[a := []] @ [[fallback_choice]]) ! length store = [fallback_choice]"
    by (simp add: nth_append)
  have 4: "length store \<noteq> a" using a by simp
  have 5: "b \<noteq> a \<and> fallback_choice \<in> set (store ! b)"
    if "b < length store" "fallback_choice \<in> set ((store[a := []] @ [[fallback_choice]]) ! b)"
    for b
    using that by (cases "b = a") (simp_all add: nth_append)
  have 6: "AdaptiveClassifier par u tabs Blob (Some a) session store =
        Inr (session', store[a := Choices2])" if "Choices2 \<noteq> []"
    using that a cc by (simp add: AdaptiveClassifier_def g Let_def)
  show ?thesis
    apply (intro conjI impI allI)
    subgoal by (rule 1)
    subgoal by (rule 2)
    subgoal by (rule 3)
    subgoal by (rule 4)
    subgoal for b using 5 by blast
    subgoal for b using 5 by blast
    subgoal by (rule 6)
    subgoal by (simp add: fallback_choice_def)
    subgoal by (simp add: fallback_choice_def)
    subgoal by (simp add: fallback_choice_def)
    done
qed

theorem AdaptiveClassifier_fallback_lost_witness:
  "AdaptiveClassifier example_params example_unicharset example_tables example_blob (Some 0)
     example_session [[]] =
   Inr (\<lparr>session_templates = Some example_templates,
         session_stats = \<lparr>AdaptiveMatcherCalls = 1, BaselineClassifierCalls = 1,
           CharNormClassifierCalls = 1, AmbigClassifierCalls = 0,
           NumBaselineClassesTried = 1, NumCharNormClassesTried = 2,
           NumAmbigClassesTried = 0, NumClassesOutput = 0\<rparr>\<rparr>,
        [[], [fallback_choice]])"
proof -
  have a: "0 < length [[] :: BLOB_CHOICE list]" by simp
  have cc: "classified_choices example_params example_unicharset example_tables example_blob
     example_session ([[]] ! 0) =
   Inr (\<lparr>session_templates = Some example_templates,
         session_stats = \<lparr>AdaptiveMatcherCalls = 1, BaselineClassifierCalls = 1,
           CharNormClassifierCalls = 1, AmbigClassifierCalls = 0,
           NumBaselineClassesTried = 1, NumCharNormClassesTried = 2,
           NumAmbigClassesTried = 0, NumClassesOutput = 0\<rparr>\<rparr>, [])"
    using example_classified_empty by simp
  from AdaptiveClassifier_fallback_lost [OF a cc, THEN conjunct1, THEN mp, OF refl, THEN conjunct1]
  show ?thesis by simp
qed

end
